theory Spec2Isabelle
  imports Complex_Main "HOL-Library.Word"
begin

unbundle bit_operations_syntax

text \<open>
  A model of the texture draw operation of \<^verbatim>\<open>src/gpu/ops/GrTextureOp.cpp\<close>: the edge
  equations and the tessellation of one quad, the domain clamp, the two constructors of
  \<^verbatim>\<open>TextureOp\<close>, \<^verbatim>\<open>finalize\<close> and the destructor, \<^verbatim>\<open>onCombineIfPossible\<close>, and the
  choice of the vertex layout in \<^verbatim>\<open>onPrepareDraws\<close>. The definitions come first and keep
  the names of the source; the theorems follow.
\<close>

section \<open>Scalars and four-lane vectors\<close>

text \<open>
  The source computes in single-precision floats (\<^verbatim>\<open>float\<close>, \<^verbatim>\<open>SkScalar\<close>, \<^verbatim>\<open>Sk4f\<close>).
  A scalar is modelled by a real number: the value of a float that is neither an infinity
  nor a NaN. The routine that computes the edge equations is modelled with the rounding of
  every operation (section \<open>Single-precision arithmetic\<close>). Everywhere else the
  operations are those of the real numbers, so the statements about the tessellation and
  the domain are about the exact arithmetic the code approximates.
  \<^verbatim>\<open>Sk4f\<close> is a vector of four lanes; arithmetic on it is lane by lane.
\<close>

datatype 'a x4 = X4 (lane0: 'a) (lane1: 'a) (lane2: 'a) (lane3: 'a)

type_synonym Sk4f = "real x4"

fun zip4 :: "('a \<Rightarrow> 'b \<Rightarrow> 'c) \<Rightarrow> 'a x4 \<Rightarrow> 'b x4 \<Rightarrow> 'c x4" where
  "zip4 f (X4 a0 a1 a2 a3) (X4 b0 b1 b2 b3) = X4 (f a0 b0) (f a1 b1) (f a2 b2) (f a3 b3)"

instantiation x4 :: (plus) plus
begin
definition plus_x4 :: "'a x4 \<Rightarrow> 'a x4 \<Rightarrow> 'a x4" where "plus_x4 = zip4 (+)"
instance ..
end

instantiation x4 :: (minus) minus
begin
definition minus_x4 :: "'a x4 \<Rightarrow> 'a x4 \<Rightarrow> 'a x4" where "minus_x4 = zip4 (-)"
instance ..
end

instantiation x4 :: (times) times
begin
definition times_x4 :: "'a x4 \<Rightarrow> 'a x4 \<Rightarrow> 'a x4" where "times_x4 = zip4 (*)"
instance ..
end

instantiation x4 :: (uminus) uminus
begin
definition uminus_x4 :: "'a x4 \<Rightarrow> 'a x4" where "uminus_x4 = map_x4 uminus"
instance ..
end

text \<open>\<^verbatim>\<open>Sk4f(s)\<close>: the scalar in every lane.\<close>

definition splat :: "'a \<Rightarrow> 'a x4" where
  "splat s = X4 s s s s"

text \<open>\<^verbatim>\<open>anyTrue()\<close> and \<^verbatim>\<open>allTrue()\<close> of a lane-wise comparison.\<close>

definition anyTrue :: "bool x4 \<Rightarrow> bool" where
  "anyTrue m = (lane0 m \<or> lane1 m \<or> lane2 m \<or> lane3 m)"

definition allTrue :: "bool x4 \<Rightarrow> bool" where
  "allTrue m = (lane0 m \<and> lane1 m \<and> lane2 m \<and> lane3 m)"

text \<open>Reading lane \<open>i\<close> of a vector, as \<^verbatim>\<open>v[i]\<close> or \<^verbatim>\<open>store\<close> followed by an index.\<close>

definition lane :: "'a x4 \<Rightarrow> nat \<Rightarrow> 'a" where
  "lane v i = (if i = 0 then lane0 v else if i = 1 then lane1 v
               else if i = 2 then lane2 v else lane3 v)"

section \<open>Single-precision arithmetic\<close>

text \<open>
  \<^verbatim>\<open>SkNx.h\<close>, which implements the operators of \<^verbatim>\<open>Sk4f\<close>, \<^verbatim>\<open>SkNx_fma\<close> and \<^verbatim>\<open>rsqrt()\<close>
  once per instruction set, is not part of the sources at hand. The operations on one lane
  are therefore a parameter of the routine that uses them: the sum, the difference and the
  product of two floats, \<^verbatim>\<open>SkNx_fma(f, m, a)\<close>, which is \<^verbatim>\<open>f * m + a\<close> rounded once or
  twice, and \<^verbatim>\<open>rsqrt()\<close>, which is the reciprocal square root or an estimate of it.
  Negation and comparison are exact in every implementation.
\<close>

record float_ops =
  fl_add :: "real \<Rightarrow> real \<Rightarrow> real"
  fl_sub :: "real \<Rightarrow> real \<Rightarrow> real"
  fl_mul :: "real \<Rightarrow> real \<Rightarrow> real"
  fl_fma :: "real \<Rightarrow> real \<Rightarrow> real \<Rightarrow> real"
  fl_rsqrt :: "real \<Rightarrow> real"

text \<open>The operations on vectors, lane by lane.\<close>

definition Sk4f_add :: "float_ops \<Rightarrow> Sk4f \<Rightarrow> Sk4f \<Rightarrow> Sk4f" where
  "Sk4f_add ops = zip4 (fl_add ops)"

definition Sk4f_sub :: "float_ops \<Rightarrow> Sk4f \<Rightarrow> Sk4f \<Rightarrow> Sk4f" where
  "Sk4f_sub ops = zip4 (fl_sub ops)"

definition Sk4f_mul :: "float_ops \<Rightarrow> Sk4f \<Rightarrow> Sk4f \<Rightarrow> Sk4f" where
  "Sk4f_mul ops = zip4 (fl_mul ops)"

definition SkNx_fma :: "float_ops \<Rightarrow> Sk4f \<Rightarrow> Sk4f \<Rightarrow> Sk4f \<Rightarrow> Sk4f" where
  "SkNx_fma ops f m a =
     X4 (fl_fma ops (lane0 f) (lane0 m) (lane0 a)) (fl_fma ops (lane1 f) (lane1 m) (lane1 a))
        (fl_fma ops (lane2 f) (lane2 m) (lane2 a)) (fl_fma ops (lane3 f) (lane3 m) (lane3 a))"

definition rsqrt :: "float_ops \<Rightarrow> Sk4f \<Rightarrow> Sk4f" where
  "rsqrt ops v = map_x4 (fl_rsqrt ops) v"

text \<open>The operations of the real numbers: no rounding.\<close>

definition exact_ops :: float_ops where
  "exact_ops = \<lparr>fl_add = (+), fl_sub = (-), fl_mul = (*),
                 fl_fma = (\<lambda>f m a. f * m + a), fl_rsqrt = (\<lambda>s. 1 / sqrt s)\<rparr>"

text \<open>
  The operations of IEEE 754 binary32 in the default rounding mode, as the portable
  implementation of \<^verbatim>\<open>SkNx\<close> performs them on finite values: the exact result is rounded to
  the nearest float, a tie to the one with an even significand. A float is an integer
  multiple of \<open>2 ^ (e - 23)\<close>, where \<open>e\<close> is the exponent of its binade and at least -126
  (below that binade the floats are subnormal). Overflow is outside the model.
  \<^verbatim>\<open>SkNx_fma\<close> rounds the product and then the sum; \<^verbatim>\<open>rsqrt()\<close> is \<^verbatim>\<open>1 / sqrt\<close>, with both
  operations rounded.
\<close>

definition round_to_even :: "real \<Rightarrow> int" where
  "round_to_even r =
     (let f = \<lfloor>r\<rfloor>
      in if r - of_int f < 1 / 2 then f
         else if 1 / 2 < r - of_int f then f + 1
         else if even f then f else f + 1)"

definition binary32_exponent :: "real \<Rightarrow> int" where
  "binary32_exponent z = max \<lfloor>log 2 \<bar>z\<bar>\<rfloor> (- 126)"

definition round32 :: "real \<Rightarrow> real" where
  "round32 z =
     (if z = 0 then 0
      else let q = 2 powi (binary32_exponent z - 23)
           in sgn z * (q * of_int (round_to_even (\<bar>z\<bar> / q))))"

definition binary32_ops :: float_ops where
  "binary32_ops =
     \<lparr>fl_add = (\<lambda>a b. round32 (a + b)),
      fl_sub = (\<lambda>a b. round32 (a - b)),
      fl_mul = (\<lambda>a b. round32 (a * b)),
      fl_fma = (\<lambda>f m a. round32 (round32 (f * m) + a)),
      fl_rsqrt = (\<lambda>s. round32 (1 / round32 (sqrt s)))\<rparr>"

section \<open>Per-edge antialiasing flags\<close>

text \<open>
  Modelled from the spec: \<^verbatim>\<open>GrQuadAAFlags\<close> is declared in a header that is not part of
  the sources at hand. It is a set of four bits, one per edge of the quad (left, top,
  right, bottom, from the lowest bit), with \<^verbatim>\<open>kNone\<close> the empty set and \<^verbatim>\<open>kAll\<close> all four;
  the operation stores it in the four-bit field \<^verbatim>\<open>fAAFlags\<close>.
\<close>

type_synonym GrQuadAAFlags = "4 word"

definition kLeft :: GrQuadAAFlags where "kLeft = 1"
definition kTop :: GrQuadAAFlags where "kTop = 2"
definition kRight :: GrQuadAAFlags where "kRight = 4"
definition kBottom :: GrQuadAAFlags where "kBottom = 8"
definition kNone :: GrQuadAAFlags where "kNone = 0"
definition kAll :: GrQuadAAFlags where "kAll = 15"

section \<open>Edge equations and outset vertices\<close>

text \<open>
  The two lambdas of \<^verbatim>\<open>compute_quad_edges_and_outset_vertices\<close> that rotate lanes assuming
  tri-strip order: \<^verbatim>\<open>SkNx_shuffle<2, 0, 3, 1>\<close> and \<^verbatim>\<open>SkNx_shuffle<1, 3, 0, 2>\<close>.
\<close>

definition nextCW :: "'a x4 \<Rightarrow> 'a x4" where
  "nextCW v = X4 (lane2 v) (lane0 v) (lane3 v) (lane1 v)"

definition nextCCW :: "'a x4 \<Rightarrow> 'a x4" where
  "nextCCW v = X4 (lane1 v) (lane3 v) (lane0 v) (lane2 v)"

text \<open>
  The mask of \<^verbatim>\<open>compute_quad_edges_and_outset_vertices\<close>: lane \<open>j\<close> is 1 when the flag of
  edge \<open>j\<close> is set and 0 otherwise. The edges appear in the order left, bottom, top, right.
\<close>

definition aa_mask :: "GrQuadAAFlags \<Rightarrow> Sk4f" where
  "aa_mask aaFlags =
     X4 (if kLeft AND aaFlags \<noteq> 0 then 1 else 0)
        (if kBottom AND aaFlags \<noteq> 0 then 1 else 0)
        (if kTop AND aaFlags \<noteq> 0 then 1 else 0)
        (if kRight AND aaFlags \<noteq> 0 then 1 else 0)"

text \<open>
  The in-out parameters \<^verbatim>\<open>x\<close>, \<^verbatim>\<open>y\<close>, \<^verbatim>\<open>u\<close>, \<^verbatim>\<open>v\<close> and the out parameters \<^verbatim>\<open>a\<close>, \<^verbatim>\<open>b\<close>,
  \<^verbatim>\<open>c\<close> of \<^verbatim>\<open>compute_quad_edges_and_outset_vertices\<close>, as they are on return.
\<close>

record quad_edges =
  qe_x :: Sk4f
  qe_y :: Sk4f
  qe_a :: Sk4f
  qe_b :: Sk4f
  qe_c :: Sk4f
  qe_u :: Sk4f
  qe_v :: Sk4f

text \<open>
  \<^verbatim>\<open>u\<close> and \<^verbatim>\<open>v\<close> are read and written only when \<^verbatim>\<open>outsetCorners\<close> is set; otherwise the
  caller passes null pointers and the model returns the arguments unchanged.
\<close>

definition compute_quad_edges_and_outset_vertices ::
  "float_ops \<Rightarrow> GrQuadAAFlags \<Rightarrow> Sk4f \<Rightarrow> Sk4f \<Rightarrow> bool \<Rightarrow> Sk4f \<Rightarrow> Sk4f \<Rightarrow> quad_edges" where
  "compute_quad_edges_and_outset_vertices ops aaFlags x y outsetCorners u v =
     (let xnext = nextCCW x;
          ynext = nextCCW y;
          xdiff0 = Sk4f_sub ops xnext x;
          ydiff0 = Sk4f_sub ops ynext y;
          invLengths = rsqrt ops (SkNx_fma ops xdiff0 xdiff0 (Sk4f_mul ops ydiff0 ydiff0));
          xdiff = Sk4f_mul ops xdiff0 invLengths;
          ydiff = Sk4f_mul ops ydiff0 invLengths;
          c0 = Sk4f_mul ops (SkNx_fma ops xnext y (Sk4f_mul ops (- ynext) x)) invLengths;
          test = SkNx_fma ops ydiff (nextCW x) (SkNx_fma ops (- xdiff) (nextCW y) c0);
          flip = anyTrue (map_x4 (\<lambda>t. t < 0) test);
          a = (if flip then - ydiff else ydiff);
          b = (if flip then xdiff else - xdiff);
          c1 = (if flip then - c0 else c0);
          c2 = Sk4f_add ops c1 (splat (1 / 2))
      in if aaFlags \<noteq> kAll then
           (let mask = aa_mask aaFlags;
                c3 = Sk4f_add ops c2 (Sk4f_sub ops (splat 1) mask)
            in if outsetCorners then
                 (let mask1 = Sk4f_mul ops mask (splat (1 / 2));
                      maskCW = nextCW mask1;
                      x' = Sk4f_add ops x
                             (Sk4f_add ops (Sk4f_mul ops maskCW (- xdiff))
                                (Sk4f_mul ops mask1 (nextCW xdiff)));
                      y' = Sk4f_add ops y
                             (Sk4f_add ops (Sk4f_mul ops maskCW (- ydiff))
                                (Sk4f_mul ops mask1 (nextCW ydiff)));
                      maskCW' = Sk4f_mul ops maskCW invLengths;
                      mask2 = Sk4f_mul ops mask1 (nextCW invLengths);
                      udiff = Sk4f_sub ops (nextCCW u) u;
                      vdiff = Sk4f_sub ops (nextCCW v) v;
                      u' = Sk4f_add ops u
                             (Sk4f_add ops (Sk4f_mul ops maskCW' (- udiff))
                                (Sk4f_mul ops mask2 (nextCW udiff)));
                      v' = Sk4f_add ops v
                             (Sk4f_add ops (Sk4f_mul ops maskCW' (- vdiff))
                                (Sk4f_mul ops mask2 (nextCW vdiff)))
                  in \<lparr>qe_x = x', qe_y = y', qe_a = a, qe_b = b, qe_c = c3,
                      qe_u = u', qe_v = v'\<rparr>)
               else \<lparr>qe_x = x, qe_y = y, qe_a = a, qe_b = b, qe_c = c3, qe_u = u, qe_v = v\<rparr>)
         else if outsetCorners then
           (let x' = Sk4f_add ops x
                       (Sk4f_mul ops (splat (1 / 2)) (Sk4f_add ops (- xdiff) (nextCW xdiff)));
                y' = Sk4f_add ops y
                       (Sk4f_mul ops (splat (1 / 2)) (Sk4f_add ops (- ydiff) (nextCW ydiff)));
                t = Sk4f_mul ops (splat (1 / 2)) invLengths;
                udiff = Sk4f_sub ops (nextCCW u) u;
                vdiff = Sk4f_sub ops (nextCCW v) v;
                u' = Sk4f_add ops u
                       (Sk4f_add ops (Sk4f_mul ops t (- udiff))
                          (Sk4f_mul ops (nextCW t) (nextCW udiff)));
                v' = Sk4f_add ops v
                       (Sk4f_add ops (Sk4f_mul ops t (- vdiff))
                          (Sk4f_mul ops (nextCW t) (nextCW vdiff)))
            in \<lparr>qe_x = x', qe_y = y', qe_a = a, qe_b = b, qe_c = c2, qe_u = u', qe_v = v'\<rparr>)
         else \<lparr>qe_x = x, qe_y = y, qe_a = a, qe_b = b, qe_c = c2, qe_u = u, qe_v = v\<rparr>)"

text \<open>
  The value \<open>a * px + b * py + c\<close> of edge equation \<open>j\<close> at a point, as the vertex shader
  evaluates it for a position whose \<open>w\<close> is 1.
\<close>

definition edge_distance :: "quad_edges \<Rightarrow> nat \<Rightarrow> real \<Rightarrow> real \<Rightarrow> real" where
  "edge_distance e j px py = lane (qe_a e) j * px + lane (qe_b e) j * py + lane (qe_c e) j"

text \<open>
  Whether the flag of edge \<open>j\<close> is set, with the edges numbered as the lanes of the mask
  of \<^verbatim>\<open>compute_quad_edges_and_outset_vertices\<close> are: left, bottom, top, right.
\<close>

definition edge_aa_enabled :: "GrQuadAAFlags \<Rightarrow> nat \<Rightarrow> bool" where
  "edge_aa_enabled aaFlags j = (lane (X4 kLeft kBottom kTop kRight) j AND aaFlags \<noteq> 0)"

text \<open>
  The contract on a quad: convex and not degenerate. The corners are in tri-strip order,
  so the boundary runs through the lanes in the cyclic order of \<open>nextCCW\<close>. The quad is
  convex when the boundary turns the same way at all four corners: the cross product of
  the edge arriving at a corner with the edge leaving it has one sign throughout. It is
  not degenerate when no edge has length zero.
\<close>

definition corner_turns :: "Sk4f \<Rightarrow> Sk4f \<Rightarrow> Sk4f" where
  "corner_turns x y =
     (let dx = nextCCW x - x; dy = nextCCW y - y
      in nextCW dx * dy - nextCW dy * dx)"

definition convex_quad :: "Sk4f \<Rightarrow> Sk4f \<Rightarrow> bool" where
  "convex_quad x y =
     (allTrue (map_x4 (\<lambda>t. 0 \<le> t) (corner_turns x y)) \<or>
      allTrue (map_x4 (\<lambda>t. t \<le> 0) (corner_turns x y)))"

definition nondegenerate_quad :: "Sk4f \<Rightarrow> Sk4f \<Rightarrow> bool" where
  "nondegenerate_quad x y =
     (let dx = nextCCW x - x; dy = nextCCW y - y
      in allTrue (map_x4 (\<lambda>l. 0 < l) (dx * dx + dy * dy)))"

text \<open>
  The quad is robustly convex with margin \<open>m\<close> when, moreover, the cross product at every
  corner is at least \<open>m\<close> times the length of the edge leaving the corner: the previous
  corner lies at distance \<open>m\<close> or more from the line of that edge, on the same side at all
  four corners. The lengths are compared by their squares. With margin 0 this is convexity.
\<close>

definition edge_length2 :: "Sk4f \<Rightarrow> Sk4f \<Rightarrow> Sk4f" where
  "edge_length2 x y =
     (let dx = nextCCW x - x; dy = nextCCW y - y
      in dx * dx + dy * dy)"

definition robustly_convex_quad :: "real \<Rightarrow> Sk4f \<Rightarrow> Sk4f \<Rightarrow> bool" where
  "robustly_convex_quad m x y =
     (allTrue (zip4 (\<lambda>t l. 0 \<le> t \<and> m * m * l \<le> t * t) (corner_turns x y) (edge_length2 x y)) \<or>
      allTrue (zip4 (\<lambda>t l. t \<le> 0 \<and> m * m * l \<le> t * t) (corner_turns x y) (edge_length2 x y)))"

text \<open>
  The distance from corner \<open>i\<close> of the quad to the line through edge \<open>j\<close>, which runs from
  corner \<open>j\<close> to the next one. It is 0 at the two corners on the edge.
\<close>

definition corner_edge_distance :: "Sk4f \<Rightarrow> Sk4f \<Rightarrow> nat \<Rightarrow> nat \<Rightarrow> real" where
  "corner_edge_distance x y j i =
     (let px = lane x j; py = lane y j;
          dx = lane (nextCCW x) j - px; dy = lane (nextCCW y) j - py
      in \<bar>dy * (lane x i - px) - dx * (lane y i - py)\<bar> / sqrt (dx * dx + dy * dy))"

section \<open>Accuracy of the arithmetic\<close>

text \<open>
  What the bound on the edge equations assumes of the operations on one lane. A result
  \<open>r\<close> is a rounding of the exact value \<open>z\<close> when it differs from it by at most the unit
  roundoff of binary32 times \<open>\<bar>z\<bar>\<close>, plus the least subnormal float. The operations are
  accurate when the sum, the difference and the product are roundings of the exact ones,
  \<^verbatim>\<open>SkNx_fma(f, m, a)\<close> is a rounding of \<open>p + a\<close> for some rounding \<open>p\<close> of \<open>f * m\<close> (fused,
  \<open>p\<close> is the product itself), and \<^verbatim>\<open>rsqrt()\<close> has a relative error of at most \<open>2 ^ -11\<close>
  between \<open>2 ^ -100\<close> and \<open>2 ^ 100\<close> (the estimate instructions are this accurate).
\<close>

definition unit_roundoff :: real where
  "unit_roundoff = 1 / 2 ^ 24"

definition least_subnormal :: real where
  "least_subnormal = 1 / 2 ^ 149"

definition rounds_to :: "real \<Rightarrow> real \<Rightarrow> bool" where
  "rounds_to r z = (\<bar>r - z\<bar> \<le> unit_roundoff * \<bar>z\<bar> + least_subnormal)"

definition accurate :: "float_ops \<Rightarrow> bool" where
  "accurate ops =
     ((\<forall>a b. rounds_to (fl_add ops a b) (a + b)) \<and>
      (\<forall>a b. rounds_to (fl_sub ops a b) (a - b)) \<and>
      (\<forall>a b. rounds_to (fl_mul ops a b) (a * b)) \<and>
      (\<forall>f m a. \<exists>p. rounds_to p (f * m) \<and> rounds_to (fl_fma ops f m a) (p + a)) \<and>
      (\<forall>s. 1 / 2 ^ 100 \<le> s \<and> s \<le> 2 ^ 100 \<longrightarrow>
           \<bar>fl_rsqrt ops s - 1 / sqrt s\<bar> \<le> (1 / 2 ^ 11) / sqrt s))"

text \<open>
  The tolerance on the value of an edge equation at a corner, for a quad whose coordinates
  are at most \<open>M\<close> in absolute value and whose edges have length \<open>l\<close> or more.
\<close>

definition edge_tolerance :: "real \<Rightarrow> real \<Rightarrow> real" where
  "edge_tolerance M l = (M * M / l + 1) / 2 ^ 18"

section \<open>One lane of the edge computation\<close>

text \<open>
  What \<^verbatim>\<open>compute_quad_edges_and_outset_vertices\<close> computes in the lane of the edge from
  \<open>(px, py)\<close> to \<open>(nx, ny)\<close>: \<^verbatim>\<open>invLengths\<close>, the normalized \<^verbatim>\<open>xdiff\<close> and \<^verbatim>\<open>ydiff\<close>, \<^verbatim>\<open>*c\<close>
  before the orientation, and \<^verbatim>\<open>test\<close> at the previous corner \<open>(rx, ry)\<close>.
\<close>

definition edge_invLength :: "float_ops \<Rightarrow> real \<Rightarrow> real \<Rightarrow> real \<Rightarrow> real \<Rightarrow> real" where
  "edge_invLength ops px py nx ny =
     (let xdiff0 = fl_sub ops nx px; ydiff0 = fl_sub ops ny py
      in fl_rsqrt ops (fl_fma ops xdiff0 xdiff0 (fl_mul ops ydiff0 ydiff0)))"

definition edge_xdiff :: "float_ops \<Rightarrow> real \<Rightarrow> real \<Rightarrow> real \<Rightarrow> real \<Rightarrow> real" where
  "edge_xdiff ops px py nx ny = fl_mul ops (fl_sub ops nx px) (edge_invLength ops px py nx ny)"

definition edge_ydiff :: "float_ops \<Rightarrow> real \<Rightarrow> real \<Rightarrow> real \<Rightarrow> real \<Rightarrow> real" where
  "edge_ydiff ops px py nx ny = fl_mul ops (fl_sub ops ny py) (edge_invLength ops px py nx ny)"

definition edge_c0 :: "float_ops \<Rightarrow> real \<Rightarrow> real \<Rightarrow> real \<Rightarrow> real \<Rightarrow> real" where
  "edge_c0 ops px py nx ny =
     fl_mul ops (fl_fma ops nx py (fl_mul ops (- ny) px)) (edge_invLength ops px py nx ny)"

definition edge_test ::
  "float_ops \<Rightarrow> real \<Rightarrow> real \<Rightarrow> real \<Rightarrow> real \<Rightarrow> real \<Rightarrow> real \<Rightarrow> real" where
  "edge_test ops px py nx ny rx ry =
     fl_fma ops (edge_ydiff ops px py nx ny) rx
       (fl_fma ops (- edge_xdiff ops px py nx ny) ry (edge_c0 ops px py nx ny))"

text \<open>
  \<^verbatim>\<open>*c\<close> on return, in a lane where the orientation gave it the value \<open>c1\<close> and the mask
  is \<open>m\<close>.
\<close>

definition edge_c_final :: "float_ops \<Rightarrow> bool \<Rightarrow> real \<Rightarrow> real \<Rightarrow> real" where
  "edge_c_final ops allEdges c1 m =
     (let c2 = fl_add ops c1 (1 / 2)
      in if allEdges then c2 else fl_add ops c2 (fl_sub ops 1 m))"

section \<open>Errors\<close>

text \<open>
  \<^verbatim>\<open>SkASSERT\<close> is modelled as it behaves in a debug build: a failed assertion stops the
  program. \<^verbatim>\<open>SK_ABORT\<close> stops it in every build. A function that contains either returns
  a sum, with the failure on the left. \<open>UninitializedRead\<close> is the dereference of an
  element of \<^verbatim>\<open>fProxies\<close> that no constructor has written.
\<close>

datatype error = AssertFailed | Abort | UninitializedRead

definition SkASSERT :: "bool \<Rightarrow> (error + 'a) \<Rightarrow> error + 'a" where
  "SkASSERT cond rest = (if cond then rest else Inl AssertFailed)"

section \<open>Points, rectangles, quads and the view matrix\<close>

record SkPoint =
  fX :: real
  fY :: real

record SkPoint3 = SkPoint +
  fZ :: real

record SkRect =
  fLeft :: real
  fTop :: real
  fRight :: real
  fBottom :: real

text \<open>\<^verbatim>\<open>Sk4f::Load(&rect)\<close> and \<^verbatim>\<open>ltrb.store(&rect)\<close>.\<close>

definition Sk4f_Load :: "SkRect \<Rightarrow> Sk4f" where
  "Sk4f_Load r = X4 (fLeft r) (fTop r) (fRight r) (fBottom r)"

definition Sk4f_store :: "Sk4f \<Rightarrow> SkRect" where
  "Sk4f_store v = \<lparr>fLeft = lane0 v, fTop = lane1 v, fRight = lane2 v, fBottom = lane3 v\<rparr>"

text \<open>
  Modelled from the spec: the members of \<^verbatim>\<open>SkRect\<close> and \<^verbatim>\<open>SkRectPriv\<close> used by the
  operation are declared outside the sources at hand. \<^verbatim>\<open>joinPossiblyEmptyRect\<close> is the
  union of two boxes taken edge by edge, \<^verbatim>\<open>MakeLargestInverted\<close> the neutral box of that
  union (the largest finite float on the left and top, its negation on the right and
  bottom), \<^verbatim>\<open>isSorted\<close> holds when left is not beyond right nor top beyond bottom, and
  \<^verbatim>\<open>contains\<close> holds when both boxes are non-empty and the argument lies inside.
\<close>

definition SK_ScalarMax :: real where
  "SK_ScalarMax = 340282346638528859811704183484516925440"

definition MakeLargestInverted :: SkRect where
  "MakeLargestInverted =
     \<lparr>fLeft = SK_ScalarMax, fTop = SK_ScalarMax, fRight = - SK_ScalarMax, fBottom = - SK_ScalarMax\<rparr>"

definition joinPossiblyEmptyRect :: "SkRect \<Rightarrow> SkRect \<Rightarrow> SkRect" where
  "joinPossiblyEmptyRect a r =
     \<lparr>fLeft = min (fLeft a) (fLeft r), fTop = min (fTop a) (fTop r),
      fRight = max (fRight a) (fRight r), fBottom = max (fBottom a) (fBottom r)\<rparr>"

definition isSorted :: "SkRect \<Rightarrow> bool" where
  "isSorted r = (fLeft r \<le> fRight r \<and> fTop r \<le> fBottom r)"

definition isEmpty :: "SkRect \<Rightarrow> bool" where
  "isEmpty r = (\<not> (fLeft r < fRight r \<and> fTop r < fBottom r))"

definition contains :: "SkRect \<Rightarrow> SkRect \<Rightarrow> bool" where
  "contains a r =
     (\<not> isEmpty r \<and> \<not> isEmpty a \<and> fLeft a \<le> fLeft r \<and> fTop a \<le> fTop r \<and>
      fRight r \<le> fRight a \<and> fBottom r \<le> fBottom a)"

definition width :: "SkRect \<Rightarrow> real" where
  "width r = fRight r - fLeft r"

definition height :: "SkRect \<Rightarrow> real" where
  "height r = fBottom r - fTop r"

text \<open>
  Modelled from the spec: \<^verbatim>\<open>SkScalarIsInt\<close> and \<^verbatim>\<open>SkScalarFraction\<close> are declared outside
  the sources at hand. The first holds of a scalar equal to its floor; the second is the
  scalar minus its truncation towards zero.
\<close>

definition SkScalarIsInt :: "real \<Rightarrow> bool" where
  "SkScalarIsInt s = (s = of_int \<lfloor>s\<rfloor>)"

definition SkScalarTruncToScalar :: "real \<Rightarrow> real" where
  "SkScalarTruncToScalar s = (if 0 \<le> s then of_int \<lfloor>s\<rfloor> else of_int \<lceil>s\<rceil>)"

definition SkScalarFraction :: "real \<Rightarrow> real" where
  "SkScalarFraction s = s - SkScalarTruncToScalar s"

text \<open>
  Modelled from the spec: \<^verbatim>\<open>GrPerspQuad\<close> is defined outside the sources at hand. It holds
  the four corners of a transformed rectangle in tri-strip order (top left, bottom left,
  top right, bottom right), each with a homogeneous coordinate. The accessors \<^verbatim>\<open>x4f\<close>,
  \<^verbatim>\<open>y4f\<close>, \<^verbatim>\<open>w4f\<close> are the fields; \<^verbatim>\<open>iw4f\<close> is the reciprocal of \<^verbatim>\<open>w\<close> in every lane;
  \<^verbatim>\<open>x(i)\<close>, \<^verbatim>\<open>y(i)\<close> and \<^verbatim>\<open>point(i)\<close> read corner \<open>i\<close>.
\<close>

record GrPerspQuad =
  x4f :: Sk4f
  y4f :: Sk4f
  w4f :: Sk4f

definition iw4f :: "GrPerspQuad \<Rightarrow> Sk4f" where
  "iw4f q = map_x4 (\<lambda>w. 1 / w) (w4f q)"

definition quad_x :: "GrPerspQuad \<Rightarrow> nat \<Rightarrow> real" where
  "quad_x q i = lane (x4f q) i"

definition quad_y :: "GrPerspQuad \<Rightarrow> nat \<Rightarrow> real" where
  "quad_y q i = lane (y4f q) i"

definition quad_point :: "GrPerspQuad \<Rightarrow> nat \<Rightarrow> SkPoint3" where
  "quad_point q i = \<lparr>fX = lane (x4f q) i, fY = lane (y4f q) i, fZ = lane (w4f q) i\<rparr>"

text \<open>The assertion \<^verbatim>\<open>(quad.w4f() == Sk4f(1.f)).allTrue()\<close>.\<close>

definition w_is_one :: "GrPerspQuad \<Rightarrow> bool" where
  "w_is_one q = allTrue (map_x4 (\<lambda>w. w = 1) (w4f q))"

text \<open>
  Modelled from the spec: \<^verbatim>\<open>GrPerspQuad::bounds\<close> is defined outside the sources at hand.
  It returns the axis-aligned box enclosing the corners after the perspective divide.
\<close>

definition min4 :: "Sk4f \<Rightarrow> real" where
  "min4 v = min (min (lane0 v) (lane1 v)) (min (lane2 v) (lane3 v))"

definition max4 :: "Sk4f \<Rightarrow> real" where
  "max4 v = max (max (lane0 v) (lane1 v)) (max (lane2 v) (lane3 v))"

definition bounds :: "GrPerspQuad \<Rightarrow> SkRect" where
  "bounds q =
     (let x = x4f q * iw4f q; y = y4f q * iw4f q
      in \<lparr>fLeft = min4 x, fTop = min4 y, fRight = max4 x, fBottom = max4 y\<rparr>)"

text \<open>
  \<^verbatim>\<open>SkMatrix\<close> and the constructor \<^verbatim>\<open>GrPerspQuad(rect, matrix)\<close> are defined outside the
  sources at hand. The operation uses a view matrix in three ways only, and the model
  takes the matrix as these three, each a parameter: whether it maps rectangles to
  rectangles (\<^verbatim>\<open>rectStaysRect\<close>), whether it has perspective (\<^verbatim>\<open>hasPerspective\<close>), and
  the quad it maps a rectangle to.
\<close>

record SkMatrix =
  rectStaysRect :: bool
  hasPerspective :: bool
  mapRectToQuad :: "SkRect \<Rightarrow> GrPerspQuad"

definition GrPerspQuad_make :: "SkRect \<Rightarrow> SkMatrix \<Rightarrow> GrPerspQuad" where
  "GrPerspQuad_make rect viewMatrix = mapRectToQuad viewMatrix rect"

section \<open>Enumerations\<close>

text \<open>
  \<^verbatim>\<open>Domain\<close> is declared in the source. The other enumerations are declared in headers
  outside the sources at hand; each has the enumerators the source names, and where two
  enumerations share a name the type is written in front.
\<close>

datatype Domain = Domain_kNo | Domain_kYes

datatype GrAA = GrAA_kNo | GrAA_kYes

datatype GrAAType = GrAAType_kNone | GrAAType_kCoverage | GrAAType_kMSAA | GrAAType_kMixedSamples

datatype Filter = kNearest | kBilerp | kMipMap

datatype GrSurfaceOrigin = kTopLeft_GrSurfaceOrigin | kBottomLeft_GrSurfaceOrigin

datatype SrcRectConstraint = kStrict_SrcRectConstraint | kFast_SrcRectConstraint

datatype CombineResult = kMerged | kMayChain | kCannotCombine

type_synonym GrColor = "32 word"

section \<open>Vertex layouts and tessellation of one quad\<close>

text \<open>
  \<^verbatim>\<open>VertexCommon<Pos>\<close>, extended by \<^verbatim>\<open>fTextureDomain\<close> when the layout has a domain and
  then by \<^verbatim>\<open>fEdges\<close> when it has coverage antialiasing. A function of the source that is a
  template over the vertex type is a function over the matching record scheme.
  The pointer \<^verbatim>\<open>V* vertices\<close> is used as the four vertices of one quad: a four-lane vector
  of vertices.
\<close>

record 'pos VertexCommon =
  fPosition :: 'pos
  fColor :: GrColor
  fTextureCoords :: SkPoint

record 'pos DomainVertex = "'pos VertexCommon" +
  fTextureDomain :: SkRect

text \<open>
  Modelled from the spec: \<^verbatim>\<open>SkPointPriv::SetRectTriStrip\<close> is defined outside the sources
  at hand. It writes the corners of a rectangle in tri-strip order (top left, bottom
  left, top right, bottom right), here to the texture coordinates of the four vertices;
  \<^verbatim>\<open>VertexAAHandler<V, GrAA::kYes, SkPoint>\<close> loads the same corners in the same order.
\<close>

definition SetRectTriStrip_TextureCoords ::
  "('pos, 'm) VertexCommon_scheme x4 \<Rightarrow> SkRect \<Rightarrow> ('pos, 'm) VertexCommon_scheme x4" where
  "SetRectTriStrip_TextureCoords vertices r =
     X4 ((lane0 vertices)\<lparr>fTextureCoords := \<lparr>fX = fLeft r, fY = fTop r\<rparr>\<rparr>)
        ((lane1 vertices)\<lparr>fTextureCoords := \<lparr>fX = fLeft r, fY = fBottom r\<rparr>\<rparr>)
        ((lane2 vertices)\<lparr>fTextureCoords := \<lparr>fX = fRight r, fY = fTop r\<rparr>\<rparr>)
        ((lane3 vertices)\<lparr>fTextureCoords := \<lparr>fX = fRight r, fY = fBottom r\<rparr>\<rparr>)"

text \<open>\<^verbatim>\<open>VertexAAHandler<V, GrAA::kNo, SkPoint>::AssignPositionsAndTexCoords\<close>.\<close>

definition AssignPositionsAndTexCoords_kNo_SkPoint ::
  "(SkPoint, 'm) VertexCommon_scheme x4 \<Rightarrow> GrPerspQuad \<Rightarrow> GrQuadAAFlags \<Rightarrow> SkRect
     \<Rightarrow> error + (SkPoint, 'm) VertexCommon_scheme x4" where
  "AssignPositionsAndTexCoords_kNo_SkPoint vertices quad aaFlags texRect =
     SkASSERT (aaFlags = kNone \<or> aaFlags = kAll)
    (SkASSERT (w_is_one quad)
      (let vs = SetRectTriStrip_TextureCoords vertices texRect
       in Inr (X4 ((lane0 vs)\<lparr>fPosition := \<lparr>fX = quad_x quad 0, fY = quad_y quad 0\<rparr>\<rparr>)
                  ((lane1 vs)\<lparr>fPosition := \<lparr>fX = quad_x quad 1, fY = quad_y quad 1\<rparr>\<rparr>)
                  ((lane2 vs)\<lparr>fPosition := \<lparr>fX = quad_x quad 2, fY = quad_y quad 2\<rparr>\<rparr>)
                  ((lane3 vs)\<lparr>fPosition := \<lparr>fX = quad_x quad 3, fY = quad_y quad 3\<rparr>\<rparr>))))"

text \<open>
  \<^verbatim>\<open>DomainAssigner<V, Domain::kYes>::Assign\<close>. The rectangle it computes is
  \<open>domainRect\<close>; \<open>DomainAssigner_kYes_Assign\<close> stores it in the four vertices.
\<close>

definition kLargeRect :: SkRect where
  "kLargeRect = \<lparr>fLeft = - 2, fTop = - 2, fRight = 2, fBottom = 2\<rparr>"

definition domainRect ::
  "Domain \<Rightarrow> Filter \<Rightarrow> SkRect \<Rightarrow> GrSurfaceOrigin \<Rightarrow> real \<Rightarrow> real \<Rightarrow> SkRect" where
  "domainRect domain filt srcRect origin iw ih =
     (if domain = Domain_kYes then
        (let ltrb0 = Sk4f_Load srcRect;
             ltrb1 =
               (if filt = kBilerp then
                  (let rblt = X4 (lane2 ltrb0) (lane3 ltrb0) (lane0 ltrb0) (lane1 ltrb0);
                       whwh = map_x4 abs (rblt - ltrb0);
                       c = (rblt + ltrb0) * splat (1 / 2);
                       kOffsets = X4 (1 / 2) (1 / 2) (- (1 / 2)) (- (1 / 2));
                       moved = ltrb0 + kOffsets
                   in X4 (if lane0 whwh < 1 then lane0 c else lane0 moved)
                         (if lane1 whwh < 1 then lane1 c else lane1 moved)
                         (if lane2 whwh < 1 then lane2 c else lane2 moved)
                         (if lane3 whwh < 1 then lane3 c else lane3 moved))
                else ltrb0);
             ltrb2 = ltrb1 * X4 iw ih iw ih;
             ltrb3 =
               (if origin = kBottomLeft_GrSurfaceOrigin then
                  (let kMul = X4 1 (- 1) 1 (- 1);
                       kAdd = X4 0 1 0 1;
                       f = kMul * ltrb2 + kAdd
                   in X4 (lane0 f) (lane3 f) (lane2 f) (lane1 f))
                else ltrb2)
         in Sk4f_store ltrb3)
      else kLargeRect)"

definition DomainAssigner_kYes_Assign ::
  "('pos, 'm) DomainVertex_scheme x4 \<Rightarrow> Domain \<Rightarrow> Filter \<Rightarrow> SkRect \<Rightarrow> GrSurfaceOrigin
     \<Rightarrow> real \<Rightarrow> real \<Rightarrow> ('pos, 'm) DomainVertex_scheme x4" where
  "DomainAssigner_kYes_Assign vertices domain filt srcRect origin iw ih =
     map_x4 (\<lambda>vertex. vertex\<lparr>fTextureDomain := domainRect domain filt srcRect origin iw ih\<rparr>)
       vertices"

text \<open>\<^verbatim>\<open>DomainAssigner<V, Domain::kNo>::Assign\<close> writes nothing.\<close>

definition DomainAssigner_kNo_Assign ::
  "'v x4 \<Rightarrow> Domain \<Rightarrow> Filter \<Rightarrow> SkRect \<Rightarrow> GrSurfaceOrigin \<Rightarrow> real \<Rightarrow> real \<Rightarrow> error + 'v x4" where
  "DomainAssigner_kNo_Assign vertices domain filt srcRect origin iw ih =
     SkASSERT (domain = Domain_kNo) (Inr vertices)"

text \<open>
  The rectangle \<^verbatim>\<open>texRect\<close> that \<^verbatim>\<open>tessellate_quad\<close> computes from the source rectangle,
  the reciprocal texture dimensions and the origin.
\<close>

definition texRect :: "SkRect \<Rightarrow> GrSurfaceOrigin \<Rightarrow> real \<Rightarrow> real \<Rightarrow> SkRect" where
  "texRect srcRect origin iw ih =
     (let r = \<lparr>fLeft = iw * fLeft srcRect, fTop = ih * fTop srcRect,
               fRight = iw * fRight srcRect, fBottom = ih * fBottom srcRect\<rparr>
      in if origin = kBottomLeft_GrSurfaceOrigin
         then r\<lparr>fTop := 1 - fTop r, fBottom := 1 - fBottom r\<rparr>
         else r)"

text \<open>
  \<^verbatim>\<open>tessellate_quad<V>\<close> for the layout \<^verbatim>\<open>Vertex<SkPoint, Domain::kNo, GrAA::kNo>\<close>: a
  position in two dimensions, no domain and no coverage antialiasing.
\<close>

definition tessellate_quad_SkPoint_kNo_kNo ::
  "GrPerspQuad \<Rightarrow> GrQuadAAFlags \<Rightarrow> SkRect \<Rightarrow> GrColor \<Rightarrow> GrSurfaceOrigin \<Rightarrow> Filter
     \<Rightarrow> SkPoint VertexCommon x4 \<Rightarrow> real \<Rightarrow> real \<Rightarrow> Domain \<Rightarrow> error + SkPoint VertexCommon x4" where
  "tessellate_quad_SkPoint_kNo_kNo devQuad aaFlags srcRect color origin filt vertices iw ih domain =
     (case AssignPositionsAndTexCoords_kNo_SkPoint vertices devQuad aaFlags
             (texRect srcRect origin iw ih) of
        Inl e \<Rightarrow> Inl e
      | Inr vs \<Rightarrow>
          DomainAssigner_kNo_Assign (map_x4 (\<lambda>vertex. vertex\<lparr>fColor := color\<rparr>) vs)
            domain filt srcRect origin iw ih)"

text \<open>
  \<^verbatim>\<open>tessellate_quad<V>\<close> for the layout \<^verbatim>\<open>Vertex<SkPoint, Domain::kYes, GrAA::kNo>\<close>: as
  above, with the domain rectangle stored in every vertex.
\<close>

definition tessellate_quad_SkPoint_kYes_kNo ::
  "GrPerspQuad \<Rightarrow> GrQuadAAFlags \<Rightarrow> SkRect \<Rightarrow> GrColor \<Rightarrow> GrSurfaceOrigin \<Rightarrow> Filter
     \<Rightarrow> SkPoint DomainVertex x4 \<Rightarrow> real \<Rightarrow> real \<Rightarrow> Domain \<Rightarrow> error + SkPoint DomainVertex x4" where
  "tessellate_quad_SkPoint_kYes_kNo devQuad aaFlags srcRect color origin filt vertices iw ih domain =
     (case AssignPositionsAndTexCoords_kNo_SkPoint vertices devQuad aaFlags
             (texRect srcRect origin iw ih) of
        Inl e \<Rightarrow> Inl e
      | Inr vs \<Rightarrow>
          Inr (DomainAssigner_kYes_Assign (map_x4 (\<lambda>vertex. vertex\<lparr>fColor := color\<rparr>) vs)
                 domain filt srcRect origin iw ih))"

section \<open>Texture proxies and their reference counts\<close>

text \<open>
  Modelled from the spec: \<^verbatim>\<open>GrTextureProxy\<close> is defined outside the sources at hand. A
  proxy has a stable unique identity, a pixel configuration, a texture type, a storage
  origin, a worst-case bounding rectangle, and it tells whether the resource allocator
  may skip it. The operation holds proxies by pointer; the model holds the description
  of the proxy and keeps what the operation changes through the pointer, the two
  counters, in a table from the unique identity to the counters.
\<close>

record GrTextureProxy =
  uniqueID :: nat
  config :: nat
  textureType :: nat
  origin :: GrSurfaceOrigin
  canSkipResourceAllocator :: bool
  getWorstCaseBoundsRect :: SkRect

record io_counts =
  fRefCnt :: int
  fPendingReads :: int

type_synonym proxy_counts = "nat \<Rightarrow> io_counts"

text \<open>
  Modelled from the spec: a plain strong reference is taken by \<^verbatim>\<open>ref\<close> (\<^verbatim>\<open>SkRef\<close>) and
  dropped by \<^verbatim>\<open>unref\<close>; a pending read is registered by \<^verbatim>\<open>addPendingRead\<close> and
  released by \<^verbatim>\<open>completedRead\<close>. Each call changes one counter of one proxy by one.
\<close>

definition SkRef :: "GrTextureProxy \<Rightarrow> proxy_counts \<Rightarrow> proxy_counts" where
  "SkRef p h = h(uniqueID p := (h (uniqueID p))\<lparr>fRefCnt := fRefCnt (h (uniqueID p)) + 1\<rparr>)"

definition unref :: "GrTextureProxy \<Rightarrow> proxy_counts \<Rightarrow> proxy_counts" where
  "unref p h = h(uniqueID p := (h (uniqueID p))\<lparr>fRefCnt := fRefCnt (h (uniqueID p)) - 1\<rparr>)"

definition addPendingRead :: "GrTextureProxy \<Rightarrow> proxy_counts \<Rightarrow> proxy_counts" where
  "addPendingRead p h =
     h(uniqueID p := (h (uniqueID p))\<lparr>fPendingReads := fPendingReads (h (uniqueID p)) + 1\<rparr>)"

definition completedRead :: "GrTextureProxy \<Rightarrow> proxy_counts \<Rightarrow> proxy_counts" where
  "completedRead p h =
     h(uniqueID p := (h (uniqueID p))\<lparr>fPendingReads := fPendingReads (h (uniqueID p)) - 1\<rparr>)"

text \<open>
  Modelled from the spec: \<^verbatim>\<open>GrColorSpaceXform\<close> is an opaque transform, held by a pointer
  that may be null and compared by value by \<^verbatim>\<open>GrColorSpaceXform::Equals\<close>.
\<close>

datatype GrColorSpaceXform = GrColorSpaceXform nat

definition Equals :: "GrColorSpaceXform option \<Rightarrow> GrColorSpaceXform option \<Rightarrow> bool" where
  "Equals a b = (a = b)"

text \<open>The one capability \<^verbatim>\<open>onCombineIfPossible\<close> asks \<^verbatim>\<open>GrCaps\<close> for.\<close>

record GrCaps =
  dynamicStateArrayGeometryProcessorTextureSupport :: bool

section \<open>The texture operation\<close>

text \<open>
  Modelled from the spec: \<^verbatim>\<open>GrRenderTargetContext::TextureSetEntry\<close> is declared outside
  the sources at hand. An entry of a batch names a texture, a source rectangle, a
  destination rectangle and the per-edge flags; these are the four members the batched
  constructor reads.
\<close>

record TextureSetEntry =
  fProxy :: GrTextureProxy
  fSrcRect :: SkRect
  fDstRect :: SkRect
  fAAFlags :: GrQuadAAFlags

text \<open>
  \<^verbatim>\<open>TextureOp::Quad\<close> and its constructor. The assertion of the constructor, that the flags
  fit the four-bit field, holds of every word of four bits.
\<close>

record Quad =
  fSrcRect :: SkRect
  fQuad :: GrPerspQuad
  fColor :: GrColor
  fHasDomain :: bool
  fAAFlags :: GrQuadAAFlags

definition Quad_make ::
  "SkRect \<Rightarrow> GrPerspQuad \<Rightarrow> GrQuadAAFlags \<Rightarrow> SrcRectConstraint \<Rightarrow> GrColor \<Rightarrow> Quad" where
  "Quad_make srcRect quad aaFlags constraint color =
     \<lparr>fSrcRect = srcRect, fQuad = quad, fColor = color,
      fHasDomain = (constraint = kStrict_SrcRectConstraint), fAAFlags = aaFlags\<rparr>"

definition Quad_domain :: "Quad \<Rightarrow> Domain" where
  "Quad_domain q = (if fHasDomain q then Domain_kYes else Domain_kNo)"

text \<open>\<^verbatim>\<open>TextureOp::Proxy\<close>: a proxy and the number of consecutive quads that sample it.\<close>

record Proxy =
  fProxy :: GrTextureProxy
  fQuadCnt :: int

text \<open>
  \<^verbatim>\<open>TextureOp\<close>. The array \<^verbatim>\<open>fProxies\<close> with its length \<^verbatim>\<open>fProxyCnt\<close> is a list. The last
  four fields are the state of the base class \<^verbatim>\<open>GrOp\<close> that the operation reads and
  writes: the bounds set by \<^verbatim>\<open>setBounds\<close> and joined by \<^verbatim>\<open>joinBounds\<close>, with their two
  flags, and whether the operation is linked into a chain (\<^verbatim>\<open>isChained\<close>).
\<close>

record TextureOp =
  fQuads :: "Quad list"
  fTextureColorSpaceXform :: "GrColorSpaceXform option"
  fPaintColorSpaceXform :: "GrColorSpaceXform option"
  fFilter :: Filter
  fAAType :: GrAAType
  fPerspective :: bool
  fDomain :: bool
  fFinalized :: bool
  fCanSkipAllocatorGather :: bool
  fProxies :: "Proxy list"
  fBounds :: SkRect
  hasAABloat :: bool
  hasZeroArea :: bool
  isChained :: bool

definition fProxyCnt :: "TextureOp \<Rightarrow> nat" where
  "fProxyCnt op = length (fProxies op)"

text \<open>
  Modelled from the spec: \<^verbatim>\<open>GrOp::setBounds\<close> and \<^verbatim>\<open>GrOp::joinBounds\<close> are defined
  outside the sources at hand. The first stores the bounds and the two flags; the second
  replaces the bounds by the union with the other operation's and keeps a flag that
  either operation has.
\<close>

definition setBounds :: "SkRect \<Rightarrow> bool \<Rightarrow> bool \<Rightarrow> TextureOp \<Rightarrow> TextureOp" where
  "setBounds newBounds aabloat zeroArea op =
     op\<lparr>fBounds := newBounds, hasAABloat := aabloat, hasZeroArea := zeroArea\<rparr>"

definition joinBounds :: "TextureOp \<Rightarrow> TextureOp \<Rightarrow> TextureOp" where
  "joinBounds that op =
     op\<lparr>fBounds := joinPossiblyEmptyRect (fBounds op) (fBounds that),
        hasAABloat := (hasAABloat op \<or> hasAABloat that),
        hasZeroArea := (hasZeroArea op \<or> hasZeroArea that)\<rparr>"

text \<open>\<^verbatim>\<open>aa_has_effect_for_rect_stays_rect\<close> and \<^verbatim>\<open>filter_has_effect_for_rect_stays_rect\<close>.\<close>

definition aa_has_effect_for_rect_stays_rect :: "GrPerspQuad \<Rightarrow> error + bool" where
  "aa_has_effect_for_rect_stays_rect quad =
     SkASSERT (w_is_one quad)
       (let ql = quad_x quad 0; qt = quad_y quad 0; qr = quad_x quad 3; qb = quad_y quad 3
        in Inr (\<not> SkScalarIsInt ql \<or> \<not> SkScalarIsInt qr \<or> \<not> SkScalarIsInt qt \<or>
                \<not> SkScalarIsInt qb))"

definition filter_has_effect_for_rect_stays_rect :: "GrPerspQuad \<Rightarrow> SkRect \<Rightarrow> error + bool" where
  "filter_has_effect_for_rect_stays_rect quad srcRect =
     SkASSERT (w_is_one quad)
       (let ql = quad_x quad 0; qt = quad_y quad 0; qr = quad_x quad 3; qb = quad_y quad 3
        in SkASSERT (isSorted srcRect)
             (Inr (qr - ql \<noteq> width srcRect \<or> qb - qt \<noteq> height srcRect \<or>
                   SkScalarFraction ql \<noteq> SkScalarFraction (fLeft srcRect) \<or>
                   SkScalarFraction qt \<noteq> SkScalarFraction (fTop srcRect))))"

text \<open>
  The constructor of \<^verbatim>\<open>TextureOp\<close> for a single quad, which \<^verbatim>\<open>TextureOp::Make\<close> and
  \<^verbatim>\<open>GrTextureOp::Make\<close> call with their own arguments. The smart pointer \<^verbatim>\<open>proxy\<close> hands
  its reference over to \<^verbatim>\<open>fProxies[0]\<close> (\<^verbatim>\<open>proxy.release()\<close>), so no counter changes.
\<close>

definition TextureOp_make ::
  "GrTextureProxy \<Rightarrow> Filter \<Rightarrow> GrColor \<Rightarrow> SkRect \<Rightarrow> SkRect \<Rightarrow> GrAAType \<Rightarrow> GrQuadAAFlags
     \<Rightarrow> SrcRectConstraint \<Rightarrow> SkMatrix \<Rightarrow> GrColorSpaceXform option \<Rightarrow> GrColorSpaceXform option
     \<Rightarrow> error + TextureOp" where
  "TextureOp_make proxy filt color srcRect dstRect aaType aaFlags constraint viewMatrix
       textureColorSpaceXform paintColorSpaceXform =
     (if aaType = GrAAType_kMixedSamples then Inl Abort
      else
       (let aaFlags1 = (case aaType of GrAAType_kNone \<Rightarrow> kNone | GrAAType_kMSAA \<Rightarrow> kAll
                        | _ \<Rightarrow> aaFlags);
            aaType1 = (if aaType = GrAAType_kCoverage \<and> aaFlags = kNone then GrAAType_kNone
                       else aaType);
            quad = GrPerspQuad_make dstRect viewMatrix
        in SkASSERT (\<not> contains srcRect (getWorstCaseBoundsRect proxy) \<or>
                     constraint = kFast_SrcRectConstraint)
            (case (if rectStaysRect viewMatrix \<and> aaType1 = GrAAType_kCoverage
                   then aa_has_effect_for_rect_stays_rect quad else Inr True) of
               Inl e \<Rightarrow> Inl e
             | Inr aaHasEffect \<Rightarrow>
                (let noAA = (rectStaysRect viewMatrix \<and> aaType1 = GrAAType_kCoverage \<and>
                             \<not> aaHasEffect);
                     aaType2 = (if noAA then GrAAType_kNone else aaType1);
                     aaFlags2 = (if noAA then kNone else aaFlags1)
                 in case (if rectStaysRect viewMatrix \<and> filt \<noteq> kNearest
                          then filter_has_effect_for_rect_stays_rect quad srcRect
                          else Inr True) of
                      Inl e \<Rightarrow> Inl e
                    | Inr filterHasEffect \<Rightarrow>
                       (let filt1 = (if rectStaysRect viewMatrix \<and> filt \<noteq> kNearest \<and>
                                        \<not> filterHasEffect then kNearest else filt);
                            constraint1 =
                              (if constraint = kStrict_SrcRectConstraint \<and> filt1 = kNearest \<and>
                                  aaType2 \<noteq> GrAAType_kCoverage
                               then kFast_SrcRectConstraint else constraint);
                            draw = Quad_make srcRect quad aaFlags2 constraint1 color
                        in Inr (setBounds (bounds quad) (aaType2 = GrAAType_kCoverage) False
                             \<lparr>fQuads = [draw],
                              fTextureColorSpaceXform = textureColorSpaceXform,
                              fPaintColorSpaceXform = paintColorSpaceXform,
                              fFilter = filt1,
                              fAAType = aaType2,
                              fPerspective = hasPerspective viewMatrix,
                              fDomain = (Quad_domain draw = Domain_kYes),
                              fFinalized = False,
                              fCanSkipAllocatorGather = canSkipResourceAllocator proxy,
                              fProxies = [\<lparr>fProxy = proxy, fQuadCnt = 1\<rparr>],
                              fBounds = bounds quad,
                              hasAABloat = False,
                              hasZeroArea = False,
                              isChained = False\<rparr>))))))"

text \<open>
  The local variables and members that the loop of the batched constructor updates:
  \<^verbatim>\<open>fProxies\<close> and \<^verbatim>\<open>fQuads\<close> as written so far, \<^verbatim>\<open>bounds\<close>, \<^verbatim>\<open>needAA\<close>, \<^verbatim>\<open>mustFilter\<close>,
  \<^verbatim>\<open>fCanSkipAllocatorGather\<close>, and the counters of the proxies.
\<close>

record set_loop_state =
  ls_proxies :: "Proxy list"
  ls_quads :: "Quad list"
  ls_bounds :: SkRect
  ls_needAA :: bool
  ls_mustFilter :: bool
  ls_canSkipAllocatorGather :: bool
  ls_counts :: proxy_counts

text \<open>
  The loop \<^verbatim>\<open>for (unsigned p = 0; p < fProxyCnt; ++p)\<close> of the batched constructor, over
  the entries still to visit. \<open>first\<close> is \<^verbatim>\<open>fProxies[0].fProxy\<close>.
\<close>

fun set_loop ::
  "Filter \<Rightarrow> GrColor \<Rightarrow> GrAAType \<Rightarrow> SkMatrix \<Rightarrow> GrTextureProxy \<Rightarrow> TextureSetEntry list
     \<Rightarrow> set_loop_state \<Rightarrow> error + set_loop_state" where
  "set_loop filt color aaType viewMatrix first [] st = Inr st"
| "set_loop filt color aaType viewMatrix first (entry # entries) st =
     (let proxy = TextureSetEntry.fProxy entry;
          counts = SkRef proxy (ls_counts st)
      in SkASSERT (textureType proxy = textureType first)
        (SkASSERT (config proxy = config first)
          (let canSkip = (ls_canSkipAllocatorGather st \<and> canSkipResourceAllocator proxy);
               quad = GrPerspQuad_make (fDstRect entry) viewMatrix;
               bounds1 = joinPossiblyEmptyRect (ls_bounds st) (bounds quad)
           in case (case aaType of
                      GrAAType_kNone \<Rightarrow> Inr kNone
                    | GrAAType_kCoverage \<Rightarrow>
                        (if rectStaysRect viewMatrix \<and> TextureSetEntry.fAAFlags entry \<noteq> kNone
                         then (case aa_has_effect_for_rect_stays_rect quad of
                                 Inl e \<Rightarrow> Inl e
                               | Inr aaHasEffect \<Rightarrow>
                                   Inr (if aaHasEffect then TextureSetEntry.fAAFlags entry
                                        else kNone))
                         else Inr (TextureSetEntry.fAAFlags entry))
                    | GrAAType_kMSAA \<Rightarrow> Inr kAll
                    | GrAAType_kMixedSamples \<Rightarrow> Inl Abort) of
                Inl e \<Rightarrow> Inl e
              | Inr aaFlags \<Rightarrow>
                 (let needAA = (ls_needAA st \<or> TextureSetEntry.fAAFlags entry \<noteq> kNone)
                  in case (if \<not> ls_mustFilter st \<and> filt \<noteq> kNearest
                           then (if \<not> rectStaysRect viewMatrix then Inr True
                                 else filter_has_effect_for_rect_stays_rect quad
                                        (TextureSetEntry.fSrcRect entry))
                           else Inr (ls_mustFilter st)) of
                       Inl e \<Rightarrow> Inl e
                     | Inr mustFilter \<Rightarrow>
                         set_loop filt color aaType viewMatrix first entries
                           \<lparr>ls_proxies = ls_proxies st @ [\<lparr>fProxy = proxy, fQuadCnt = 1\<rparr>],
                            ls_quads = ls_quads st @
                              [Quad_make (TextureSetEntry.fSrcRect entry) quad aaFlags
                                 kFast_SrcRectConstraint color],
                            ls_bounds = bounds1,
                            ls_needAA = needAA,
                            ls_mustFilter = mustFilter,
                            ls_canSkipAllocatorGather = canSkip,
                            ls_counts = counts\<rparr>))))"

text \<open>
  The batched constructor of \<^verbatim>\<open>TextureOp\<close>, which \<^verbatim>\<open>TextureOp::Make\<close> and
  \<^verbatim>\<open>GrTextureOp::Make\<close> call with the array \<^verbatim>\<open>set\<close> of \<^verbatim>\<open>cnt\<close> entries. \<^verbatim>\<open>fProxyCnt\<close> is a
  bit-field of 24 bits, so the count it stores, and with it the number of entries the
  loop visits, is \<^verbatim>\<open>cnt\<close> modulo \<open>2 ^ 24\<close>; the assertion of \<^verbatim>\<open>SkToUInt\<close>, that \<^verbatim>\<open>cnt\<close> is
  not negative, holds of the length of a list. It takes a reference on the proxy of every
  entry it visits (\<^verbatim>\<open>SkRef\<close>), so it returns the counters with the operation.
\<close>

definition TextureOp_make_set ::
  "TextureSetEntry list \<Rightarrow> Filter \<Rightarrow> GrColor \<Rightarrow> GrAAType \<Rightarrow> SkMatrix
     \<Rightarrow> GrColorSpaceXform option \<Rightarrow> GrColorSpaceXform option \<Rightarrow> proxy_counts
     \<Rightarrow> error + (TextureOp \<times> proxy_counts)" where
  "TextureOp_make_set set_entries filt color aaType viewMatrix textureColorSpaceXform
       paintColorSpaceXform counts =
     (let cnt = length set_entries;
          visited = take (cnt mod 2 ^ 24) set_entries
      in case (case visited of
                 [] \<Rightarrow> Inr \<lparr>ls_proxies = [], ls_quads = [], ls_bounds = MakeLargestInverted,
                            ls_needAA = False, ls_mustFilter = False,
                            ls_canSkipAllocatorGather = True, ls_counts = counts\<rparr>
               | entry # _ \<Rightarrow>
                   set_loop filt color aaType viewMatrix (TextureSetEntry.fProxy entry) visited
                     \<lparr>ls_proxies = [], ls_quads = [], ls_bounds = MakeLargestInverted,
                      ls_needAA = False, ls_mustFilter = False,
                      ls_canSkipAllocatorGather = True, ls_counts = counts\<rparr>) of
           Inl e \<Rightarrow> Inl e
         | Inr st \<Rightarrow>
            (let aaType1 = (if \<not> ls_needAA st then GrAAType_kNone else aaType);
                 filt1 = (if \<not> ls_mustFilter st then kNearest else filt)
             in Inr (setBounds (ls_bounds st) (aaType1 = GrAAType_kCoverage) False
                       \<lparr>fQuads = ls_quads st,
                        fTextureColorSpaceXform = textureColorSpaceXform,
                        fPaintColorSpaceXform = paintColorSpaceXform,
                        fFilter = filt1,
                        fAAType = aaType1,
                        fPerspective = hasPerspective viewMatrix,
                        fDomain = False,
                        fFinalized = False,
                        fCanSkipAllocatorGather = ls_canSkipAllocatorGather st,
                        fProxies = ls_proxies st,
                        fBounds = ls_bounds st,
                        hasAABloat = False,
                        hasZeroArea = False,
                        isChained = False\<rparr>,
                     ls_counts st)))"

text \<open>
  \<^verbatim>\<open>TextureOp::finalize\<close>: for every element of \<^verbatim>\<open>fProxies\<close> in turn, \<^verbatim>\<open>addPendingRead\<close>
  and then \<^verbatim>\<open>unref\<close>. The result \<^verbatim>\<open>RequiresDstTexture::kNo\<close> is constant and left out.
\<close>

definition finalize :: "TextureOp \<Rightarrow> proxy_counts \<Rightarrow> error + (TextureOp \<times> proxy_counts)" where
  "finalize op counts =
     SkASSERT (\<not> fFinalized op)
       (Inr (op\<lparr>fFinalized := True\<rparr>,
             foldl (\<lambda>h p. unref (fProxy p) (addPendingRead (fProxy p) h)) counts (fProxies op)))"

text \<open>
  The destructor \<^verbatim>\<open>TextureOp::~TextureOp\<close>: for every element of \<^verbatim>\<open>fProxies\<close> in turn,
  \<^verbatim>\<open>completedRead\<close> when the operation is finalized and \<^verbatim>\<open>unref\<close> otherwise.
\<close>

definition destroy :: "TextureOp \<Rightarrow> proxy_counts \<Rightarrow> proxy_counts" where
  "destroy op counts =
     foldl (\<lambda>h p. if fFinalized op then completedRead (fProxy p) h else unref (fProxy p) h)
       counts (fProxies op)"

text \<open>
  \<^verbatim>\<open>TextureOp::onCombineIfPossible\<close>, with \<open>this\<close> the receiver. It returns the result and
  the receiver as it leaves it; \<open>that\<close> is not changed. \<^verbatim>\<open>fProxies[0]\<close> is dereferenced
  only after the transforms, the antialiasing types and the filters have been compared.
\<close>

definition onCombineIfPossible ::
  "TextureOp \<Rightarrow> TextureOp \<Rightarrow> GrCaps \<Rightarrow> error + (CombineResult \<times> TextureOp)" where
  "onCombineIfPossible this that caps =
     (if \<not> Equals (fTextureColorSpaceXform this) (fTextureColorSpaceXform that)
      then Inr (kCannotCombine, this)
      else if \<not> Equals (fPaintColorSpaceXform this) (fPaintColorSpaceXform that)
      then Inr (kCannotCombine, this)
      else if fAAType this \<noteq> fAAType that \<and>
              \<not> ((fAAType this = GrAAType_kCoverage \<and> fAAType that = GrAAType_kNone) \<or>
                  (fAAType that = GrAAType_kCoverage \<and> fAAType this = GrAAType_kNone))
      then Inr (kCannotCombine, this)
      else
       (let upgradeToCoverageAAOnMerge = (fAAType this \<noteq> fAAType that)
        in if fFilter this \<noteq> fFilter that then Inr (kCannotCombine, this)
           else
            (case (fProxies this, fProxies that) of
               (thisFirst # _, thatFirst # _) \<Rightarrow>
                 (let thisProxy = fProxy thisFirst; thatProxy = fProxy thatFirst
                  in if 1 < fProxyCnt this \<or> 1 < fProxyCnt that \<or>
                        uniqueID thisProxy \<noteq> uniqueID thatProxy \<or> isChained that
                     then
                       (if config thisProxy = config thatProxy \<and>
                           textureType thisProxy = textureType thatProxy \<and>
                           dynamicStateArrayGeometryProcessorTextureSupport caps
                        then Inr (kMayChain, this)
                        else Inr (kCannotCombine, this))
                     else
                       (let this1 = this\<lparr>fProxies :=
                                     [thisFirst\<lparr>fQuadCnt := fQuadCnt thisFirst +
                                                              int (length (fQuads that))\<rparr>],
                                     fQuads := fQuads this @ fQuads that\<rparr>;
                            this2 = joinBounds that this1;
                            this3 = this2\<lparr>fPerspective := (fPerspective this2 \<or> fPerspective that),
                                           fDomain := (fDomain this2 \<or> fDomain that)\<rparr>;
                            this4 = (if upgradeToCoverageAAOnMerge
                                     then this3\<lparr>fAAType := GrAAType_kCoverage\<rparr> else this3)
                        in Inr (kMerged, this4)))
             | _ \<Rightarrow> Inl UninitializedRead)))"

text \<open>
  How many references an operation holds on the proxy with a given identity: the number
  of elements of \<^verbatim>\<open>fProxies\<close> that point to it.
\<close>

definition held_references :: "TextureOp \<Rightarrow> nat \<Rightarrow> int" where
  "held_references op ident = int (length (filter (\<lambda>p. uniqueID (fProxy p) = ident) (fProxies op)))"

section \<open>Choosing the vertex layout at flush\<close>

text \<open>
  \<^verbatim>\<open>TextureGeometryProcessor\<close> as its constructor leaves it: the type of the positions and
  which of the optional attributes are initialized. \<^verbatim>\<open>usesCoverageEdgeAA\<close> tells whether
  \<^verbatim>\<open>fAAEdges[0]\<close> is initialized.
\<close>

record TextureGeometryProcessor =
  gp_textureType :: nat
  gp_textureConfig :: nat
  gp_filter :: Filter
  fPositions_is_kFloat3 :: bool
  fDomain_isInitialized :: bool
  fAAEdges_isInitialized :: bool
  vertexAttributeCnt :: nat

definition TextureGeometryProcessor_Make ::
  "nat \<Rightarrow> nat \<Rightarrow> Filter \<Rightarrow> bool \<Rightarrow> bool \<Rightarrow> Domain \<Rightarrow> TextureGeometryProcessor" where
  "TextureGeometryProcessor_Make texType texConfig filt coverageAA perspective domain =
     \<lparr>gp_textureType = texType, gp_textureConfig = texConfig, gp_filter = filt,
      fPositions_is_kFloat3 = perspective,
      fDomain_isInitialized = (domain = Domain_kYes),
      fAAEdges_isInitialized = coverageAA,
      vertexAttributeCnt = 3 + (if domain = Domain_kYes then 1 else 0) + (if coverageAA then 4 else 0)\<rparr>"

definition usesCoverageEdgeAA :: "TextureGeometryProcessor \<Rightarrow> bool" where
  "usesCoverageEdgeAA gp = fAAEdges_isInitialized gp"

text \<open>
  What the first loop of \<^verbatim>\<open>TextureOp::onPrepareDraws\<close> gathers over the operations of a
  chain: \<^verbatim>\<open>hasPerspective\<close>, \<^verbatim>\<open>domain\<close>, \<^verbatim>\<open>numProxies\<close>, \<^verbatim>\<open>numTotalQuads\<close> and \<^verbatim>\<open>aaType\<close>.
\<close>

record chain_state =
  cs_hasPerspective :: bool
  cs_domain :: Domain
  cs_numProxies :: int
  cs_numTotalQuads :: int
  cs_aaType :: GrAAType

text \<open>
  The inner loop over the proxies of one operation of the chain. \<open>instantiate\<close> tells
  whether \<^verbatim>\<open>proxy->instantiate(...)\<close> succeeds; when it fails \<^verbatim>\<open>onPrepareDraws\<close> returns
  without drawing, here \<open>None\<close>.
\<close>

fun chain_proxies ::
  "(GrTextureProxy \<Rightarrow> bool) \<Rightarrow> nat \<Rightarrow> nat \<Rightarrow> Proxy list \<Rightarrow> int \<Rightarrow> error + int option" where
  "chain_proxies instantiate cfg texType [] numTotalQuads = Inr (Some numTotalQuads)"
| "chain_proxies instantiate cfg texType (p # ps) numTotalQuads =
     (if \<not> instantiate (fProxy p) then Inr None
      else SkASSERT (config (fProxy p) = cfg)
            (SkASSERT (textureType (fProxy p) = texType)
              (chain_proxies instantiate cfg texType ps (numTotalQuads + fQuadCnt p))))"

text \<open>The outer loop \<^verbatim>\<open>for (const auto& op : ChainRange<TextureOp>(this))\<close>.\<close>

fun chain_ops ::
  "(GrTextureProxy \<Rightarrow> bool) \<Rightarrow> nat \<Rightarrow> nat \<Rightarrow> TextureOp list \<Rightarrow> chain_state
     \<Rightarrow> error + chain_state option" where
  "chain_ops instantiate cfg texType [] st = Inr (Some st)"
| "chain_ops instantiate cfg texType (op # ops) st =
     (case chain_proxies instantiate cfg texType (fProxies op) (cs_numTotalQuads st) of
        Inl e \<Rightarrow> Inl e
      | Inr None \<Rightarrow> Inr None
      | Inr (Some numTotalQuads) \<Rightarrow>
          (let st1 = st\<lparr>cs_hasPerspective := (cs_hasPerspective st \<or> fPerspective op),
                        cs_domain := (if fDomain op then Domain_kYes else cs_domain st),
                        cs_numProxies := cs_numProxies st + int (fProxyCnt op),
                        cs_numTotalQuads := numTotalQuads\<rparr>
           in if fAAType op = GrAAType_kCoverage
              then SkASSERT (cs_aaType st1 = GrAAType_kCoverage \<or> cs_aaType st1 = GrAAType_kNone)
                     (chain_ops instantiate cfg texType ops (st1\<lparr>cs_aaType := GrAAType_kCoverage\<rparr>))
              else chain_ops instantiate cfg texType ops st1))"

text \<open>
  The table \<^verbatim>\<open>kTessFnsAndVertexSizes\<close>: the layout (three-dimensional positions, domain,
  coverage antialiasing) of the tessellation function at each index.
\<close>

definition kTessFns :: "(bool \<times> Domain \<times> GrAA) list" where
  "kTessFns =
     [(False, Domain_kNo, GrAA_kNo), (False, Domain_kNo, GrAA_kYes),
      (False, Domain_kYes, GrAA_kNo), (False, Domain_kYes, GrAA_kYes),
      (True, Domain_kNo, GrAA_kNo), (True, Domain_kNo, GrAA_kYes),
      (True, Domain_kYes, GrAA_kNo), (True, Domain_kYes, GrAA_kYes)]"

text \<open>
  The part of \<^verbatim>\<open>TextureOp::onPrepareDraws\<close> that decides what is emitted for a chain: it
  gathers the requirements of the chain, makes the geometry processor and picks the
  tessellation function. \<open>chain\<close> is what \<^verbatim>\<open>ChainRange<TextureOp>(this)\<close> visits after the
  receiver. The rest of the function allocates buffers and meshes for that choice and
  is outside the model.
\<close>

record flush_layout =
  fl_gp :: TextureGeometryProcessor
  fl_tessFnIdx :: nat
  fl_tessFn :: "bool \<times> Domain \<times> GrAA"
  fl_numProxies :: int
  fl_numTotalQuads :: int
  fl_kHWAntialias_Flag :: bool

definition onPrepareDraws_layout ::
  "(GrTextureProxy \<Rightarrow> bool) \<Rightarrow> TextureOp \<Rightarrow> TextureOp list \<Rightarrow> error + flush_layout option" where
  "onPrepareDraws_layout instantiate this chain =
     (case fProxies this of
        [] \<Rightarrow> Inl UninitializedRead
      | first # _ \<Rightarrow>
         (let texType = textureType (fProxy first);
              cfg = config (fProxy first)
          in case chain_ops instantiate cfg texType (this # chain)
                    \<lparr>cs_hasPerspective = False, cs_domain = Domain_kNo, cs_numProxies = 0,
                     cs_numTotalQuads = 0, cs_aaType = fAAType this\<rparr> of
               Inl e \<Rightarrow> Inl e
             | Inr None \<Rightarrow> Inr None
             | Inr (Some st) \<Rightarrow>
                (let coverageAA = (GrAAType_kCoverage = cs_aaType st);
                     gp = TextureGeometryProcessor_Make texType cfg (fFilter this) coverageAA
                            (cs_hasPerspective st) (cs_domain st);
                     tessFnIdx = (if coverageAA then 1 else 0) OR
                                 (if cs_domain st = Domain_kYes then 2 else 0) OR
                                 (if cs_hasPerspective st then 4 else 0)
                 in Inr (Some \<lparr>fl_gp = gp, fl_tessFnIdx = tessFnIdx,
                                fl_tessFn = kTessFns ! tessFnIdx,
                                fl_numProxies = cs_numProxies st,
                                fl_numTotalQuads = cs_numTotalQuads st,
                                fl_kHWAntialias_Flag = (cs_aaType st = GrAAType_kMSAA)\<rparr>))))"

section \<open>The statements of the specification\<close>

text \<open>
  The definitions of this section follow the words of the specification, not the source;
  the theorems compare them with the definitions above.

  The normalized source rectangle: the source rectangle scaled by the reciprocal
  texture dimensions, with the vertical axis flipped (\<open>v\<close> to \<open>1 - v\<close>) when the origin
  is bottom-up.
\<close>

definition spec_normalized_rect :: "SkRect \<Rightarrow> GrSurfaceOrigin \<Rightarrow> real \<Rightarrow> real \<Rightarrow> SkRect" where
  "spec_normalized_rect srcRect orig iw ih =
     \<lparr>fLeft = iw * fLeft srcRect,
      fTop = (if orig = kBottomLeft_GrSurfaceOrigin then 1 - ih * fTop srcRect
              else ih * fTop srcRect),
      fRight = iw * fRight srcRect,
      fBottom = (if orig = kBottomLeft_GrSurfaceOrigin then 1 - ih * fBottom srcRect
                 else ih * fBottom srcRect)\<rparr>"

text \<open>
  The four vertices of a quad passed through unchanged: the positions are the four
  destination corners, the texture coordinates the four corners of the normalized source
  rectangle in tri-strip order, and every vertex has the colour of the quad.
\<close>

definition spec_passthrough_vertices :: "GrPerspQuad \<Rightarrow> SkRect \<Rightarrow> GrColor \<Rightarrow> SkPoint VertexCommon x4" where
  "spec_passthrough_vertices quad normalized color =
     X4 \<lparr>fPosition = \<lparr>fX = lane0 (x4f quad), fY = lane0 (y4f quad)\<rparr>, VertexCommon.fColor = color,
         fTextureCoords = \<lparr>fX = fLeft normalized, fY = fTop normalized\<rparr>\<rparr>
        \<lparr>fPosition = \<lparr>fX = lane1 (x4f quad), fY = lane1 (y4f quad)\<rparr>, VertexCommon.fColor = color,
         fTextureCoords = \<lparr>fX = fLeft normalized, fY = fBottom normalized\<rparr>\<rparr>
        \<lparr>fPosition = \<lparr>fX = lane2 (x4f quad), fY = lane2 (y4f quad)\<rparr>, VertexCommon.fColor = color,
         fTextureCoords = \<lparr>fX = fRight normalized, fY = fTop normalized\<rparr>\<rparr>
        \<lparr>fPosition = \<lparr>fX = lane3 (x4f quad), fY = lane3 (y4f quad)\<rparr>, VertexCommon.fColor = color,
         fTextureCoords = \<lparr>fX = fRight normalized, fY = fBottom normalized\<rparr>\<rparr>"

text \<open>
  The clamp rectangle when a domain is required: under bilinear filtering every edge of
  the source rectangle moves inwards by half a texel, except that an axis whose extent
  is below one texel has both its edges at the centre of the axis; the result is scaled
  by the reciprocal texture dimensions; and when the origin is bottom-up the vertical
  axis is flipped (\<open>v\<close> to \<open>1 - v\<close>, top and bottom exchanged).
\<close>

definition spec_domain_rect :: "Filter \<Rightarrow> SkRect \<Rightarrow> GrSurfaceOrigin \<Rightarrow> real \<Rightarrow> real \<Rightarrow> SkRect" where
  "spec_domain_rect filt srcRect orig iw ih =
     (let l = fLeft srcRect; t = fTop srcRect; r = fRight srcRect; b = fBottom srcRect;
          l1 = (if filt = kBilerp then (if \<bar>r - l\<bar> < 1 then (l + r) / 2 else l + 1 / 2) else l);
          t1 = (if filt = kBilerp then (if \<bar>b - t\<bar> < 1 then (t + b) / 2 else t + 1 / 2) else t);
          r1 = (if filt = kBilerp then (if \<bar>r - l\<bar> < 1 then (l + r) / 2 else r - 1 / 2) else r);
          b1 = (if filt = kBilerp then (if \<bar>b - t\<bar> < 1 then (t + b) / 2 else b - 1 / 2) else b)
      in if orig = kBottomLeft_GrSurfaceOrigin
         then \<lparr>fLeft = l1 * iw, fTop = 1 - b1 * ih, fRight = r1 * iw, fBottom = 1 - t1 * ih\<rparr>
         else \<lparr>fLeft = l1 * iw, fTop = t1 * ih, fRight = r1 * iw, fBottom = b1 * ih\<rparr>)"

section \<open>Inputs for the examples\<close>

text \<open>
  A parallelogram with its corners on the grid of sixteenths, in tri-strip order: the
  \<open>x\<close> and the \<open>y\<close> coordinates of its corners.
\<close>

definition skewed_quad_x :: Sk4f where
  "skewed_quad_x = X4 (677 / 16) (543 / 16) (513 / 8) (223 / 4)"

definition skewed_quad_y :: Sk4f where
  "skewed_quad_y = X4 (1413 / 16) (507 / 4) (1403 / 16) (1009 / 8)"

text \<open>
  The identity as a view matrix: it maps rectangles to rectangles, has no perspective,
  and maps a rectangle to its own four corners in tri-strip order with \<open>w = 1\<close>.
\<close>

definition identity_matrix :: SkMatrix where
  "identity_matrix =
     \<lparr>rectStaysRect = True, hasPerspective = False,
      mapRectToQuad = (\<lambda>r. \<lparr>x4f = X4 (fLeft r) (fLeft r) (fRight r) (fRight r),
                               y4f = X4 (fTop r) (fBottom r) (fTop r) (fBottom r),
                               w4f = X4 1 1 1 1\<rparr>)\<rparr>"

text \<open>Two textures of 64 by 64 texels that differ in their identity only.\<close>

definition proxy_A :: GrTextureProxy where
  "proxy_A =
     \<lparr>uniqueID = 1, config = 0, textureType = 0, origin = kTopLeft_GrSurfaceOrigin,
      canSkipResourceAllocator = False,
      getWorstCaseBoundsRect = \<lparr>fLeft = 0, fTop = 0, fRight = 64, fBottom = 64\<rparr>\<rparr>"

definition proxy_B :: GrTextureProxy where
  "proxy_B =
     \<lparr>uniqueID = 2, config = 0, textureType = 0, origin = kTopLeft_GrSurfaceOrigin,
      canSkipResourceAllocator = False,
      getWorstCaseBoundsRect = \<lparr>fLeft = 0, fTop = 0, fRight = 64, fBottom = 64\<rparr>\<rparr>"

definition rect_0_0_8_8 :: SkRect where
  "rect_0_0_8_8 = \<lparr>fLeft = 0, fTop = 0, fRight = 8, fBottom = 8\<rparr>"

definition rect_half_pixel :: SkRect where
  "rect_half_pixel = \<lparr>fLeft = 1 / 2, fTop = 1 / 2, fRight = 17 / 2, fBottom = 17 / 2\<rparr>"

text \<open>Entries of a batch against the two textures, and counters that are all zero.\<close>

definition entry_A :: TextureSetEntry where
  "entry_A = \<lparr>TextureSetEntry.fProxy = proxy_A, TextureSetEntry.fSrcRect = rect_0_0_8_8,
               fDstRect = rect_0_0_8_8, TextureSetEntry.fAAFlags = kNone\<rparr>"

definition entry_B :: TextureSetEntry where
  "entry_B = \<lparr>TextureSetEntry.fProxy = proxy_B, TextureSetEntry.fSrcRect = rect_0_0_8_8,
               fDstRect = rect_0_0_8_8, TextureSetEntry.fAAFlags = kNone\<rparr>"

definition no_counts :: proxy_counts where
  "no_counts = (\<lambda>id. \<lparr>fRefCnt = 0, fPendingReads = 0\<rparr>)"

text \<open>
  Three operations, written out field by field: \<open>op_plain_A\<close> is what the single-draw
  constructor makes of a request for coverage antialiasing of the rectangle from 0 to 8
  under the identity, on texture A; \<open>op_coverage_A\<close> is what it makes of the same request
  for the rectangle moved by half a pixel; \<open>op_batch_AB\<close> is what the batched constructor
  makes of one entry against texture A followed by one against texture B.
\<close>

definition quad_0_0_8_8 :: GrPerspQuad where
  "quad_0_0_8_8 = \<lparr>x4f = X4 0 0 8 8, y4f = X4 0 8 0 8, w4f = X4 1 1 1 1\<rparr>"

definition quad_half_pixel :: GrPerspQuad where
  "quad_half_pixel =
     \<lparr>x4f = X4 (1 / 2) (1 / 2) (17 / 2) (17 / 2), y4f = X4 (1 / 2) (17 / 2) (1 / 2) (17 / 2),
      w4f = X4 1 1 1 1\<rparr>"

definition op_plain_A :: TextureOp where
  "op_plain_A =
     \<lparr>fQuads = [\<lparr>fSrcRect = rect_0_0_8_8, fQuad = quad_0_0_8_8, fColor = 255,
                  fHasDomain = False, fAAFlags = kNone\<rparr>],
      fTextureColorSpaceXform = None, fPaintColorSpaceXform = None,
      fFilter = kNearest, fAAType = GrAAType_kNone, fPerspective = False, fDomain = False,
      fFinalized = False, fCanSkipAllocatorGather = False,
      fProxies = [\<lparr>fProxy = proxy_A, fQuadCnt = 1\<rparr>],
      fBounds = rect_0_0_8_8, hasAABloat = False, hasZeroArea = False, isChained = False\<rparr>"

definition op_coverage_A :: TextureOp where
  "op_coverage_A =
     \<lparr>fQuads = [\<lparr>fSrcRect = rect_0_0_8_8, fQuad = quad_half_pixel, fColor = 255,
                  fHasDomain = False, fAAFlags = kAll\<rparr>],
      fTextureColorSpaceXform = None, fPaintColorSpaceXform = None,
      fFilter = kNearest, fAAType = GrAAType_kCoverage, fPerspective = False, fDomain = False,
      fFinalized = False, fCanSkipAllocatorGather = False,
      fProxies = [\<lparr>fProxy = proxy_A, fQuadCnt = 1\<rparr>],
      fBounds = rect_half_pixel, hasAABloat = True, hasZeroArea = False, isChained = False\<rparr>"

definition op_batch_AB :: TextureOp where
  "op_batch_AB =
     \<lparr>fQuads = [\<lparr>fSrcRect = rect_0_0_8_8, fQuad = quad_0_0_8_8, fColor = 255,
                  fHasDomain = False, fAAFlags = kNone\<rparr>,
                \<lparr>fSrcRect = rect_0_0_8_8, fQuad = quad_0_0_8_8, fColor = 255,
                  fHasDomain = False, fAAFlags = kNone\<rparr>],
      fTextureColorSpaceXform = None, fPaintColorSpaceXform = None,
      fFilter = kNearest, fAAType = GrAAType_kNone, fPerspective = False, fDomain = False,
      fFinalized = False, fCanSkipAllocatorGather = False,
      fProxies = [\<lparr>fProxy = proxy_A, fQuadCnt = 1\<rparr>, \<lparr>fProxy = proxy_B, fQuadCnt = 1\<rparr>],
      fBounds = rect_0_0_8_8, hasAABloat = False, hasZeroArea = False, isChained = False\<rparr>"

text \<open>
  \<open>op_coverage_B\<close> is \<open>op_coverage_A\<close> on texture B, and the two capabilities a backend may
  report.
\<close>

definition op_coverage_B :: TextureOp where
  "op_coverage_B = op_coverage_A\<lparr>fProxies := [\<lparr>fProxy = proxy_B, fQuadCnt = 1\<rparr>]\<rparr>"

definition caps_dynamic :: GrCaps where
  "caps_dynamic = \<lparr>dynamicStateArrayGeometryProcessorTextureSupport = True\<rparr>"

definition caps_static :: GrCaps where
  "caps_static = \<lparr>dynamicStateArrayGeometryProcessorTextureSupport = False\<rparr>"

text \<open>Counters with which every proxy has one plain reference and no pending read.\<close>

definition one_reference_each :: proxy_counts where
  "one_reference_each = (\<lambda>id. \<lparr>fRefCnt = 1, fPendingReads = 0\<rparr>)"

text \<open>A resource provider with which every proxy can be instantiated.\<close>

definition always_instantiates :: "GrTextureProxy \<Rightarrow> bool" where
  "always_instantiates proxy = True"

text \<open>An entry against texture A that asks for antialiasing on all four edges.\<close>

definition entry_A_all_edges :: TextureSetEntry where
  "entry_A_all_edges = entry_A\<lparr>TextureSetEntry.fAAFlags := kAll\<rparr>"

section \<open>Lane-wise arithmetic\<close>

lemma lane_simps:
  "lane v 0 = lane0 v" "lane v 1 = lane1 v" "lane v 2 = lane2 v" "lane v 3 = lane3 v"
  by (simp_all add: lane_def)



section \<open>Rounding in binary32\<close>

text \<open>
  The rounding of a value whose binade is known, the error of a rounding, and the rounding
  of a square root that lies strictly between two midpoints.
\<close>

lemma binary32_exponent_eq:
  assumes "2 powi e \<le> \<bar>z\<bar>" and "\<bar>z\<bar> < 2 powi (e + 1)" and "- 126 \<le> e"
  shows "binary32_exponent z = e"
proof -
  have "(0::real) < 2 powi e" by simp
  then have pos: "0 < \<bar>z\<bar>" using assms(1) by linarith
  have "2 powr (of_int e) \<le> \<bar>z\<bar>" "\<bar>z\<bar> < 2 powr (of_int (e + 1))"
    using assms(1,2) by (simp_all only: powr_real_of_int' [of 2, simplified])
  then have "\<lfloor>log 2 \<bar>z\<bar>\<rfloor> = e"
    using pos floor_log_eq_powr_iff [of "\<bar>z\<bar>" 2 e] by simp
  then show ?thesis using assms(3) by (simp add: binary32_exponent_def)
qed

lemma round32_eval:
  assumes "2 powi e \<le> \<bar>z\<bar>" and "\<bar>z\<bar> < 2 powi (e + 1)" and "- 126 \<le> e"
  shows "round32 z = sgn z * (2 powi (e - 23) * of_int (round_to_even (\<bar>z\<bar> / 2 powi (e - 23))))"
proof -
  have "(0::real) < 2 powi e" by simp
  then have "0 < \<bar>z\<bar>" using assms(1) by linarith
  then have "z \<noteq> 0" by simp
  then show ?thesis
    by (simp add: round32_def binary32_exponent_eq [OF assms] Let_def)
qed

lemma round_to_even_error: "\<bar>of_int (round_to_even r) - r\<bar> \<le> 1 / 2"
  unfolding round_to_even_def Let_def by (auto split: if_splits)

lemma round32_error:
  "\<bar>round32 z - z\<bar> \<le> \<bar>z\<bar> / 2 ^ 24 + 1 / 2 ^ 150"
proof (cases "z = 0")
  case True then show ?thesis by (simp add: round32_def)
next
  case False
  define e0 where "e0 = \<lfloor>log 2 \<bar>z\<bar>\<rfloor>"
  define e where "e = binary32_exponent z"
  define q :: real where "q = 2 powi (e - 23)"
  have qpos: "0 < q" by (simp add: q_def)
  have pos: "0 < \<bar>z\<bar>" using False by simp
  have r: "round32 z = sgn z * (q * of_int (round_to_even (\<bar>z\<bar> / q)))"
    using False by (simp add: round32_def Let_def q_def e_def)
  have "\<bar>round32 z - z\<bar> = \<bar>q * of_int (round_to_even (\<bar>z\<bar> / q)) - \<bar>z\<bar>\<bar>"
  proof (cases "0 < z")
    case True then show ?thesis unfolding r by simp
  next
    case False
    then have "z < 0" using \<open>z \<noteq> 0\<close> by simp
    then show ?thesis unfolding r by simp
  qed
  also have "\<dots> = q * \<bar>of_int (round_to_even (\<bar>z\<bar> / q)) - \<bar>z\<bar> / q\<bar>"
  proof -
    have "q * of_int (round_to_even (\<bar>z\<bar> / q)) - \<bar>z\<bar>
        = q * (of_int (round_to_even (\<bar>z\<bar> / q)) - \<bar>z\<bar> / q)"
      using qpos by (simp add: algebra_simps)
    then show ?thesis using qpos by (simp add: abs_mult)
  qed
  also have "\<dots> \<le> q * (1 / 2)"
    using round_to_even_error [of "\<bar>z\<bar> / q"] qpos by (intro mult_left_mono) auto
  finally have err: "\<bar>round32 z - z\<bar> \<le> q / 2" by simp
  have e_cases: "e = e0 \<or> (e = - 126 \<and> e0 < - 126)"
    unfolding e_def e0_def binary32_exponent_def max_def by (simp only: split: if_splits) linarith
  then show ?thesis
  proof
    assume ee: "e = e0"
    have "2 powr (of_int e0) \<le> \<bar>z\<bar>"
      using floor_log_eq_powr_iff [of "\<bar>z\<bar>" 2 e0] pos by (simp add: e0_def)
    then have "2 powi e0 \<le> \<bar>z\<bar>" by (simp add: powr_real_of_int')
    moreover have "q = 2 powi e0 / 2 ^ 23"
      by (simp add: q_def ee power_int_diff)
    ultimately have "q / 2 \<le> \<bar>z\<bar> / 2 ^ 24" by simp
    then show ?thesis using err by simp
  next
    assume "e = - 126 \<and> e0 < - 126"
    then have "q = 1 / 2 ^ 149" by (simp add: q_def power_int_minus divide_simps)
    then have "q / 2 = 1 / 2 ^ 150" by simp
    moreover have "0 \<le> \<bar>z\<bar> / 2 ^ 24" by simp
    ultimately show ?thesis using err by linarith
  qed
qed

lemma round_to_even_unique:
  assumes "of_int m - 1 / 2 < r" and "r < of_int m + 1 / 2"
  shows "round_to_even r = m"
proof -
  have "\<lfloor>r\<rfloor> = m \<or> \<lfloor>r\<rfloor> = m - 1" using assms by linarith
  then show ?thesis
    using assms unfolding round_to_even_def Let_def
    by (auto split: if_splits)
qed

lemma round32_sqrt:
  fixes s :: real and e m :: int
  assumes "(2 powi e)\<^sup>2 \<le> s" and "s < (2 powi (e + 1))\<^sup>2" and "- 126 \<le> e"
    and "1 \<le> m"
    and "((of_int m - 1 / 2) * 2 powi (e - 23))\<^sup>2 < s"
    and "s < ((of_int m + 1 / 2) * 2 powi (e - 23))\<^sup>2"
  shows "round32 (sqrt s) = 2 powi (e - 23) * of_int m"
proof -
  define q :: real where "q = 2 powi (e - 23)"
  have q0: "0 < q" by (simp add: q_def)
  have "(0::real) < (2 powi e)\<^sup>2" by simp
  then have s0: "0 < s" using assms(1) by linarith
  have t0: "0 < sqrt s" using s0 by simp
  have lo: "2 powi e \<le> sqrt s" using assms(1) by (rule real_le_rsqrt)
  have hi: "sqrt s < 2 powi (e + 1)" using assms(2) by (intro real_less_lsqrt) auto
  have a: "(of_int m - 1 / 2) * q < sqrt s"
    using assms(5) unfolding q_def by (rule real_less_rsqrt)
  have b: "sqrt s < (of_int m + 1 / 2) * q"
    using assms(6) q0 assms(4) unfolding q_def by (intro real_less_lsqrt) auto
  have "round_to_even (\<bar>sqrt s\<bar> / q) = m"
    using a b q0 t0 by (intro round_to_even_unique) (simp_all add: field_simps)
  then show ?thesis
    using round32_eval [of e "sqrt s"] lo hi assms(3) t0 by (simp add: q_def)
qed

text \<open>The operations of binary32 are accurate, and so are those of the real numbers.\<close>

lemma round32_rounds_to: "rounds_to (round32 z) z"
proof -
  have "\<bar>round32 z - z\<bar> \<le> \<bar>z\<bar> / 2 ^ 24 + 1 / 2 ^ 150" by (rule round32_error)
  also have "\<dots> \<le> \<bar>z\<bar> / 2 ^ 24 + 1 / 2 ^ 149" by simp
  finally show ?thesis by (simp add: rounds_to_def unit_roundoff_def least_subnormal_def)
qed

lemma binary32_rsqrt_accurate:
  fixes s :: real
  assumes lo: "1 / 2 ^ 100 \<le> s" and hi: "s \<le> 2 ^ 100"
  shows "\<bar>round32 (1 / round32 (sqrt s)) - 1 / sqrt s\<bar> \<le> (1 / 2 ^ 11) / sqrt s"
proof -
  define t where "t = sqrt s"
  define t' where "t' = round32 t"
  define it where "it = 1 / t"
  have "sqrt ((1 / 2 ^ 50)\<^sup>2) \<le> sqrt s" using lo by (intro real_sqrt_le_mono) (simp add: power2_eq_square)
  then have tlo: "1 / 2 ^ 50 \<le> t" by (simp add: t_def)
  have "sqrt s \<le> sqrt ((2 ^ 50)\<^sup>2)" using hi by (intro real_sqrt_le_mono) (simp add: power2_eq_square)
  then have thi: "t \<le> 2 ^ 50" by (simp add: t_def)
  have t0: "0 < t" using tlo by (simp add: order_less_le_trans [OF _ tlo])
  have it0: "0 < it" using t0 by (simp add: it_def)
  have itlo: "1 / 2 ^ 50 \<le> it" using thi t0 by (simp add: it_def field_simps)
  have ithi: "it \<le> 2 ^ 50" using tlo t0 by (simp add: it_def field_simps)
  have e1: "\<bar>t' - t\<bar> \<le> t / 2 ^ 24 + 1 / 2 ^ 150"
    using round32_error [of t] t0 by (simp add: t'_def)
  define \<rho> where "\<rho> = t' * it"
  have "\<bar>t' - t\<bar> * it \<le> (t / 2 ^ 24 + 1 / 2 ^ 150) * it"
    using e1 it0 by (intro mult_right_mono) auto
  moreover have "\<bar>t' - t\<bar> * it = \<bar>\<rho> - 1\<bar>"
  proof -
    have "(t' - t) * it = \<rho> - 1" using t0 by (simp add: \<rho>_def it_def field_simps)
    then have "\<bar>\<rho> - 1\<bar> = \<bar>t' - t\<bar> * \<bar>it\<bar>" by (simp only: abs_mult [symmetric])
    then show ?thesis using it0 by simp
  qed
  moreover have "(t / 2 ^ 24 + 1 / 2 ^ 150) * it = 1 / 2 ^ 24 + it / 2 ^ 150"
    using t0 by (simp add: it_def algebra_simps)
  ultimately have r1: "\<bar>\<rho> - 1\<bar> \<le> 1 / 2 ^ 24 + it / 2 ^ 150" by simp
  have r2: "\<bar>\<rho> - 1\<bar> \<le> 1 / 8388608"
  proof -
    have "it / 2 ^ 150 \<le> 2 ^ 50 / 2 ^ 150" using ithi by (simp add: divide_right_mono)
    then show ?thesis using r1 by simp
  qed
  have \<rho>0: "0 < \<rho>" using r2 by linarith
  have t'0: "0 < t'" using \<rho>0 it0 by (simp add: \<rho>_def zero_less_mult_iff)
  define \<sigma> where "\<sigma> = 1 / \<rho>"
  have c1: "(4194303 / 4194304) * \<rho> \<le> 1" and c2: "1 \<le> (4194305 / 4194304) * \<rho>"
    using r2 by linarith+
  have \<sigma>lo: "4194303 / 4194304 \<le> \<sigma>"
    unfolding \<sigma>_def by (rule iffD2 [OF pos_le_divide_eq [OF \<rho>0]]) (rule c1)
  have \<sigma>hi: "\<sigma> \<le> 4194305 / 4194304"
    unfolding \<sigma>_def by (rule iffD2 [OF pos_divide_le_eq [OF \<rho>0]]) (rule c2)
  define r where "r = 1 / t'"
  have r_eq: "r = it * \<sigma>"
    using t0 t'0 by (simp add: r_def \<sigma>_def \<rho>_def it_def)
  define w where "w = it * \<sigma>"
  have wlo: "it * (4194303 / 4194304) \<le> w" and whi: "w \<le> it * (4194305 / 4194304)"
    unfolding w_def using \<sigma>lo \<sigma>hi it0 by (intro mult_left_mono; simp)+
  have w0: "0 \<le> w" using it0 \<rho>0 by (simp add: w_def \<sigma>_def)
  have e2: "\<bar>round32 r - w\<bar> \<le> w / 2 ^ 24 + 1 / 2 ^ 150"
    using round32_error [of r] w0 by (simp add: r_eq w_def)
  have small: "(1::real) / 2 ^ 150 \<le> it / 2 ^ 100"
  proof -
    have "(1 / 2 ^ 50) / 2 ^ 100 \<le> it / 2 ^ 100" using itlo by (rule divide_right_mono) simp
    then show ?thesis by simp
  qed
  have wlo': "it - it / 4194304 \<le> w" and whi': "w \<le> it + it / 4194304"
    using wlo whi by (simp_all add: algebra_simps)
  have e2': "\<bar>round32 r - w\<bar> \<le> w / 16777216 + 1 / 1427247692705959881058285969449495136382746624"
    using e2 by simp
  have small': "1 / 1427247692705959881058285969449495136382746624
      \<le> it / 1267650600228229401496703205376"
    using small by simp
  have "\<bar>round32 r - it\<bar> \<le> it / 2048"
    using e2' small' wlo' whi' it0 by linarith
  then show ?thesis by (simp add: r_def t'_def t_def it_def)
qed

lemma binary32_accurate: "accurate binary32_ops"
  unfolding accurate_def binary32_ops_def
  using round32_rounds_to binary32_rsqrt_accurate by auto

lemma rounds_to_refl: "rounds_to z z"
  by (simp add: rounds_to_def unit_roundoff_def least_subnormal_def)

lemma exact_accurate: "accurate exact_ops"
  unfolding accurate_def exact_ops_def
  using rounds_to_refl by (auto intro: exI [of _ "f * m" for f m :: real])

section \<open>The error of one lane of the edge computation\<close>

text \<open>
  For one edge, from \<open>(px, py)\<close> to \<open>(nx, ny)\<close>, of a quad whose coordinates are at most \<open>M\<close>
  in absolute value and whose edges have length \<open>l\<close> or more: with accurate operations the
  inverse length is within a thousandth of the exact one, and the coefficients differ from
  the exact ones by a few units in the last place of their scale, which is \<open>M\<close> times the
  inverse length for \<open>a\<close> and \<open>b\<close> and \<open>M\<^sup>2\<close> times the inverse length for \<open>c\<close>.
\<close>

lemma rounds_to_abs:
  assumes "rounds_to r z"
  shows "\<bar>r - z\<bar> \<le> \<bar>z\<bar> / 16777216 + 1 / 713623846352979940529142984724747568191373312"
  using assms by (simp add: rounds_to_def unit_roundoff_def least_subnormal_def)

lemma rounds_to_bound:
  assumes "rounds_to r z" and "\<bar>z\<bar> \<le> Z" and "1 / 2 ^ 84 \<le> Z"
  shows "\<bar>r - z\<bar> \<le> Z / 16777000"
proof -
  have "(1::real) / 2 ^ 84 = 1 / 19342813113834066795298816" by simp
  then show ?thesis using rounds_to_abs [OF assms(1)] assms(2,3) by linarith
qed

lemma square_perturbed:
  fixes d d' :: real
  assumes "\<bar>d' - d\<bar> \<le> e" and "\<bar>d\<bar> \<le> A"
  shows "\<bar>d' * d' - d * d\<bar> \<le> e * (2 * A + e)"
proof -
  have e0: "0 \<le> e" using assms(1) by linarith
  have "\<bar>d' * d' - d * d\<bar> = \<bar>d' - d\<bar> * \<bar>d' + d\<bar>"
    by (simp add: abs_mult [symmetric] algebra_simps)
  also have "\<dots> \<le> e * (2 * A + e)"
    using assms e0 by (intro mult_mono) linarith+
  finally show ?thesis .
qed

lemma square_rounded:
  fixes d d' g h A :: real
  assumes "\<bar>d' - d\<bar> \<le> g * \<bar>d\<bar> + h" and "0 \<le> g" and "0 \<le> h" and "\<bar>d\<bar> \<le> A"
  shows "\<bar>d' * d' - d * d\<bar> \<le> g * (2 + g) * (d * d) + 2 * h * (1 + g) * A + h * h"
proof -
  have "\<bar>d' * d' - d * d\<bar> \<le> (g * \<bar>d\<bar> + h) * (2 * \<bar>d\<bar> + (g * \<bar>d\<bar> + h))"
    by (rule square_perturbed [OF assms(1)]) simp
  also have "\<dots> = g * (2 + g) * (\<bar>d\<bar> * \<bar>d\<bar>) + 2 * h * (1 + g) * \<bar>d\<bar> + h * h"
    by (simp add: algebra_simps)
  also have "\<dots> \<le> g * (2 + g) * (d * d) + 2 * h * (1 + g) * A + h * h"
  proof -
    have "2 * h * (1 + g) * \<bar>d\<bar> \<le> 2 * h * (1 + g) * A"
      using assms(2,3,4) by (intro mult_left_mono) auto
    then show ?thesis by simp
  qed
  finally show ?thesis .
qed

lemma square_le:
  fixes d A :: real
  assumes "\<bar>d\<bar> \<le> A"
  shows "d * d \<le> A * A"
proof -
  have "\<bar>d\<bar> * \<bar>d\<bar> \<le> A * A" using assms by (intro mult_mono) auto
  then show ?thesis by simp
qed

lemma sqrt_scaled:
  fixes c N :: real
  assumes "0 \<le> c"
  shows "sqrt (c * c * N) = c * sqrt N"
  using assms by (simp add: real_sqrt_mult)

lemma invLength_bounds:
  fixes px py nx ny M l :: real
  assumes acc: "accurate ops"
    and b: "\<bar>px\<bar> \<le> M" "\<bar>py\<bar> \<le> M" "\<bar>nx\<bar> \<le> M" "\<bar>ny\<bar> \<le> M"
    and M: "M \<le> 2 ^ 40"
    and l: "1 / 2 ^ 40 \<le> l"
    and N: "l * l \<le> (nx - px) * (nx - px) + (ny - py) * (ny - py)"
  shows "0 < edge_invLength ops px py nx ny"
    and "edge_invLength ops px py nx ny * l \<le> 1001 / 1000"
    and "999 / 1000
           \<le> edge_invLength ops px py nx ny
               * sqrt ((nx - px) * (nx - px) + (ny - py) * (ny - py))"
    and "edge_invLength ops px py nx ny
           * sqrt ((nx - px) * (nx - px) + (ny - py) * (ny - py)) \<le> 1001 / 1000"
proof -
  define dx dy where "dx = nx - px" and "dy = ny - py"
  define N where "N = dx * dx + dy * dy"
  define dx' dy' where "dx' = fl_sub ops nx px" and "dy' = fl_sub ops ny py"
  define q where "q = fl_mul ops dy' dy'"
  define s where "s = fl_fma ops dx' dx' q"
  define L where "L = edge_invLength ops px py nx ny"
  have L_eq: "L = fl_rsqrt ops s"
    by (simp add: L_def edge_invLength_def Let_def s_def q_def dx'_def dy'_def)
  have M0: "0 \<le> M" using b(1) by linarith
  have Mn: "M \<le> 1099511627776" using M by simp
  have ln: "1 / 1099511627776 \<le> l" using l by simp
  have "1 / 1099511627776 * (1 / 1099511627776) \<le> l * l"
    using ln by (intro mult_mono) auto
  then have Nlo: "1 / 1208925819614629174706176 \<le> N" using N by (simp add: N_def dx_def dy_def)
  have adx: "\<bar>dx\<bar> \<le> 2 * M" and ady: "\<bar>dy\<bar> \<le> 2 * M"
    using b by (simp_all add: dx_def dy_def)
  have "M * M \<le> 1099511627776 * 1099511627776"
    using M0 Mn by (intro mult_mono) auto
  then have MM: "M * M \<le> 1208925819614629174706176" by simp
  have "dx * dx \<le> (2 * M) * (2 * M)" "dy * dy \<le> (2 * M) * (2 * M)"
    using square_le [OF adx] square_le [OF ady] by simp_all
  then have Nhi: "N \<le> 8 * (M * M)" by (simp add: N_def)
  have xx0: "0 \<le> dx * dx" and yy0: "0 \<le> dy * dy" and xx0': "0 \<le> dx' * dx'"
    and yy0': "0 \<le> dy' * dy'" by simp_all
  have rdx: "\<bar>dx' - dx\<bar> \<le> 1 / 16777216 * \<bar>dx\<bar>
               + 1 / 713623846352979940529142984724747568191373312"
    and rdy: "\<bar>dy' - dy\<bar> \<le> 1 / 16777216 * \<bar>dy\<bar>
               + 1 / 713623846352979940529142984724747568191373312"
    using acc rounds_to_abs [of "fl_sub ops nx px" "nx - px"]
      rounds_to_abs [of "fl_sub ops ny py" "ny - py"]
    by (simp_all add: accurate_def dx'_def dy'_def dx_def dy_def)
  note sqx = square_rounded [OF rdx _ _ adx, simplified]
  note sqy = square_rounded [OF rdy _ _ ady, simplified]
  have rq: "\<bar>q - dy' * dy'\<bar> \<le> \<bar>dy' * dy'\<bar> / 16777216
               + 1 / 713623846352979940529142984724747568191373312"
    using acc rounds_to_abs [of "fl_mul ops dy' dy'" "dy' * dy'"]
    by (simp add: accurate_def q_def)
  obtain p where rp: "rounds_to p (dx' * dx')" and rs: "rounds_to s (p + q)"
    using acc unfolding accurate_def s_def by blast
  note rp' = rounds_to_abs [OF rp] and rs' = rounds_to_abs [OF rs]
  define W where "W = dx' * dx' + dy' * dy'"
  have W0: "0 \<le> W" by (simp add: W_def)
  have Wlo: "4194303 / 4194304 * N \<le> W" and Whi: "W \<le> 4194305 / 4194304 * N"
    using sqx sqy xx0 yy0 Nlo Mn M0 N_def W_def by linarith+
  have rq2: "\<bar>q - dy' * dy'\<bar> \<le> (dy' * dy') / 16777216
               + 1 / 713623846352979940529142984724747568191373312"
    using rq by simp
  have rp2: "\<bar>p - dx' * dx'\<bar> \<le> (dx' * dx') / 16777216
               + 1 / 713623846352979940529142984724747568191373312"
    using rp' by simp
  define pq where "pq = p + q"
  have pqlo: "8388605 / 8388608 * N \<le> pq" and pqhi: "pq \<le> 8388611 / 8388608 * N"
    using rq2 rp2 Wlo Whi Nlo W_def pq_def by linarith+
  have pq0: "0 \<le> pq" using pqlo Nlo by linarith
  have rs2: "\<bar>s - pq\<bar> \<le> pq / 16777216
               + 1 / 713623846352979940529142984724747568191373312"
    using rs' pq0 by (simp add: pq_def)
  have slo: "2097151 / 2097152 * N \<le> s" and shi: "s \<le> 2097153 / 2097152 * N"
    using rs2 pqlo pqhi Nlo by linarith+
  have s_lo: "1 / 2 ^ 100 \<le> s" using slo Nlo by simp
  have s_hi: "s \<le> 2 ^ 100" using shi Nhi MM by simp
  have N0: "0 < N" using Nlo by linarith
  have s0: "0 < s" using slo N0 by linarith
  define t where "t = sqrt s"
  define len where "len = sqrt N"
  have t0: "0 < t" and len0: "0 < len" using s0 N0 by (simp_all add: t_def len_def)
  have "s \<le> (1000001 / 1000000) * (1000001 / 1000000) * N" using shi N0 by simp
  then have "sqrt s \<le> sqrt ((1000001 / 1000000) * (1000001 / 1000000) * N)"
    by (rule real_sqrt_le_mono)
  then have t_hi: "t \<le> 1000001 / 1000000 * len"
    unfolding t_def len_def by (subst (asm) sqrt_scaled) simp_all
  have "(1000000 / 1000001) * (1000000 / 1000001) * N \<le> s" using slo N0 by simp
  then have "sqrt ((1000000 / 1000001) * (1000000 / 1000001) * N) \<le> sqrt s"
    by (rule real_sqrt_le_mono)
  then have t_lo: "1000000 / 1000001 * len \<le> t"
    unfolding t_def len_def by (subst (asm) sqrt_scaled) simp_all
  define u where "u = len / t"
  have u_hi: "u \<le> 1000001 / 1000000" and u_lo: "1000000 / 1000001 \<le> u"
    using t_lo t_hi t0 by (simp_all add: u_def field_simps)
  have "\<bar>L - 1 / t\<bar> \<le> (1 / 2 ^ 11) / t"
    using acc s_lo s_hi unfolding accurate_def L_eq t_def by blast
  then have "\<bar>L - 1 / t\<bar> * len \<le> (1 / 2 ^ 11) / t * len"
    using len0 by (intro mult_right_mono) auto
  moreover have "(L - 1 / t) * len = L * len - u" by (simp add: u_def algebra_simps)
  moreover have "\<bar>L - 1 / t\<bar> * len = \<bar>(L - 1 / t) * len\<bar>"
    using len0 by (simp add: abs_mult)
  moreover have "(1 / 2 ^ 11) / t * len = u / 2048" by (simp add: u_def)
  ultimately have Lu: "\<bar>L * len - u\<bar> \<le> u / 2048" by simp
  have Llen_lo: "999 / 1000 \<le> L * len" and Llen_hi: "L * len \<le> 1001 / 1000"
    using Lu u_hi u_lo by linarith+
  have Lpos: "0 < L"
  proof (rule ccontr)
    assume "\<not> 0 < L"
    then have "L * len \<le> 0" using len0 by (simp add: mult_le_0_iff)
    then show False using Llen_lo by linarith
  qed
  have l0: "0 < l" using ln by linarith
  have "l \<le> len" unfolding len_def using N l0
    by (intro real_le_rsqrt) (simp add: N_def dx_def dy_def power2_eq_square)
  then have "L * l \<le> L * len" using Lpos by (intro mult_left_mono) auto
  then have Ll: "L * l \<le> 1001 / 1000" using Llen_hi by linarith
  show "0 < edge_invLength ops px py nx ny" using Lpos by (simp add: L_def)
  show "edge_invLength ops px py nx ny * l \<le> 1001 / 1000" using Ll by (simp add: L_def)
  show "999 / 1000 \<le> edge_invLength ops px py nx ny
               * sqrt ((nx - px) * (nx - px) + (ny - py) * (ny - py))"
    using Llen_lo by (simp add: L_def len_def N_def dx_def dy_def)
  show "edge_invLength ops px py nx ny
           * sqrt ((nx - px) * (nx - px) + (ny - py) * (ny - py)) \<le> 1001 / 1000"
    using Llen_hi by (simp add: L_def len_def N_def dx_def dy_def)
qed

lemma abs_prod_le:
  fixes a b A B AB k :: real
  assumes "\<bar>a\<bar> \<le> k * A" and "\<bar>b\<bar> \<le> B" and "AB = A * B"
  shows "\<bar>a * b\<bar> \<le> k * AB"
proof -
  have "\<bar>a\<bar> * \<bar>b\<bar> \<le> (k * A) * B"
    using assms(1,2) by (intro mult_mono) (auto intro: order_trans [OF abs_ge_zero])
  then show ?thesis by (simp add: abs_mult assms(3) mult.assoc)
qed

lemma edge_scales:
  fixes px py nx ny M l :: real
  assumes acc: "accurate ops"
    and b: "\<bar>px\<bar> \<le> M" "\<bar>py\<bar> \<le> M" "\<bar>nx\<bar> \<le> M" "\<bar>ny\<bar> \<le> M"
    and M: "M \<le> 2 ^ 40"
    and l: "1 / 2 ^ 40 \<le> l"
    and N: "l * l \<le> (nx - px) * (nx - px) + (ny - py) * (ny - py)"
  shows "1 / 2 ^ 42 \<le> M"
    and "3 / 10 \<le> M * edge_invLength ops px py nx ny"
    and "1 / 2 ^ 44 \<le> M * M * edge_invLength ops px py nx ny"
    and "M * M * edge_invLength ops px py nx ny \<le> 1001 / 1000 * (M * M / l)"
proof -
  define L where "L = edge_invLength ops px py nx ny"
  define N where "N = (nx - px) * (nx - px) + (ny - py) * (ny - py)"
  note inv = invLength_bounds [OF acc b M l N, folded L_def N_def]
  have M0: "0 \<le> M" using b(1) by linarith
  have l0: "0 < l" using l by (simp add: order_less_le_trans [OF _ l])
  have "(nx - px) * (nx - px) \<le> (2 * M) * (2 * M)" "(ny - py) * (ny - py) \<le> (2 * M) * (2 * M)"
    using b by (intro square_le, simp)+
  moreover have "0 \<le> M * M" by simp
  ultimately have "N \<le> 9 * (M * M)" unfolding N_def by linarith
  then have "N \<le> (3 * M)\<^sup>2" by (simp add: power2_eq_square)
  then have len: "sqrt N \<le> 3 * M" using M0 by (intro real_le_lsqrt) auto
  have "l \<le> sqrt N" using N l0 by (intro real_le_rsqrt) (simp add: N_def power2_eq_square)
  then have "l \<le> 3 * M" using len by linarith
  then show M42: "1 / 2 ^ 42 \<le> M" using l by simp
  have "L * sqrt N \<le> L * (3 * M)" using len inv(1) by (intro mult_left_mono) auto
  then show P: "3 / 10 \<le> M * L" using inv(3) by (simp add: mult.commute)
  have "1 / 2 ^ 42 * (3 / 10) \<le> M * (M * L)"
    using M42 P by (intro mult_mono) auto
  then show "1 / 2 ^ 44 \<le> M * M * L" by (simp add: mult.assoc)
  have "M * M * L = (M * M / l) * (L * l)" using l0 by simp
  also have "\<dots> \<le> (M * M / l) * (1001 / 1000)"
    using inv(2) l0 by (intro mult_left_mono) auto
  finally show "M * M * L \<le> 1001 / 1000 * (M * M / l)" by simp
qed

lemma edge_coeffs:
  fixes px py nx ny M l :: real
  assumes acc: "accurate ops"
    and b: "\<bar>px\<bar> \<le> M" "\<bar>py\<bar> \<le> M" "\<bar>nx\<bar> \<le> M" "\<bar>ny\<bar> \<le> M"
    and M: "M \<le> 2 ^ 40"
    and l: "1 / 2 ^ 40 \<le> l"
    and N: "l * l \<le> (nx - px) * (nx - px) + (ny - py) * (ny - py)"
  shows "\<bar>edge_xdiff ops px py nx ny - (nx - px) * edge_invLength ops px py nx ny\<bar>
           \<le> 41 / 167772160 * (M * edge_invLength ops px py nx ny)"
    and "\<bar>edge_ydiff ops px py nx ny - (ny - py) * edge_invLength ops px py nx ny\<bar>
           \<le> 41 / 167772160 * (M * edge_invLength ops px py nx ny)"
    and "\<bar>edge_c0 ops px py nx ny - (nx * py - ny * px) * edge_invLength ops px py nx ny\<bar>
           \<le> 62 / 167772160 * (M * M * edge_invLength ops px py nx ny)"
    and "\<bar>edge_xdiff ops px py nx ny\<bar> \<le> 201 / 100 * (M * edge_invLength ops px py nx ny)"
    and "\<bar>edge_ydiff ops px py nx ny\<bar> \<le> 201 / 100 * (M * edge_invLength ops px py nx ny)"
    and "\<bar>edge_c0 ops px py nx ny\<bar> \<le> 201 / 100 * (M * M * edge_invLength ops px py nx ny)"
proof -
  define L where "L = edge_invLength ops px py nx ny"
  define P where "P = M * L"
  define Q where "Q = M * M"
  define S where "S = M * M * L"
  note inv = invLength_bounds [OF acc b M l N, folded L_def]
  note sc = edge_scales [OF acc b M l N, folded L_def, folded P_def S_def]
  have M0: "0 \<le> M" using b(1) by linarith
  have L0: "\<bar>L\<bar> \<le> L" using inv(1) by simp
  have M42: "1 / 4398046511104 \<le> M" using sc(1) by simp
  have P0: "3 / 10 \<le> P" using sc(2) .
  have S0: "1 / 17592186044416 \<le> S" using sc(3) by simp
  have SQ: "S = Q * L" and SP: "S = P * M" by (simp_all add: S_def Q_def P_def mult_ac)
  have "1 / 4398046511104 * (1 / 4398046511104) \<le> M * M"
    using M42 by (intro mult_mono) auto
  then have Q0: "1 / 19342813113834066795298816 \<le> Q" by (simp add: Q_def)
  have fsub: "\<And>a b. rounds_to (fl_sub ops a b) (a - b)"
    and fmul: "\<And>a b. rounds_to (fl_mul ops a b) (a * b)"
    and ffma: "\<And>f m a. \<exists>p. rounds_to p (f * m) \<and> rounds_to (fl_fma ops f m a) (p + a)"
    using acc by (simp_all add: accurate_def)
  have small: "(1::real) / 2 ^ 84 = 1 / 19342813113834066795298816" by simp
  have diff: "\<bar>fl_sub ops n p - (n - p)\<bar> \<le> 2 / 16777000 * M
      \<and> \<bar>fl_sub ops n p\<bar> \<le> 201 / 100 * M"
    if "\<bar>n\<bar> \<le> M" "\<bar>p\<bar> \<le> M" for n p :: real
  proof -
    have z: "\<bar>n - p\<bar> \<le> 2 * M" using that by linarith
    have "\<bar>fl_sub ops n p - (n - p)\<bar> \<le> (2 * M) / 16777000"
      using M42 by (intro rounds_to_bound [OF fsub z]) (simp add: small)
    then show ?thesis using z M0 by linarith
  qed
  have scaled: "\<bar>fl_mul ops (fl_sub ops n p) L - (n - p) * L\<bar> \<le> 41 / 167772160 * P
      \<and> \<bar>fl_mul ops (fl_sub ops n p) L\<bar> \<le> 201 / 100 * P"
    if np: "\<bar>n\<bar> \<le> M" "\<bar>p\<bar> \<le> M" for n p :: real
  proof -
    define d' where "d' = fl_sub ops n p"
    have d1: "\<bar>d' - (n - p)\<bar> \<le> 2 / 16777000 * M" and d2: "\<bar>d'\<bar> \<le> 201 / 100 * M"
      using diff [OF np] by (simp_all add: d'_def)
    have z: "\<bar>d' * L\<bar> \<le> 201 / 100 * P" by (rule abs_prod_le [OF d2 L0 P_def])
    have r: "\<bar>fl_mul ops d' L - d' * L\<bar> \<le> (201 / 100 * P) / 16777000"
      using P0 by (intro rounds_to_bound [OF fmul z]) (simp add: small)
    have e: "\<bar>(d' - (n - p)) * L\<bar> \<le> 2 / 16777000 * P" by (rule abs_prod_le [OF d1 L0 P_def])
    have x: "\<bar>(n - p) * L\<bar> \<le> 2 * P"
      by (rule abs_prod_le [OF _ L0 P_def]) (use np in linarith)
    have eq: "(d' - (n - p)) * L = d' * L - (n - p) * L" by (simp add: algebra_simps)
    show ?thesis using r e x P0 unfolding eq d'_def [symmetric] by linarith
  qed
  show "\<bar>edge_xdiff ops px py nx ny - (nx - px) * edge_invLength ops px py nx ny\<bar>
           \<le> 41 / 167772160 * (M * edge_invLength ops px py nx ny)"
    and "\<bar>edge_xdiff ops px py nx ny\<bar> \<le> 201 / 100 * (M * edge_invLength ops px py nx ny)"
    using scaled [OF b(3) b(1)] by (simp_all add: edge_xdiff_def L_def P_def)
  show "\<bar>edge_ydiff ops px py nx ny - (ny - py) * edge_invLength ops px py nx ny\<bar>
           \<le> 41 / 167772160 * (M * edge_invLength ops px py nx ny)"
    and "\<bar>edge_ydiff ops px py nx ny\<bar> \<le> 201 / 100 * (M * edge_invLength ops px py nx ny)"
    using scaled [OF b(4) b(2)] by (simp_all add: edge_ydiff_def L_def P_def)
  define m1 where "m1 = fl_mul ops (- ny) px"
  define r where "r = fl_fma ops nx py m1"
  obtain p where p: "rounds_to p (nx * py)" and rr: "rounds_to r (p + m1)"
    using ffma [of nx py m1] unfolding r_def by blast
  have z1: "\<bar>- ny * px\<bar> \<le> 1 * Q"
    using abs_prod_le [of "- ny" 1 M px M Q] b by (simp add: Q_def)
  have z2: "\<bar>nx * py\<bar> \<le> 1 * Q"
    using abs_prod_le [of nx 1 M py M Q] b by (simp add: Q_def)
  have e1: "\<bar>m1 - (- ny * px)\<bar> \<le> (1 * Q) / 16777000"
    unfolding m1_def using Q0 by (intro rounds_to_bound [OF fmul z1]) (simp add: small)
  have e2: "\<bar>p - nx * py\<bar> \<le> (1 * Q) / 16777000"
    using Q0 by (intro rounds_to_bound [OF p z2]) (simp add: small)
  have z3: "\<bar>p + m1\<bar> \<le> 201 / 100 * Q" using e1 e2 z1 z2 Q0 by linarith
  have e3: "\<bar>r - (p + m1)\<bar> \<le> (201 / 100 * Q) / 16777000"
    using Q0 by (intro rounds_to_bound [OF rr z3]) (simp add: small)
  have er: "\<bar>r - (nx * py - ny * px)\<bar> \<le> 401 / 100 / 16777000 * Q"
    using e1 e2 e3 by linarith
  have zr: "\<bar>r\<bar> \<le> 201 / 100 * Q" using er z1 z2 Q0 by linarith
  have z4: "\<bar>r * L\<bar> \<le> 201 / 100 * S" by (rule abs_prod_le [OF zr L0 SQ])
  have e4: "\<bar>fl_mul ops r L - r * L\<bar> \<le> (201 / 100 * S) / 16777000"
    using S0 by (intro rounds_to_bound [OF fmul z4]) (simp add: small)
  have e5: "\<bar>(r - (nx * py - ny * px)) * L\<bar> \<le> 401 / 100 / 16777000 * S"
    by (rule abs_prod_le [OF er L0 SQ])
  have z5: "\<bar>(nx * py - ny * px) * L\<bar> \<le> 2 * S"
    by (rule abs_prod_le [OF _ L0 SQ]) (use z1 z2 in linarith)
  have eq: "(r - (nx * py - ny * px)) * L = r * L - (nx * py - ny * px) * L"
    by (simp add: algebra_simps)
  have c0: "edge_c0 ops px py nx ny = fl_mul ops r L"
    by (simp add: edge_c0_def r_def m1_def L_def)
  show "\<bar>edge_c0 ops px py nx ny - (nx * py - ny * px) * edge_invLength ops px py nx ny\<bar>
           \<le> 62 / 167772160 * (M * M * edge_invLength ops px py nx ny)"
    and "\<bar>edge_c0 ops px py nx ny\<bar> \<le> 201 / 100 * (M * M * edge_invLength ops px py nx ny)"
    using e4 e5 z5 S0 unfolding eq c0 L_def [symmetric] S_def [symmetric] by linarith+
qed

lemma edge_value_error:
  fixes px py nx ny qx qy M l :: real
  assumes acc: "accurate ops"
    and b: "\<bar>px\<bar> \<le> M" "\<bar>py\<bar> \<le> M" "\<bar>nx\<bar> \<le> M" "\<bar>ny\<bar> \<le> M"
    and M: "M \<le> 2 ^ 40"
    and l: "1 / 2 ^ 40 \<le> l"
    and N: "l * l \<le> (nx - px) * (nx - px) + (ny - py) * (ny - py)"
    and q: "\<bar>qx\<bar> \<le> M" "\<bar>qy\<bar> \<le> M"
  shows "\<bar>edge_ydiff ops px py nx ny * qx - edge_xdiff ops px py nx ny * qy
            + edge_c0 ops px py nx ny
          - edge_invLength ops px py nx ny
            * ((ny - py) * qx - (nx - px) * qy + (nx * py - ny * px))\<bar>
           \<le> 144 / 167772160 * (M * M * edge_invLength ops px py nx ny)"
proof -
  define L where "L = edge_invLength ops px py nx ny"
  define P where "P = M * L"
  define S where "S = M * M * L"
  define xd where "xd = edge_xdiff ops px py nx ny"
  define yd where "yd = edge_ydiff ops px py nx ny"
  define c0 where "c0 = edge_c0 ops px py nx ny"
  note co = edge_coeffs [OF acc b M l N, folded L_def xd_def yd_def c0_def,
      folded P_def S_def]
  have SP: "S = P * M" by (simp add: S_def P_def mult_ac)
  have ex: "\<bar>(xd - (nx - px) * L) * qy\<bar> \<le> 41 / 167772160 * S"
    by (rule abs_prod_le [OF co(1) q(2) SP])
  have ey: "\<bar>(yd - (ny - py) * L) * qx\<bar> \<le> 41 / 167772160 * S"
    by (rule abs_prod_le [OF co(2) q(1) SP])
  have eq: "yd * qx - xd * qy + c0 - L * ((ny - py) * qx - (nx - px) * qy + (nx * py - ny * px))
      = (yd - (ny - py) * L) * qx - (xd - (nx - px) * L) * qy + (c0 - (nx * py - ny * px) * L)"
    by (simp add: algebra_simps)
  have "\<bar>yd * qx - xd * qy + c0
          - L * ((ny - py) * qx - (nx - px) * qy + (nx * py - ny * px))\<bar>
        \<le> 144 / 167772160 * S"
    unfolding eq using ex ey co(3) by linarith
  then show ?thesis by (simp add: L_def S_def xd_def yd_def c0_def)
qed

lemma edge_value_size:
  fixes px py nx ny qx qy M l :: real
  assumes acc: "accurate ops"
    and b: "\<bar>px\<bar> \<le> M" "\<bar>py\<bar> \<le> M" "\<bar>nx\<bar> \<le> M" "\<bar>ny\<bar> \<le> M"
    and M: "M \<le> 2 ^ 40"
    and l: "1 / 2 ^ 40 \<le> l"
    and N: "l * l \<le> (nx - px) * (nx - px) + (ny - py) * (ny - py)"
    and q: "\<bar>qx\<bar> \<le> M" "\<bar>qy\<bar> \<le> M"
  shows "\<bar>edge_test ops px py nx ny qx qy
          - (edge_ydiff ops px py nx ny * qx - edge_xdiff ops px py nx ny * qy
             + edge_c0 ops px py nx ny)\<bar>
           \<le> 142 / 167772160 * (M * M * edge_invLength ops px py nx ny)"
proof -
  define L where "L = edge_invLength ops px py nx ny"
  define P where "P = M * L"
  define S where "S = M * M * L"
  define xd where "xd = edge_xdiff ops px py nx ny"
  define yd where "yd = edge_ydiff ops px py nx ny"
  define c0 where "c0 = edge_c0 ops px py nx ny"
  note co = edge_coeffs [OF acc b M l N, folded L_def xd_def yd_def c0_def,
      folded P_def S_def]
  note sc = edge_scales [OF acc b M l N, folded L_def, folded P_def S_def]
  have S0: "1 / 17592186044416 \<le> S" using sc(3) by simp
  have SP: "S = P * M" by (simp add: S_def P_def mult_ac)
  have small: "(1::real) / 2 ^ 84 = 1 / 19342813113834066795298816" by simp
  have ffma: "\<And>f m a. \<exists>p. rounds_to p (f * m) \<and> rounds_to (fl_fma ops f m a) (p + a)"
    using acc by (simp add: accurate_def)
  define w where "w = fl_fma ops (- xd) qy c0"
  define t where "t = fl_fma ops yd qx w"
  obtain p1 where p1: "rounds_to p1 (- xd * qy)" and rw: "rounds_to w (p1 + c0)"
    using ffma [of "- xd" qy c0] unfolding w_def by blast
  obtain p0 where p0: "rounds_to p0 (yd * qx)" and rt: "rounds_to t (p0 + w)"
    using ffma [of yd qx w] unfolding t_def by blast
  have z1: "\<bar>- xd * qy\<bar> \<le> 201 / 100 * S"
    using abs_prod_le [OF co(4) q(2) SP] by simp
  have z0: "\<bar>yd * qx\<bar> \<le> 201 / 100 * S"
    by (rule abs_prod_le [OF co(5) q(1) SP])
  have e1: "\<bar>p1 - (- xd * qy)\<bar> \<le> (201 / 100 * S) / 16777000"
    using S0 by (intro rounds_to_bound [OF p1 z1]) (simp add: small)
  have e0: "\<bar>p0 - yd * qx\<bar> \<le> (201 / 100 * S) / 16777000"
    using S0 by (intro rounds_to_bound [OF p0 z0]) (simp add: small)
  have zw: "\<bar>p1 + c0\<bar> \<le> 403 / 100 * S" using e1 z1 co(6) S0 by linarith
  have ew: "\<bar>w - (p1 + c0)\<bar> \<le> (403 / 100 * S) / 16777000"
    using S0 by (intro rounds_to_bound [OF rw zw]) (simp add: small)
  have zt: "\<bar>p0 + w\<bar> \<le> 606 / 100 * S" using e0 z0 ew zw S0 by linarith
  have et: "\<bar>t - (p0 + w)\<bar> \<le> (606 / 100 * S) / 16777000"
    using S0 by (intro rounds_to_bound [OF rt zt]) (simp add: small)
  have "\<bar>t - (yd * qx - xd * qy + c0)\<bar> \<le> 142 / 167772160 * S"
    using e1 e0 ew et S0 by linarith
  then show ?thesis
    by (simp add: t_def w_def edge_test_def L_def S_def xd_def yd_def c0_def)
qed

lemma edge_c_final_error:
  fixes c1 m S :: real
  assumes acc: "accurate ops"
    and c1: "\<bar>c1\<bar> \<le> 201 / 100 * S" and S: "0 \<le> S" and m: "m = 0 \<or> m = 1"
  shows "\<bar>edge_c_final ops allEdges c1 m - (c1 + 1 / 2 + (if allEdges then 0 else 1 - m))\<bar>
           \<le> 41 / 167772160 * S + 36 / 167772160"
proof -
  have fadd: "\<And>a b. rounds_to (fl_add ops a b) (a + b)"
    and fsub: "\<And>a b. rounds_to (fl_sub ops a b) (a - b)"
    using acc by (simp_all add: accurate_def)
  have small: "(1::real) / 2 ^ 84 = 1 / 19342813113834066795298816" by simp
  define c2 where "c2 = fl_add ops c1 (1 / 2)"
  define t where "t = fl_sub ops 1 m"
  define c3 where "c3 = fl_add ops c2 t"
  define Z2 where "Z2 = 201 / 100 * S + 1 / 2"
  define Z3 where "Z3 = 202 / 100 * S + 2"
  have z2: "\<bar>c1 + 1 / 2\<bar> \<le> Z2" using c1 Z2_def by linarith
  have e2: "\<bar>c2 - (c1 + 1 / 2)\<bar> \<le> Z2 / 16777000"
    unfolding c2_def using S by (intro rounds_to_bound [OF fadd z2]) (simp add: small Z2_def)
  have zt: "\<bar>1 - m\<bar> \<le> 1" using m by auto
  have et: "\<bar>t - (1 - m)\<bar> \<le> 1 / 16777000"
    unfolding t_def by (intro rounds_to_bound [OF fsub zt]) simp
  have z3: "\<bar>c2 + t\<bar> \<le> Z3" using e2 z2 et zt S Z2_def Z3_def by linarith
  have e3: "\<bar>c3 - (c2 + t)\<bar> \<le> Z3 / 16777000"
    unfolding c3_def using S by (intro rounds_to_bound [OF fadd z3]) (simp add: small Z3_def)
  have a: "\<bar>c2 - (c1 + 1 / 2)\<bar> \<le> 41 / 167772160 * S + 36 / 167772160"
    using e2 S Z2_def by linarith
  have b: "\<bar>c3 - (c1 + 1 / 2 + (1 - m))\<bar> \<le> 41 / 167772160 * S + 36 / 167772160"
    using e2 et e3 S Z2_def Z3_def by linarith
  show ?thesis
    using a b by (simp add: edge_c_final_def Let_def c2_def c3_def t_def)
qed

lemma edge_lane_value:
  fixes px py nx ny qx qy M l s m :: real
  assumes acc: "accurate ops"
    and b: "\<bar>px\<bar> \<le> M" "\<bar>py\<bar> \<le> M" "\<bar>nx\<bar> \<le> M" "\<bar>ny\<bar> \<le> M"
    and M: "M \<le> 2 ^ 40"
    and l: "1 / 2 ^ 40 \<le> l"
    and N: "l * l \<le> (nx - px) * (nx - px) + (ny - py) * (ny - py)"
    and q: "\<bar>qx\<bar> \<le> M" "\<bar>qy\<bar> \<le> M"
    and s: "s = 1 \<or> s = - 1" and m: "m = 0 \<or> m = 1"
  shows "\<bar>s * edge_ydiff ops px py nx ny * qx + - (s * edge_xdiff ops px py nx ny) * qy
            + edge_c_final ops allEdges (s * edge_c0 ops px py nx ny) m
          - (s * (edge_invLength ops px py nx ny
                  * ((ny - py) * qx - (nx - px) * qy + (nx * py - ny * px)))
             + (1 / 2 + (if allEdges then 0 else 1 - m)))\<bar>
           \<le> edge_tolerance M l"
proof -
  define L where "L = edge_invLength ops px py nx ny"
  define S where "S = M * M * L"
  define Z where "Z = M * M / l"
  define xd where "xd = edge_xdiff ops px py nx ny"
  define yd where "yd = edge_ydiff ops px py nx ny"
  define c0 where "c0 = edge_c0 ops px py nx ny"
  define E where "E = (ny - py) * qx - (nx - px) * qy + (nx * py - ny * px)"
  define off where "off = 1 / 2 + (if allEdges then 0 else 1 - m)"
  define D where "D = yd * qx - xd * qy + c0"
  define cf where "cf = edge_c_final ops allEdges (s * c0) m"
  note co = edge_coeffs [OF acc b M l N, folded L_def xd_def yd_def c0_def, folded S_def]
  note sc = edge_scales [OF acc b M l N, folded L_def, folded S_def Z_def]
  note ve = edge_value_error [OF acc b M l N q, folded L_def xd_def yd_def c0_def,
      folded S_def E_def D_def]
  have S0: "0 \<le> S" using sc(3) by (simp add: order_trans [OF _ sc(3)])
  have sc0: "\<bar>s * c0\<bar> \<le> 201 / 100 * S" using co(6) s by auto
  have ce: "\<bar>cf - (s * c0 + off)\<bar> \<le> 41 / 167772160 * S + 36 / 167772160"
    using edge_c_final_error [OF acc sc0 S0 m, of allEdges]
    by (simp add: cf_def off_def add.assoc)
  have "\<bar>s * (D - L * E)\<bar> = \<bar>D - L * E\<bar>" using s by (auto simp add: abs_mult)
  then have sD: "\<bar>s * (D - L * E)\<bar> \<le> 144 / 167772160 * S" using ve by simp
  have eq: "s * yd * qx + - (s * xd) * qy + cf - (s * (L * E) + off)
      = s * (D - L * E) + (cf - (s * c0 + off))"
    by (simp add: D_def algebra_simps)
  have "\<bar>s * yd * qx + - (s * xd) * qy + cf - (s * (L * E) + off)\<bar> \<le> Z / 262144 + 1 / 262144"
    unfolding eq using sD ce sc(4) S0 by linarith
  then show ?thesis
    by (simp add: edge_tolerance_def Z_def L_def xd_def yd_def c0_def E_def off_def cf_def
        add_divide_distrib)
qed

lemma tolerance_length:
  fixes t N T :: real
  assumes "0 \<le> t" and "t * t * N \<le> T * T"
  shows "t * sqrt N \<le> \<bar>T\<bar>"
proof -
  have "sqrt (t * t * N) \<le> sqrt (T * T)" using assms(2) by (rule real_sqrt_le_mono)
  then show ?thesis using sqrt_scaled [OF assms(1), of N] by simp
qed

lemma edge_test_sign:
  fixes px py nx ny rx ry M l :: real
  assumes acc: "accurate ops"
    and b: "\<bar>px\<bar> \<le> M" "\<bar>py\<bar> \<le> M" "\<bar>nx\<bar> \<le> M" "\<bar>ny\<bar> \<le> M"
    and M: "M \<le> 2 ^ 40"
    and l: "1 / 2 ^ 40 \<le> l"
    and N: "l * l \<le> (nx - px) * (nx - px) + (ny - py) * (ny - py)"
    and r: "\<bar>rx\<bar> \<le> M" "\<bar>ry\<bar> \<le> M"
    and T: "T = (ny - py) * rx - (nx - px) * ry + (nx * py - ny * px)"
    and robust: "edge_tolerance M l * edge_tolerance M l
                   * ((nx - px) * (nx - px) + (ny - py) * (ny - py)) \<le> T * T"
  shows "0 \<le> T \<Longrightarrow> 0 < edge_test ops px py nx ny rx ry"
    and "T \<le> 0 \<Longrightarrow> edge_test ops px py nx ny rx ry < 0"
proof -
  define L where "L = edge_invLength ops px py nx ny"
  define S where "S = M * M * L"
  define Z where "Z = M * M / l"
  define len where "len = sqrt ((nx - px) * (nx - px) + (ny - py) * (ny - py))"
  define tol where "tol = edge_tolerance M l"
  define D where "D = edge_ydiff ops px py nx ny * rx - edge_xdiff ops px py nx ny * ry
            + edge_c0 ops px py nx ny"
  define t where "t = edge_test ops px py nx ny rx ry"
  note inv = invLength_bounds [OF acc b M l N, folded L_def len_def]
  note sc = edge_scales [OF acc b M l N, folded L_def, folded S_def Z_def]
  note ve = edge_value_error [OF acc b M l N r, folded L_def, folded S_def D_def T]
  note te = edge_value_size [OF acc b M l N r, folded L_def, folded S_def D_def t_def]
  have l0: "0 < l" using l by (simp add: order_less_le_trans [OF _ l])
  have Z0: "0 \<le> Z" using l0 by (simp add: Z_def)
  have tolZ: "tol = Z / 262144 + 1 / 262144"
    by (simp add: tol_def edge_tolerance_def Z_def add_divide_distrib)
  have tol0: "0 \<le> tol" using Z0 tolZ by simp
  have tl: "tol * len \<le> \<bar>T\<bar>"
    unfolding len_def by (rule tolerance_length [OF tol0 robust [folded tol_def]])
  have "L * (tol * len) \<le> L * \<bar>T\<bar>" using tl inv(1) by (intro mult_left_mono) auto
  moreover have "tol * (999 / 1000) \<le> tol * (L * len)"
    using inv(3) tol0 by (rule mult_left_mono)
  ultimately have big: "999 / 1000 * tol \<le> L * \<bar>T\<bar>" by (simp add: mult_ac)
  have err: "\<bar>t - L * T\<bar> \<le> 286 / 167772160 * S" using ve te by linarith
  have small: "286 / 167772160 * S < 999 / 1000 * tol"
    using sc(4) Z0 tolZ by linarith
  show "0 < edge_test ops px py nx ny rx ry" if "0 \<le> T"
  proof -
    have "L * \<bar>T\<bar> = L * T" using that by simp
    then show ?thesis using big err small unfolding t_def [symmetric] by linarith
  qed
  show "edge_test ops px py nx ny rx ry < 0" if "T \<le> 0"
  proof -
    have "L * \<bar>T\<bar> = - (L * T)" using that by simp
    then show ?thesis using big err small unfolding t_def [symmetric] by linarith
  qed
qed

section \<open>The lanes of the edge computation\<close>

text \<open>
  Lane \<open>j\<close> of the vectors that \<^verbatim>\<open>compute_quad_edges_and_outset_vertices\<close> returns is the
  computation of one lane on the corners of edge \<open>j\<close>; all four lanes are negated when the
  test is negative in any of them.
\<close>

lemma compute_quad_edges_lanes:
  fixes x0 x1 x2 x3 y0 y1 y2 y3 :: real
  assumes x: "x = X4 x0 x1 x2 x3" and y: "y = X4 y0 y1 y2 y3"
    and flip: "flip = (edge_test ops x0 y0 x1 y1 x2 y2 < 0 \<or> edge_test ops x1 y1 x3 y3 x0 y0 < 0 \<or>
                       edge_test ops x2 y2 x0 y0 x3 y3 < 0 \<or> edge_test ops x3 y3 x2 y2 x1 y1 < 0)"
    and s: "s = (if flip then - 1 else 1 :: real)"
    and e: "e = compute_quad_edges_and_outset_vertices ops aaFlags x y oc u v"
  shows "qe_a e = X4 (s * edge_ydiff ops x0 y0 x1 y1) (s * edge_ydiff ops x1 y1 x3 y3)
                     (s * edge_ydiff ops x2 y2 x0 y0) (s * edge_ydiff ops x3 y3 x2 y2)"
    and "qe_b e = X4 (- (s * edge_xdiff ops x0 y0 x1 y1)) (- (s * edge_xdiff ops x1 y1 x3 y3))
                     (- (s * edge_xdiff ops x2 y2 x0 y0)) (- (s * edge_xdiff ops x3 y3 x2 y2))"
    and "qe_c e =
           X4 (edge_c_final ops (aaFlags = kAll) (s * edge_c0 ops x0 y0 x1 y1)
                 (lane0 (aa_mask aaFlags)))
              (edge_c_final ops (aaFlags = kAll) (s * edge_c0 ops x1 y1 x3 y3)
                 (lane1 (aa_mask aaFlags)))
              (edge_c_final ops (aaFlags = kAll) (s * edge_c0 ops x2 y2 x0 y0)
                 (lane2 (aa_mask aaFlags)))
              (edge_c_final ops (aaFlags = kAll) (s * edge_c0 ops x3 y3 x2 y2)
                 (lane3 (aa_mask aaFlags)))"
proof -
  define xdiff0 where "xdiff0 = Sk4f_sub ops (nextCCW x) x"
  define ydiff0 where "ydiff0 = Sk4f_sub ops (nextCCW y) y"
  define invLengths where
    "invLengths = rsqrt ops (SkNx_fma ops xdiff0 xdiff0 (Sk4f_mul ops ydiff0 ydiff0))"
  define xdiff where "xdiff = Sk4f_mul ops xdiff0 invLengths"
  define ydiff where "ydiff = Sk4f_mul ops ydiff0 invLengths"
  define c0 where
    "c0 = Sk4f_mul ops (SkNx_fma ops (nextCCW x) y (Sk4f_mul ops (- nextCCW y) x)) invLengths"
  define test where
    "test = SkNx_fma ops ydiff (nextCW x) (SkNx_fma ops (- xdiff) (nextCW y) c0)"
  have il: "invLengths = X4 (edge_invLength ops x0 y0 x1 y1) (edge_invLength ops x1 y1 x3 y3)
                            (edge_invLength ops x2 y2 x0 y0) (edge_invLength ops x3 y3 x2 y2)"
    by (simp add: invLengths_def xdiff0_def ydiff0_def x y nextCCW_def Sk4f_sub_def Sk4f_mul_def
        SkNx_fma_def rsqrt_def edge_invLength_def Let_def)
  have xd: "xdiff = X4 (edge_xdiff ops x0 y0 x1 y1) (edge_xdiff ops x1 y1 x3 y3)
                       (edge_xdiff ops x2 y2 x0 y0) (edge_xdiff ops x3 y3 x2 y2)"
    unfolding xdiff_def il
    by (simp add: xdiff0_def x nextCCW_def Sk4f_sub_def Sk4f_mul_def edge_xdiff_def)
  have yd: "ydiff = X4 (edge_ydiff ops x0 y0 x1 y1) (edge_ydiff ops x1 y1 x3 y3)
                       (edge_ydiff ops x2 y2 x0 y0) (edge_ydiff ops x3 y3 x2 y2)"
    unfolding ydiff_def il
    by (simp add: ydiff0_def y nextCCW_def Sk4f_sub_def Sk4f_mul_def edge_ydiff_def)
  have c0': "c0 = X4 (edge_c0 ops x0 y0 x1 y1) (edge_c0 ops x1 y1 x3 y3)
                     (edge_c0 ops x2 y2 x0 y0) (edge_c0 ops x3 y3 x2 y2)"
    unfolding c0_def il
    by (simp add: x y nextCCW_def Sk4f_mul_def SkNx_fma_def uminus_x4_def edge_c0_def)
  have fl: "anyTrue (map_x4 (\<lambda>t. t < 0) test) = flip"
    unfolding test_def xd yd c0' flip
    by (simp add: x y nextCW_def SkNx_fma_def uminus_x4_def anyTrue_def edge_test_def)
  have e': "qe_a e = (if flip then - ydiff else ydiff)"
    "qe_b e = (if flip then xdiff else - xdiff)"
    "qe_c e = (let c2 = Sk4f_add ops (if flip then - c0 else c0) (splat (1 / 2))
               in if aaFlags \<noteq> kAll
                  then Sk4f_add ops c2 (Sk4f_sub ops (splat 1) (aa_mask aaFlags)) else c2)"
    unfolding e compute_quad_edges_and_outset_vertices_def Let_def
      xdiff0_def [symmetric] ydiff0_def [symmetric] invLengths_def [symmetric]
      xdiff_def [symmetric] ydiff_def [symmetric] c0_def [symmetric] test_def [symmetric] fl
    by simp_all
  show "qe_a e = X4 (s * edge_ydiff ops x0 y0 x1 y1) (s * edge_ydiff ops x1 y1 x3 y3)
                     (s * edge_ydiff ops x2 y2 x0 y0) (s * edge_ydiff ops x3 y3 x2 y2)"
    unfolding e'(1) yd by (simp add: s uminus_x4_def)
  show "qe_b e = X4 (- (s * edge_xdiff ops x0 y0 x1 y1)) (- (s * edge_xdiff ops x1 y1 x3 y3))
                     (- (s * edge_xdiff ops x2 y2 x0 y0)) (- (s * edge_xdiff ops x3 y3 x2 y2))"
    unfolding e'(2) xd by (simp add: s uminus_x4_def)
  show "qe_c e =
           X4 (edge_c_final ops (aaFlags = kAll) (s * edge_c0 ops x0 y0 x1 y1)
                 (lane0 (aa_mask aaFlags)))
              (edge_c_final ops (aaFlags = kAll) (s * edge_c0 ops x1 y1 x3 y3)
                 (lane1 (aa_mask aaFlags)))
              (edge_c_final ops (aaFlags = kAll) (s * edge_c0 ops x2 y2 x0 y0)
                 (lane2 (aa_mask aaFlags)))
              (edge_c_final ops (aaFlags = kAll) (s * edge_c0 ops x3 y3 x2 y2)
                 (lane3 (aa_mask aaFlags)))"
    unfolding e'(3) c0'
    by (cases "aa_mask aaFlags")
       (simp add: s uminus_x4_def Sk4f_add_def Sk4f_sub_def splat_def edge_c_final_def Let_def)
qed

lemma edge_lane_corner:
  fixes px py nx ny qx qy M l s m :: real
  assumes acc: "accurate ops"
    and b: "\<bar>px\<bar> \<le> M" "\<bar>py\<bar> \<le> M" "\<bar>nx\<bar> \<le> M" "\<bar>ny\<bar> \<le> M"
    and M: "M \<le> 2 ^ 40"
    and l: "1 / 2 ^ 40 \<le> l"
    and N: "l * l \<le> (nx - px) * (nx - px) + (ny - py) * (ny - py)"
    and q: "\<bar>qx\<bar> \<le> M" "\<bar>qy\<bar> \<le> M"
    and s: "s = 1 \<or> s = - 1" and m: "m = 0 \<or> m = 1"
    and sq: "0 \<le> s * ((ny - py) * (qx - px) - (nx - px) * (qy - py))"
    and a: "a = s * edge_ydiff ops px py nx ny"
    and b': "b = - (s * edge_xdiff ops px py nx ny)"
    and c: "c = edge_c_final ops allEdges (s * edge_c0 ops px py nx ny) m"
    and off: "off = 1 / 2 + (if allEdges then 0 else 1 - m)"
    and d: "d = \<bar>(ny - py) * (qx - px) - (nx - px) * (qy - py)\<bar>
                  / sqrt ((nx - px) * (nx - px) + (ny - py) * (ny - py))"
  shows "off - edge_tolerance M l + 999 / 1000 * d \<le> a * qx + b * qy + c \<and>
         a * qx + b * qy + c \<le> off + edge_tolerance M l + 1001 / 1000 * d"
proof -
  define L where "L = edge_invLength ops px py nx ny"
  define len where "len = sqrt ((nx - px) * (nx - px) + (ny - py) * (ny - py))"
  define E where "E = (ny - py) * (qx - px) - (nx - px) * (qy - py)"
  note inv = invLength_bounds [OF acc b M l N, folded L_def len_def]
  have E': "(ny - py) * qx - (nx - px) * qy + (nx * py - ny * px) = E"
    by (simp add: E_def algebra_simps)
  note v = edge_lane_value [OF acc b M l N q s m, of allEdges,
      folded a b' c off L_def, unfolded E']
  have len0: "0 < len"
  proof (rule ccontr)
    assume "\<not> 0 < len"
    then have "L * len \<le> 0" using inv(1) by (simp add: mult_le_0_iff)
    then show False using inv(3) by linarith
  qed
  have d0: "0 \<le> d" using len0 by (simp add: d len_def)
  have sE: "s * E = \<bar>E\<bar>" using sq s unfolding E_def [symmetric] by auto
  have "s * (L * E) = L * \<bar>E\<bar>" using sE by (simp add: mult.left_commute)
  also have "\<dots> = (L * len) * d" using len0 by (simp add: d E_def len_def)
  finally have sLE: "s * (L * E) = (L * len) * d" .
  have lo: "999 / 1000 * d \<le> (L * len) * d" using inv(3) d0 by (rule mult_right_mono)
  have hi: "(L * len) * d \<le> 1001 / 1000 * d" using inv(4) d0 by (rule mult_right_mono)
  show ?thesis using v lo hi unfolding sLE by linarith
qed

lemma mask_lane:
  "lane0 (aa_mask aaFlags) = 0 \<or> lane0 (aa_mask aaFlags) = 1"
  "lane1 (aa_mask aaFlags) = 0 \<or> lane1 (aa_mask aaFlags) = 1"
  "lane2 (aa_mask aaFlags) = 0 \<or> lane2 (aa_mask aaFlags) = 1"
  "lane3 (aa_mask aaFlags) = 0 \<or> lane3 (aa_mask aaFlags) = 1"
  by (simp_all add: aa_mask_def)

lemma mask_offset:
  "1 / 2 + (if aaFlags = kAll then 0 else 1 - lane0 (aa_mask aaFlags))
     = (if edge_aa_enabled aaFlags 0 then 1 / 2 else 3 / 2)"
  "1 / 2 + (if aaFlags = kAll then 0 else 1 - lane1 (aa_mask aaFlags))
     = (if edge_aa_enabled aaFlags 1 then 1 / 2 else 3 / 2)"
  "1 / 2 + (if aaFlags = kAll then 0 else 1 - lane2 (aa_mask aaFlags))
     = (if edge_aa_enabled aaFlags 2 then 1 / 2 else 3 / 2)"
  "1 / 2 + (if aaFlags = kAll then 0 else 1 - lane3 (aa_mask aaFlags))
     = (if edge_aa_enabled aaFlags 3 then 1 / 2 else 3 / 2)"
  by (cases "aaFlags = kAll";
      simp add: edge_aa_enabled_def lane_def aa_mask_def kAll_def kLeft_def kTop_def
        kRight_def kBottom_def)+

lemma all_less_4: "(\<forall>j<(4::nat). P j) \<longleftrightarrow> P 0 \<and> P 1 \<and> P 2 \<and> P 3"
proof
  assume "\<forall>j<4. P j"
  then show "P 0 \<and> P 1 \<and> P 2 \<and> P 3" by simp
next
  assume a: "P 0 \<and> P 1 \<and> P 2 \<and> P 3"
  show "\<forall>j<4. P j"
  proof (intro allI impI)
    fix j :: nat
    assume "j < 4"
    then have "j = 0 \<or> j = 1 \<or> j = 2 \<or> j = 3" by linarith
    then show "P j" using a by auto
  qed
qed

section \<open>The edge equations at the corners of the quad\<close>

text \<open>
  Claim C1. Take a quad with its corners in tri-strip order, coordinates of absolute value
  at most \<open>M\<close> and edges of length \<open>l\<close> or more, that is robustly convex with the margin
  \<open>edge_tolerance M l\<close>, and any mask of per-edge antialiasing flags. Let the operations on
  floats be accurate. Then the edge equations \<open>(a, b, c)\<close> that
  \<^verbatim>\<open>compute_quad_edges_and_outset_vertices\<close> returns take, at each original corner \<open>i\<close>, a value
  between \<open>off - tol + 0.999 * d\<close> and \<open>off + tol + 1.001 * d\<close>, where \<open>off\<close> is 1/2 for an
  edge whose flag is set and 3/2 for one whose flag is unset, \<open>d\<close> is the distance from the
  corner to the line of the edge, and \<open>tol\<close> is the tolerance. So the value is within the
  tolerance of 1/2 or 3/2 at the two corners on the edge, and at least 1/2 or 3/2 minus the
  tolerance at every corner: the normals face into the quad.
\<close>

theorem edge_equations_cover_corners:
  fixes x y u v :: Sk4f and M l :: real
  assumes acc: "accurate ops"
    and bnd: "\<forall>i<4. \<bar>lane x i\<bar> \<le> M \<and> \<bar>lane y i\<bar> \<le> M"
    and M: "M \<le> 2 ^ 40"
    and l: "1 / 2 ^ 40 \<le> l"
    and len: "\<forall>j<4. l * l \<le> lane (edge_length2 x y) j"
    and rob: "robustly_convex_quad (edge_tolerance M l) x y"
  shows "\<forall>j<4. \<forall>i<4.
      (if edge_aa_enabled aaFlags j then 1 / 2 else 3 / 2) - edge_tolerance M l
          + 999 / 1000 * corner_edge_distance x y j i
        \<le> edge_distance (compute_quad_edges_and_outset_vertices ops aaFlags x y outsetCorners u v)
             j (lane x i) (lane y i) \<and>
      edge_distance (compute_quad_edges_and_outset_vertices ops aaFlags x y outsetCorners u v)
          j (lane x i) (lane y i)
        \<le> (if edge_aa_enabled aaFlags j then 1 / 2 else 3 / 2) + edge_tolerance M l
          + 1001 / 1000 * corner_edge_distance x y j i"
proof -
  obtain x0 x1 x2 x3 where x: "x = X4 x0 x1 x2 x3" by (cases x)
  obtain y0 y1 y2 y3 where y: "y = X4 y0 y1 y2 y3" by (cases y)
  define tol where "tol = edge_tolerance M l"
  define e where "e = compute_quad_edges_and_outset_vertices ops aaFlags x y outsetCorners u v"
  define flip where
    "flip = (edge_test ops x0 y0 x1 y1 x2 y2 < 0 \<or> edge_test ops x1 y1 x3 y3 x0 y0 < 0 \<or>
             edge_test ops x2 y2 x0 y0 x3 y3 < 0 \<or> edge_test ops x3 y3 x2 y2 x1 y1 < 0)"
  define s where "s = (if flip then - 1 else 1 :: real)"
  note lanes = compute_quad_edges_lanes [OF x y flip_def s_def e_def]
  have s: "s = 1 \<or> s = - 1" by (simp add: s_def)
  have b0: "\<bar>x0\<bar> \<le> M" "\<bar>y0\<bar> \<le> M"
    using bnd [THEN spec, of 0] by (simp_all add: x y lane_def)
  have b1: "\<bar>x1\<bar> \<le> M" "\<bar>y1\<bar> \<le> M"
    using bnd [THEN spec, of 1] by (simp_all add: x y lane_def)
  have b2: "\<bar>x2\<bar> \<le> M" "\<bar>y2\<bar> \<le> M"
    using bnd [THEN spec, of 2] by (simp_all add: x y lane_def)
  have b3: "\<bar>x3\<bar> \<le> M" "\<bar>y3\<bar> \<le> M"
    using bnd [THEN spec, of 3] by (simp_all add: x y lane_def)
  have n0: "l * l \<le> (x1 - x0) * (x1 - x0) + (y1 - y0) * (y1 - y0)"
    using len [THEN spec, of 0]
    by (simp add: x y lane_def edge_length2_def Let_def nextCCW_def minus_x4_def times_x4_def
        plus_x4_def)
  have n1: "l * l \<le> (x3 - x1) * (x3 - x1) + (y3 - y1) * (y3 - y1)"
    using len [THEN spec, of 1]
    by (simp add: x y lane_def edge_length2_def Let_def nextCCW_def minus_x4_def times_x4_def
        plus_x4_def)
  have n2: "l * l \<le> (x0 - x2) * (x0 - x2) + (y0 - y2) * (y0 - y2)"
    using len [THEN spec, of 2]
    by (simp add: x y lane_def edge_length2_def Let_def nextCCW_def minus_x4_def times_x4_def
        plus_x4_def)
  have n3: "l * l \<le> (x2 - x3) * (x2 - x3) + (y2 - y3) * (y2 - y3)"
    using len [THEN spec, of 3]
    by (simp add: x y lane_def edge_length2_def Let_def nextCCW_def minus_x4_def times_x4_def
        plus_x4_def)
  define t0 where "t0 = (x0 - x2) * (y1 - y0) - (y0 - y2) * (x1 - x0)"
  define t1 where "t1 = (x1 - x0) * (y3 - y1) - (y1 - y0) * (x3 - x1)"
  define t2 where "t2 = (x2 - x3) * (y0 - y2) - (y2 - y3) * (x0 - x2)"
  define t3 where "t3 = (x3 - x1) * (y2 - y3) - (y3 - y1) * (x2 - x3)"
  have rob': "(0 \<le> t0 \<and> 0 \<le> t1 \<and> 0 \<le> t2 \<and> 0 \<le> t3) \<or>
              (t0 \<le> 0 \<and> t1 \<le> 0 \<and> t2 \<le> 0 \<and> t3 \<le> 0)"
    "tol * tol * ((x1 - x0) * (x1 - x0) + (y1 - y0) * (y1 - y0)) \<le> t0 * t0"
    "tol * tol * ((x3 - x1) * (x3 - x1) + (y3 - y1) * (y3 - y1)) \<le> t1 * t1"
    "tol * tol * ((x0 - x2) * (x0 - x2) + (y0 - y2) * (y0 - y2)) \<le> t2 * t2"
    "tol * tol * ((x2 - x3) * (x2 - x3) + (y2 - y3) * (y2 - y3)) \<le> t3 * t3"
    using rob
    unfolding robustly_convex_quad_def corner_turns_def edge_length2_def Let_def x y tol_def
      t0_def t1_def t2_def t3_def
    by (auto simp add: nextCCW_def nextCW_def minus_x4_def times_x4_def plus_x4_def allTrue_def)
  have R0: "(y1 - y0) * x2 - (x1 - x0) * y2 + (x1 * y0 - y1 * x0) = - t0"
    by (simp add: t0_def algebra_simps)
  have R1: "(y3 - y1) * x0 - (x3 - x1) * y0 + (x3 * y1 - y3 * x1) = - t1"
    by (simp add: t1_def algebra_simps)
  have R2: "(y0 - y2) * x3 - (x0 - x2) * y3 + (x0 * y2 - y0 * x2) = - t2"
    by (simp add: t2_def algebra_simps)
  have R3: "(y2 - y3) * x1 - (x2 - x3) * y1 + (x2 * y3 - y2 * x3) = - t3"
    by (simp add: t3_def algebra_simps)
  have q0: "tol * tol * ((x1 - x0) * (x1 - x0) + (y1 - y0) * (y1 - y0)) \<le> (- t0) * (- t0)" using rob'(2) by simp
  note sign0 = edge_test_sign [OF acc b0 b1 M l n0 b2 R0 [symmetric]
      q0 [unfolded tol_def]]
  have q1: "tol * tol * ((x3 - x1) * (x3 - x1) + (y3 - y1) * (y3 - y1)) \<le> (- t1) * (- t1)" using rob'(3) by simp
  note sign1 = edge_test_sign [OF acc b1 b3 M l n1 b0 R1 [symmetric]
      q1 [unfolded tol_def]]
  have q2: "tol * tol * ((x0 - x2) * (x0 - x2) + (y0 - y2) * (y0 - y2)) \<le> (- t2) * (- t2)" using rob'(4) by simp
  note sign2 = edge_test_sign [OF acc b2 b0 M l n2 b3 R2 [symmetric]
      q2 [unfolded tol_def]]
  have q3: "tol * tol * ((x2 - x3) * (x2 - x3) + (y2 - y3) * (y2 - y3)) \<le> (- t3) * (- t3)" using rob'(5) by simp
  note sign3 = edge_test_sign [OF acc b3 b2 M l n3 b1 R3 [symmetric]
      q3 [unfolded tol_def]]
  have st: "0 \<le> s * (- t0) \<and> 0 \<le> s * (- t1) \<and> 0 \<le> s * (- t2) \<and> 0 \<le> s * (- t3)"
  proof -
    from rob'(1) show ?thesis
    proof
      assume pos: "0 \<le> t0 \<and> 0 \<le> t1 \<and> 0 \<le> t2 \<and> 0 \<le> t3"
      then have "edge_test ops x0 y0 x1 y1 x2 y2 < 0" using sign0(2) by simp
      then have "flip" by (simp add: flip_def)
      then show ?thesis using pos by (simp add: s_def)
    next
      assume neg: "t0 \<le> 0 \<and> t1 \<le> 0 \<and> t2 \<le> 0 \<and> t3 \<le> 0"
      then have "0 < edge_test ops x0 y0 x1 y1 x2 y2" "0 < edge_test ops x1 y1 x3 y3 x0 y0"
        "0 < edge_test ops x2 y2 x0 y0 x3 y3" "0 < edge_test ops x3 y3 x2 y2 x1 y1"
        using sign0(1) sign1(1) sign2(1) sign3(1) by simp_all
      then have "\<not> flip" by (simp add: flip_def)
      then show ?thesis using neg by (simp add: s_def)
    qed
  qed
  have lx: "lane x 0 = x0" "lane x 1 = x1" "lane x 2 = x2" "lane x 3 = x3"
    and ly: "lane y 0 = y0" "lane y 1 = y1" "lane y 2 = y2" "lane y 3 = y3"
    by (simp_all add: x y lane_def)
  have lnx: "lane (nextCCW x) 0 = x1" "lane (nextCCW x) 1 = x3" "lane (nextCCW x) 2 = x0"
      "lane (nextCCW x) 3 = x2"
    and lny: "lane (nextCCW y) 0 = y1" "lane (nextCCW y) 1 = y3" "lane (nextCCW y) 2 = y0"
      "lane (nextCCW y) 3 = y2"
    by (simp_all add: x y lane_def nextCCW_def)
  define a0 where "a0 = s * edge_ydiff ops x0 y0 x1 y1"
  define c0 where "c0 = edge_c_final ops (aaFlags = kAll) (s * edge_c0 ops x0 y0 x1 y1)
      (lane0 (aa_mask aaFlags))"
  define k0 where "k0 = - (s * edge_xdiff ops x0 y0 x1 y1)"
  define off0 where
    "off0 = 1 / 2 + (if aaFlags = kAll then 0 else 1 - lane0 (aa_mask aaFlags))"
  have ed0: "edge_distance e 0 qx qy = a0 * qx + k0 * qy + c0" for qx qy
    by (simp add: edge_distance_def lanes lane_def a0_def k0_def c0_def)
  have of0: "(if edge_aa_enabled aaFlags 0 then 1 / 2 else 3 / 2) = off0"
    unfolding off0_def by (rule mask_offset(1) [symmetric])
  have cd0: "corner_edge_distance x y 0 i
      = \<bar>(y1 - y0) * (lane x i - x0) - (x1 - x0) * (lane y i - y0)\<bar>
        / sqrt ((x1 - x0) * (x1 - x0) + (y1 - y0) * (y1 - y0))" for i
    unfolding corner_edge_distance_def Let_def lx ly lnx lny by (rule refl)
  have sq00: "0 \<le> s * ((y1 - y0) * (x0 - x0) - (x1 - x0) * (y0 - y0))" by simp
  have h00: "(if edge_aa_enabled aaFlags 0 then 1 / 2 else 3 / 2) - tol
          + 999 / 1000 * corner_edge_distance x y 0 0
        \<le> edge_distance e 0 (lane x 0) (lane y 0) \<and>
      edge_distance e 0 (lane x 0) (lane y 0)
        \<le> (if edge_aa_enabled aaFlags 0 then 1 / 2 else 3 / 2) + tol
          + 1001 / 1000 * corner_edge_distance x y 0 0"
    unfolding of0 ed0 cd0 lx ly tol_def
    by (rule edge_lane_corner [OF acc b0 b1 M l n0 b0 s mask_lane(1) sq00
          a0_def k0_def c0_def off0_def refl])
  have sq01: "0 \<le> s * ((y1 - y0) * (x1 - x0) - (x1 - x0) * (y1 - y0))" by simp
  have h01: "(if edge_aa_enabled aaFlags 0 then 1 / 2 else 3 / 2) - tol
          + 999 / 1000 * corner_edge_distance x y 0 1
        \<le> edge_distance e 0 (lane x 1) (lane y 1) \<and>
      edge_distance e 0 (lane x 1) (lane y 1)
        \<le> (if edge_aa_enabled aaFlags 0 then 1 / 2 else 3 / 2) + tol
          + 1001 / 1000 * corner_edge_distance x y 0 1"
    unfolding of0 ed0 cd0 lx ly tol_def
    by (rule edge_lane_corner [OF acc b0 b1 M l n0 b1 s mask_lane(1) sq01
          a0_def k0_def c0_def off0_def refl])
  have "(y1 - y0) * (x2 - x0) - (x1 - x0) * (y2 - y0) = - t0" by (simp add: t0_def algebra_simps)
  then have sq02: "0 \<le> s * ((y1 - y0) * (x2 - x0) - (x1 - x0) * (y2 - y0))" using st by simp
  have h02: "(if edge_aa_enabled aaFlags 0 then 1 / 2 else 3 / 2) - tol
          + 999 / 1000 * corner_edge_distance x y 0 2
        \<le> edge_distance e 0 (lane x 2) (lane y 2) \<and>
      edge_distance e 0 (lane x 2) (lane y 2)
        \<le> (if edge_aa_enabled aaFlags 0 then 1 / 2 else 3 / 2) + tol
          + 1001 / 1000 * corner_edge_distance x y 0 2"
    unfolding of0 ed0 cd0 lx ly tol_def
    by (rule edge_lane_corner [OF acc b0 b1 M l n0 b2 s mask_lane(1) sq02
          a0_def k0_def c0_def off0_def refl])
  have "(y1 - y0) * (x3 - x0) - (x1 - x0) * (y3 - y0) = - t1" by (simp add: t1_def algebra_simps)
  then have sq03: "0 \<le> s * ((y1 - y0) * (x3 - x0) - (x1 - x0) * (y3 - y0))" using st by simp
  have h03: "(if edge_aa_enabled aaFlags 0 then 1 / 2 else 3 / 2) - tol
          + 999 / 1000 * corner_edge_distance x y 0 3
        \<le> edge_distance e 0 (lane x 3) (lane y 3) \<and>
      edge_distance e 0 (lane x 3) (lane y 3)
        \<le> (if edge_aa_enabled aaFlags 0 then 1 / 2 else 3 / 2) + tol
          + 1001 / 1000 * corner_edge_distance x y 0 3"
    unfolding of0 ed0 cd0 lx ly tol_def
    by (rule edge_lane_corner [OF acc b0 b1 M l n0 b3 s mask_lane(1) sq03
          a0_def k0_def c0_def off0_def refl])
  define a1 where "a1 = s * edge_ydiff ops x1 y1 x3 y3"
  define c1 where "c1 = edge_c_final ops (aaFlags = kAll) (s * edge_c0 ops x1 y1 x3 y3)
      (lane1 (aa_mask aaFlags))"
  define k1 where "k1 = - (s * edge_xdiff ops x1 y1 x3 y3)"
  define off1 where
    "off1 = 1 / 2 + (if aaFlags = kAll then 0 else 1 - lane1 (aa_mask aaFlags))"
  have ed1: "edge_distance e 1 qx qy = a1 * qx + k1 * qy + c1" for qx qy
    by (simp add: edge_distance_def lanes lane_def a1_def k1_def c1_def)
  have of1: "(if edge_aa_enabled aaFlags 1 then 1 / 2 else 3 / 2) = off1"
    unfolding off1_def by (rule mask_offset(2) [symmetric])
  have cd1: "corner_edge_distance x y 1 i
      = \<bar>(y3 - y1) * (lane x i - x1) - (x3 - x1) * (lane y i - y1)\<bar>
        / sqrt ((x3 - x1) * (x3 - x1) + (y3 - y1) * (y3 - y1))" for i
    unfolding corner_edge_distance_def Let_def lx ly lnx lny by (rule refl)
  have "(y3 - y1) * (x0 - x1) - (x3 - x1) * (y0 - y1) = - t1" by (simp add: t1_def algebra_simps)
  then have sq10: "0 \<le> s * ((y3 - y1) * (x0 - x1) - (x3 - x1) * (y0 - y1))" using st by simp
  have h10: "(if edge_aa_enabled aaFlags 1 then 1 / 2 else 3 / 2) - tol
          + 999 / 1000 * corner_edge_distance x y 1 0
        \<le> edge_distance e 1 (lane x 0) (lane y 0) \<and>
      edge_distance e 1 (lane x 0) (lane y 0)
        \<le> (if edge_aa_enabled aaFlags 1 then 1 / 2 else 3 / 2) + tol
          + 1001 / 1000 * corner_edge_distance x y 1 0"
    unfolding of1 ed1 cd1 lx ly tol_def
    by (rule edge_lane_corner [OF acc b1 b3 M l n1 b0 s mask_lane(2) sq10
          a1_def k1_def c1_def off1_def refl])
  have sq11: "0 \<le> s * ((y3 - y1) * (x1 - x1) - (x3 - x1) * (y1 - y1))" by simp
  have h11: "(if edge_aa_enabled aaFlags 1 then 1 / 2 else 3 / 2) - tol
          + 999 / 1000 * corner_edge_distance x y 1 1
        \<le> edge_distance e 1 (lane x 1) (lane y 1) \<and>
      edge_distance e 1 (lane x 1) (lane y 1)
        \<le> (if edge_aa_enabled aaFlags 1 then 1 / 2 else 3 / 2) + tol
          + 1001 / 1000 * corner_edge_distance x y 1 1"
    unfolding of1 ed1 cd1 lx ly tol_def
    by (rule edge_lane_corner [OF acc b1 b3 M l n1 b1 s mask_lane(2) sq11
          a1_def k1_def c1_def off1_def refl])
  have "(y3 - y1) * (x2 - x1) - (x3 - x1) * (y2 - y1) = - t3" by (simp add: t3_def algebra_simps)
  then have sq12: "0 \<le> s * ((y3 - y1) * (x2 - x1) - (x3 - x1) * (y2 - y1))" using st by simp
  have h12: "(if edge_aa_enabled aaFlags 1 then 1 / 2 else 3 / 2) - tol
          + 999 / 1000 * corner_edge_distance x y 1 2
        \<le> edge_distance e 1 (lane x 2) (lane y 2) \<and>
      edge_distance e 1 (lane x 2) (lane y 2)
        \<le> (if edge_aa_enabled aaFlags 1 then 1 / 2 else 3 / 2) + tol
          + 1001 / 1000 * corner_edge_distance x y 1 2"
    unfolding of1 ed1 cd1 lx ly tol_def
    by (rule edge_lane_corner [OF acc b1 b3 M l n1 b2 s mask_lane(2) sq12
          a1_def k1_def c1_def off1_def refl])
  have sq13: "0 \<le> s * ((y3 - y1) * (x3 - x1) - (x3 - x1) * (y3 - y1))" by simp
  have h13: "(if edge_aa_enabled aaFlags 1 then 1 / 2 else 3 / 2) - tol
          + 999 / 1000 * corner_edge_distance x y 1 3
        \<le> edge_distance e 1 (lane x 3) (lane y 3) \<and>
      edge_distance e 1 (lane x 3) (lane y 3)
        \<le> (if edge_aa_enabled aaFlags 1 then 1 / 2 else 3 / 2) + tol
          + 1001 / 1000 * corner_edge_distance x y 1 3"
    unfolding of1 ed1 cd1 lx ly tol_def
    by (rule edge_lane_corner [OF acc b1 b3 M l n1 b3 s mask_lane(2) sq13
          a1_def k1_def c1_def off1_def refl])
  define a2 where "a2 = s * edge_ydiff ops x2 y2 x0 y0"
  define c2 where "c2 = edge_c_final ops (aaFlags = kAll) (s * edge_c0 ops x2 y2 x0 y0)
      (lane2 (aa_mask aaFlags))"
  define k2 where "k2 = - (s * edge_xdiff ops x2 y2 x0 y0)"
  define off2 where
    "off2 = 1 / 2 + (if aaFlags = kAll then 0 else 1 - lane2 (aa_mask aaFlags))"
  have ed2: "edge_distance e 2 qx qy = a2 * qx + k2 * qy + c2" for qx qy
    by (simp add: edge_distance_def lanes lane_def a2_def k2_def c2_def)
  have of2: "(if edge_aa_enabled aaFlags 2 then 1 / 2 else 3 / 2) = off2"
    unfolding off2_def by (rule mask_offset(3) [symmetric])
  have cd2: "corner_edge_distance x y 2 i
      = \<bar>(y0 - y2) * (lane x i - x2) - (x0 - x2) * (lane y i - y2)\<bar>
        / sqrt ((x0 - x2) * (x0 - x2) + (y0 - y2) * (y0 - y2))" for i
    unfolding corner_edge_distance_def Let_def lx ly lnx lny by (rule refl)
  have sq20: "0 \<le> s * ((y0 - y2) * (x0 - x2) - (x0 - x2) * (y0 - y2))" by simp
  have h20: "(if edge_aa_enabled aaFlags 2 then 1 / 2 else 3 / 2) - tol
          + 999 / 1000 * corner_edge_distance x y 2 0
        \<le> edge_distance e 2 (lane x 0) (lane y 0) \<and>
      edge_distance e 2 (lane x 0) (lane y 0)
        \<le> (if edge_aa_enabled aaFlags 2 then 1 / 2 else 3 / 2) + tol
          + 1001 / 1000 * corner_edge_distance x y 2 0"
    unfolding of2 ed2 cd2 lx ly tol_def
    by (rule edge_lane_corner [OF acc b2 b0 M l n2 b0 s mask_lane(3) sq20
          a2_def k2_def c2_def off2_def refl])
  have "(y0 - y2) * (x1 - x2) - (x0 - x2) * (y1 - y2) = - t0" by (simp add: t0_def algebra_simps)
  then have sq21: "0 \<le> s * ((y0 - y2) * (x1 - x2) - (x0 - x2) * (y1 - y2))" using st by simp
  have h21: "(if edge_aa_enabled aaFlags 2 then 1 / 2 else 3 / 2) - tol
          + 999 / 1000 * corner_edge_distance x y 2 1
        \<le> edge_distance e 2 (lane x 1) (lane y 1) \<and>
      edge_distance e 2 (lane x 1) (lane y 1)
        \<le> (if edge_aa_enabled aaFlags 2 then 1 / 2 else 3 / 2) + tol
          + 1001 / 1000 * corner_edge_distance x y 2 1"
    unfolding of2 ed2 cd2 lx ly tol_def
    by (rule edge_lane_corner [OF acc b2 b0 M l n2 b1 s mask_lane(3) sq21
          a2_def k2_def c2_def off2_def refl])
  have sq22: "0 \<le> s * ((y0 - y2) * (x2 - x2) - (x0 - x2) * (y2 - y2))" by simp
  have h22: "(if edge_aa_enabled aaFlags 2 then 1 / 2 else 3 / 2) - tol
          + 999 / 1000 * corner_edge_distance x y 2 2
        \<le> edge_distance e 2 (lane x 2) (lane y 2) \<and>
      edge_distance e 2 (lane x 2) (lane y 2)
        \<le> (if edge_aa_enabled aaFlags 2 then 1 / 2 else 3 / 2) + tol
          + 1001 / 1000 * corner_edge_distance x y 2 2"
    unfolding of2 ed2 cd2 lx ly tol_def
    by (rule edge_lane_corner [OF acc b2 b0 M l n2 b2 s mask_lane(3) sq22
          a2_def k2_def c2_def off2_def refl])
  have "(y0 - y2) * (x3 - x2) - (x0 - x2) * (y3 - y2) = - t2" by (simp add: t2_def algebra_simps)
  then have sq23: "0 \<le> s * ((y0 - y2) * (x3 - x2) - (x0 - x2) * (y3 - y2))" using st by simp
  have h23: "(if edge_aa_enabled aaFlags 2 then 1 / 2 else 3 / 2) - tol
          + 999 / 1000 * corner_edge_distance x y 2 3
        \<le> edge_distance e 2 (lane x 3) (lane y 3) \<and>
      edge_distance e 2 (lane x 3) (lane y 3)
        \<le> (if edge_aa_enabled aaFlags 2 then 1 / 2 else 3 / 2) + tol
          + 1001 / 1000 * corner_edge_distance x y 2 3"
    unfolding of2 ed2 cd2 lx ly tol_def
    by (rule edge_lane_corner [OF acc b2 b0 M l n2 b3 s mask_lane(3) sq23
          a2_def k2_def c2_def off2_def refl])
  define a3 where "a3 = s * edge_ydiff ops x3 y3 x2 y2"
  define c3 where "c3 = edge_c_final ops (aaFlags = kAll) (s * edge_c0 ops x3 y3 x2 y2)
      (lane3 (aa_mask aaFlags))"
  define k3 where "k3 = - (s * edge_xdiff ops x3 y3 x2 y2)"
  define off3 where
    "off3 = 1 / 2 + (if aaFlags = kAll then 0 else 1 - lane3 (aa_mask aaFlags))"
  have ed3: "edge_distance e 3 qx qy = a3 * qx + k3 * qy + c3" for qx qy
    by (simp add: edge_distance_def lanes lane_def a3_def k3_def c3_def)
  have of3: "(if edge_aa_enabled aaFlags 3 then 1 / 2 else 3 / 2) = off3"
    unfolding off3_def by (rule mask_offset(4) [symmetric])
  have cd3: "corner_edge_distance x y 3 i
      = \<bar>(y2 - y3) * (lane x i - x3) - (x2 - x3) * (lane y i - y3)\<bar>
        / sqrt ((x2 - x3) * (x2 - x3) + (y2 - y3) * (y2 - y3))" for i
    unfolding corner_edge_distance_def Let_def lx ly lnx lny by (rule refl)
  have "(y2 - y3) * (x0 - x3) - (x2 - x3) * (y0 - y3) = - t2" by (simp add: t2_def algebra_simps)
  then have sq30: "0 \<le> s * ((y2 - y3) * (x0 - x3) - (x2 - x3) * (y0 - y3))" using st by simp
  have h30: "(if edge_aa_enabled aaFlags 3 then 1 / 2 else 3 / 2) - tol
          + 999 / 1000 * corner_edge_distance x y 3 0
        \<le> edge_distance e 3 (lane x 0) (lane y 0) \<and>
      edge_distance e 3 (lane x 0) (lane y 0)
        \<le> (if edge_aa_enabled aaFlags 3 then 1 / 2 else 3 / 2) + tol
          + 1001 / 1000 * corner_edge_distance x y 3 0"
    unfolding of3 ed3 cd3 lx ly tol_def
    by (rule edge_lane_corner [OF acc b3 b2 M l n3 b0 s mask_lane(4) sq30
          a3_def k3_def c3_def off3_def refl])
  have "(y2 - y3) * (x1 - x3) - (x2 - x3) * (y1 - y3) = - t3" by (simp add: t3_def algebra_simps)
  then have sq31: "0 \<le> s * ((y2 - y3) * (x1 - x3) - (x2 - x3) * (y1 - y3))" using st by simp
  have h31: "(if edge_aa_enabled aaFlags 3 then 1 / 2 else 3 / 2) - tol
          + 999 / 1000 * corner_edge_distance x y 3 1
        \<le> edge_distance e 3 (lane x 1) (lane y 1) \<and>
      edge_distance e 3 (lane x 1) (lane y 1)
        \<le> (if edge_aa_enabled aaFlags 3 then 1 / 2 else 3 / 2) + tol
          + 1001 / 1000 * corner_edge_distance x y 3 1"
    unfolding of3 ed3 cd3 lx ly tol_def
    by (rule edge_lane_corner [OF acc b3 b2 M l n3 b1 s mask_lane(4) sq31
          a3_def k3_def c3_def off3_def refl])
  have sq32: "0 \<le> s * ((y2 - y3) * (x2 - x3) - (x2 - x3) * (y2 - y3))" by simp
  have h32: "(if edge_aa_enabled aaFlags 3 then 1 / 2 else 3 / 2) - tol
          + 999 / 1000 * corner_edge_distance x y 3 2
        \<le> edge_distance e 3 (lane x 2) (lane y 2) \<and>
      edge_distance e 3 (lane x 2) (lane y 2)
        \<le> (if edge_aa_enabled aaFlags 3 then 1 / 2 else 3 / 2) + tol
          + 1001 / 1000 * corner_edge_distance x y 3 2"
    unfolding of3 ed3 cd3 lx ly tol_def
    by (rule edge_lane_corner [OF acc b3 b2 M l n3 b2 s mask_lane(4) sq32
          a3_def k3_def c3_def off3_def refl])
  have sq33: "0 \<le> s * ((y2 - y3) * (x3 - x3) - (x2 - x3) * (y3 - y3))" by simp
  have h33: "(if edge_aa_enabled aaFlags 3 then 1 / 2 else 3 / 2) - tol
          + 999 / 1000 * corner_edge_distance x y 3 3
        \<le> edge_distance e 3 (lane x 3) (lane y 3) \<and>
      edge_distance e 3 (lane x 3) (lane y 3)
        \<le> (if edge_aa_enabled aaFlags 3 then 1 / 2 else 3 / 2) + tol
          + 1001 / 1000 * corner_edge_distance x y 3 3"
    unfolding of3 ed3 cd3 lx ly tol_def
    by (rule edge_lane_corner [OF acc b3 b2 M l n3 b3 s mask_lane(4) sq33
          a3_def k3_def c3_def off3_def refl])
  show ?thesis
    unfolding e_def [symmetric] tol_def [symmetric] all_less_4
    by (intro conjI h00 h01 h02 h03 h10 h11 h12 h13 h20 h21 h22 h23 h30 h31 h32 h33)
qed

text \<open>
  The theorem on a parallelogram with corners on the grid of sixteenths, in binary32, all
  four edges flagged: the value of the equation of edge 3 at corner 3, which is on the
  edge, is within the tolerance of 1/2, and at corner 1, which is not, it is larger.
\<close>

lemma skewed_quad_bounded:
  "\<forall>i<4. \<bar>lane skewed_quad_x i\<bar> \<le> 128 \<and> \<bar>lane skewed_quad_y i\<bar> \<le> 128"
  unfolding all_less_4 by (simp add: skewed_quad_x_def skewed_quad_y_def lane_def)

lemma skewed_quad_edges:
  "\<forall>j<4. 20 * 20 \<le> lane (edge_length2 skewed_quad_x skewed_quad_y) j"
  unfolding all_less_4
  by (simp add: skewed_quad_x_def skewed_quad_y_def lane_def edge_length2_def Let_def
      nextCCW_def minus_x4_def times_x4_def plus_x4_def)

lemma skewed_quad_robust:
  "robustly_convex_quad (edge_tolerance 128 20) skewed_quad_x skewed_quad_y"
  by (simp add: robustly_convex_quad_def edge_tolerance_def corner_turns_def edge_length2_def
      Let_def skewed_quad_x_def skewed_quad_y_def nextCCW_def nextCW_def minus_x4_def
      times_x4_def plus_x4_def allTrue_def)

lemma skewed_quad_convex:
  "convex_quad skewed_quad_x skewed_quad_y" "nondegenerate_quad skewed_quad_x skewed_quad_y"
  by (simp_all add: convex_quad_def nondegenerate_quad_def corner_turns_def
      Let_def skewed_quad_x_def skewed_quad_y_def nextCCW_def nextCW_def minus_x4_def
      times_x4_def plus_x4_def allTrue_def)

lemma skewed_quad_lane3:
  "edge_xdiff binary32_ops (223 / 4) (1009 / 8) (513 / 8) (1403 / 16) = 892931 / 4194304"
  "edge_ydiff binary32_ops (223 / 4) (1009 / 8) (513 / 8) (1403 / 16) = - (8196307 / 8388608)"
  "edge_c0 binary32_ops (223 / 4) (1009 / 8) (513 / 8) (1403 / 16) = 10659155 / 131072"
proof -
  have dx: "round32 (67 / 8) = 67 / 8"
    by (simp add: round32_eval [of 3] round_to_even_def)
  have dy: "round32 (- (615 / 16)) = - (615 / 16)"
    by (simp add: round32_eval [of 5] round_to_even_def)
  have yy: "round32 (378225 / 256) = 378225 / 256"
    by (simp add: round32_eval [of 10] round_to_even_def)
  have xx: "round32 (4489 / 64) = 4489 / 64"
    by (simp add: round32_eval [of 6] round_to_even_def)
  have ss: "round32 (396181 / 256) = 396181 / 256"
    by (simp add: round32_eval [of 10] round_to_even_def)
  have sq: "round32 (sqrt (396181 / 256)) = 5156283 / 131072"
    using round32_sqrt [of 5 "396181 / 256" 10312566] by (simp add: power2_eq_square)
  have il: "round32 (131072 / 5156283) = 852949 / 33554432"
    by (simp add: round32_eval [of "- 6"] round_to_even_def)
  have L: "edge_invLength binary32_ops (223 / 4) (1009 / 8) (513 / 8) (1403 / 16)
             = 852949 / 33554432"
    by (simp add: edge_invLength_def binary32_ops_def Let_def dx dy yy xx ss sq il)
  have xd: "round32 (57147583 / 268435456) = 892931 / 4194304"
    by (simp add: round32_eval [of "- 3"] round_to_even_def)
  have yd: "round32 (- (524563635 / 536870912)) = - (8196307 / 8388608)"
    by (simp add: round32_eval [of "- 1"] round_to_even_def)
  have m1: "round32 (- (312869 / 64)) = - (312869 / 64)"
    by (simp add: round32_eval [of 12] round_to_even_def)
  have p2: "round32 (517617 / 64) = 517617 / 64"
    by (simp add: round32_eval [of 12] round_to_even_def)
  have r: "round32 (51187 / 16) = 51187 / 16"
    by (simp add: round32_eval [of 11] round_to_even_def)
  have c0: "round32 (43659900463 / 536870912) = 10659155 / 131072"
    by (simp add: round32_eval [of 6] round_to_even_def)
  show "edge_xdiff binary32_ops (223 / 4) (1009 / 8) (513 / 8) (1403 / 16) = 892931 / 4194304"
    by (simp add: edge_xdiff_def L) (simp add: binary32_ops_def dx xd)
  show "edge_ydiff binary32_ops (223 / 4) (1009 / 8) (513 / 8) (1403 / 16)
          = - (8196307 / 8388608)"
    by (simp add: edge_ydiff_def L) (simp add: binary32_ops_def dy yd)
  show "edge_c0 binary32_ops (223 / 4) (1009 / 8) (513 / 8) (1403 / 16) = 10659155 / 131072"
    by (simp add: edge_c0_def L) (simp add: binary32_ops_def m1 p2 r c0)
qed

lemma skewed_quad_c3:
  "edge_c_final binary32_ops True (10659155 / 131072) m = 10724691 / 131072"
proof -
  have "round32 (10724691 / 131072) = 10724691 / 131072"
    by (simp add: round32_eval [of 6] round_to_even_def)
  then show ?thesis by (simp add: edge_c_final_def binary32_ops_def)
qed

lemma skewed_quad_no_flip:
  "0 < edge_test binary32_ops (677 / 16) (1413 / 16) (543 / 16) (507 / 4) (513 / 8) (1403 / 16)"
  "0 < edge_test binary32_ops (543 / 16) (507 / 4) (223 / 4) (1009 / 8) (677 / 16) (1413 / 16)"
  "0 < edge_test binary32_ops (513 / 8) (1403 / 16) (677 / 16) (1413 / 16) (223 / 4) (1009 / 8)"
  "0 < edge_test binary32_ops (223 / 4) (1009 / 8) (513 / 8) (1403 / 16) (543 / 16) (507 / 4)"
  by (rule edge_test_sign(1) [where M = 128 and l = 20 and T = "213295 / 256"],
      simp_all add: binary32_accurate edge_tolerance_def)+


lemma skewed_quad_distances:
  "corner_edge_distance skewed_quad_x skewed_quad_y 3 3 = 0"
  "0 < corner_edge_distance skewed_quad_x skewed_quad_y 3 1"
  by (simp_all add: corner_edge_distance_def Let_def skewed_quad_x_def skewed_quad_y_def
      lane_def nextCCW_def)


theorem edge_equations_cover_corners_witness:
  "accurate binary32_ops \<and>
   robustly_convex_quad (edge_tolerance 128 20) skewed_quad_x skewed_quad_y \<and>
   edge_tolerance 128 20 = 4101 / 1310720 \<and>
   edge_aa_enabled kAll 3 \<and>
   corner_edge_distance skewed_quad_x skewed_quad_y 3 3 = 0 \<and>
   1 / 2 - 4101 / 1310720
     \<le> edge_distance
          (compute_quad_edges_and_outset_vertices binary32_ops kAll skewed_quad_x skewed_quad_y
             False (splat 0) (splat 0))
          3 (lane skewed_quad_x 3) (lane skewed_quad_y 3) \<and>
   edge_distance
     (compute_quad_edges_and_outset_vertices binary32_ops kAll skewed_quad_x skewed_quad_y
        False (splat 0) (splat 0))
     3 (lane skewed_quad_x 3) (lane skewed_quad_y 3) \<le> 1 / 2 + 4101 / 1310720 \<and>
   0 < corner_edge_distance skewed_quad_x skewed_quad_y 3 1 \<and>
   1 / 2 - 4101 / 1310720 + 999 / 1000 * corner_edge_distance skewed_quad_x skewed_quad_y 3 1
     \<le> edge_distance
          (compute_quad_edges_and_outset_vertices binary32_ops kAll skewed_quad_x skewed_quad_y
             False (splat 0) (splat 0))
          3 (lane skewed_quad_x 1) (lane skewed_quad_y 1)"
proof -
  define e where "e = compute_quad_edges_and_outset_vertices binary32_ops kAll skewed_quad_x
    skewed_quad_y False (splat 0) (splat 0)"
  have tol: "edge_tolerance 128 20 = 4101 / 1310720" by (simp add: edge_tolerance_def)
  have en: "edge_aa_enabled kAll 3"
    by (simp add: edge_aa_enabled_def lane_def kAll_def kRight_def)
  have "\<forall>j<4. \<forall>i<4.
      (if edge_aa_enabled kAll j then 1 / 2 else 3 / 2) - edge_tolerance 128 20
          + 999 / 1000 * corner_edge_distance skewed_quad_x skewed_quad_y j i
        \<le> edge_distance e j (lane skewed_quad_x i) (lane skewed_quad_y i) \<and>
      edge_distance e j (lane skewed_quad_x i) (lane skewed_quad_y i)
        \<le> (if edge_aa_enabled kAll j then 1 / 2 else 3 / 2) + edge_tolerance 128 20
          + 1001 / 1000 * corner_edge_distance skewed_quad_x skewed_quad_y j i"
    unfolding e_def
    by (rule edge_equations_cover_corners [OF binary32_accurate skewed_quad_bounded _ _
          skewed_quad_edges skewed_quad_robust]) simp_all
  then have
    "1 / 2 - edge_tolerance 128 20
          + 999 / 1000 * corner_edge_distance skewed_quad_x skewed_quad_y 3 3
        \<le> edge_distance e 3 (lane skewed_quad_x 3) (lane skewed_quad_y 3) \<and>
      edge_distance e 3 (lane skewed_quad_x 3) (lane skewed_quad_y 3)
        \<le> 1 / 2 + edge_tolerance 128 20
          + 1001 / 1000 * corner_edge_distance skewed_quad_x skewed_quad_y 3 3"
    and
    "1 / 2 - edge_tolerance 128 20
          + 999 / 1000 * corner_edge_distance skewed_quad_x skewed_quad_y 3 1
        \<le> edge_distance e 3 (lane skewed_quad_x 1) (lane skewed_quad_y 1)"
    unfolding all_less_4 using en by simp_all
  then show ?thesis
    unfolding e_def [symmetric]
    using binary32_accurate skewed_quad_robust en skewed_quad_distances by (simp add: tol)
qed

text \<open>
  The bounds 1/2 and 3/2 themselves do not hold of what the routine computes in binary32:
  on the same parallelogram, which is convex and not degenerate, the equation of edge 3
  takes the value 524283 / 1048576 at corner 3, which is less than 1/2.
\<close>

theorem edge_equations_binary32_counterexample:
  "convex_quad skewed_quad_x skewed_quad_y \<and> nondegenerate_quad skewed_quad_x skewed_quad_y \<and>
   edge_aa_enabled kAll 3 \<and>
   edge_distance
     (compute_quad_edges_and_outset_vertices binary32_ops kAll skewed_quad_x skewed_quad_y False
        (splat 0) (splat 0))
     3 (lane skewed_quad_x 3) (lane skewed_quad_y 3) = 524283 / 1048576 \<and>
   (524283 / 1048576 :: real) < 1 / 2"
proof -
  define e where "e = compute_quad_edges_and_outset_vertices binary32_ops kAll skewed_quad_x
    skewed_quad_y False (splat 0) (splat 0)"
  note lanes = compute_quad_edges_lanes [OF skewed_quad_x_def skewed_quad_y_def refl refl e_def]
  have "edge_distance e 3 (lane skewed_quad_x 3) (lane skewed_quad_y 3) = 524283 / 1048576"
    using skewed_quad_no_flip
    by (simp add: edge_distance_def lanes lane_def skewed_quad_x_def skewed_quad_y_def
        skewed_quad_lane3 skewed_quad_c3)
  moreover have "edge_aa_enabled kAll 3"
    by (simp add: edge_aa_enabled_def lane_def kAll_def kRight_def)
  ultimately show ?thesis using skewed_quad_convex by (simp add: e_def)
qed



section \<open>The edge equations in exact arithmetic\<close>

lemma exact_lane_value:
  fixes px py nx ny qx qy s m :: real
  assumes "a = s * edge_ydiff exact_ops px py nx ny"
    and "b = - (s * edge_xdiff exact_ops px py nx ny)"
    and "c = edge_c_final exact_ops allEdges (s * edge_c0 exact_ops px py nx ny) m"
  shows "a * qx + b * qy + c
           = s * ((ny - py) * (qx - px) - (nx - px) * (qy - py))
               * edge_invLength exact_ops px py nx ny
             + (1 / 2 + (if allEdges then 0 else 1 - m))"
  unfolding assms
  by (simp add: edge_ydiff_def edge_xdiff_def edge_c0_def edge_c_final_def exact_ops_def Let_def
      algebra_simps)

lemma exact_lane_test:
  "edge_test exact_ops px py nx ny rx ry
     = ((ny - py) * (rx - px) - (nx - px) * (ry - py)) * edge_invLength exact_ops px py nx ny"
  by (simp add: edge_test_def edge_ydiff_def edge_xdiff_def edge_c0_def exact_ops_def Let_def
      algebra_simps)

lemma exact_lane_invLength:
  assumes "0 < (nx - px) * (nx - px) + (ny - py) * (ny - py)"
  shows "0 < edge_invLength exact_ops px py nx ny"
  using assms by (simp add: edge_invLength_def exact_ops_def Let_def)

text \<open>
  With the operations of the real numbers the bounds hold without a tolerance, for every
  convex quad that is not degenerate: rounding is all that separates the values the
  routine returns from them.
\<close>

lemma edge_equations_exact_arithmetic:
  assumes cv: "convex_quad x y" and nd: "nondegenerate_quad x y"
  shows "\<forall>j<4. \<forall>i<4.
      (if edge_aa_enabled aaFlags j then 1 / 2 else 3 / 2)
        \<le> edge_distance
             (compute_quad_edges_and_outset_vertices exact_ops aaFlags x y outsetCorners u v)
             j (lane x i) (lane y i)"
proof -
  obtain x0 x1 x2 x3 where x: "x = X4 x0 x1 x2 x3" by (cases x)
  obtain y0 y1 y2 y3 where y: "y = X4 y0 y1 y2 y3" by (cases y)
  define e where
    "e = compute_quad_edges_and_outset_vertices exact_ops aaFlags x y outsetCorners u v"
  define flip where
    "flip = (edge_test exact_ops x0 y0 x1 y1 x2 y2 < 0 \<or>
             edge_test exact_ops x1 y1 x3 y3 x0 y0 < 0 \<or>
             edge_test exact_ops x2 y2 x0 y0 x3 y3 < 0 \<or>
             edge_test exact_ops x3 y3 x2 y2 x1 y1 < 0)"
  define s where "s = (if flip then - 1 else 1 :: real)"
  note lanes = compute_quad_edges_lanes [OF x y flip_def s_def e_def]
  define t0 where "t0 = (x0 - x2) * (y1 - y0) - (y0 - y2) * (x1 - x0)"
  define L0 where "L0 = edge_invLength exact_ops x0 y0 x1 y1"
  define t1 where "t1 = (x1 - x0) * (y3 - y1) - (y1 - y0) * (x3 - x1)"
  define L1 where "L1 = edge_invLength exact_ops x1 y1 x3 y3"
  define t2 where "t2 = (x2 - x3) * (y0 - y2) - (y2 - y3) * (x0 - x2)"
  define L2 where "L2 = edge_invLength exact_ops x2 y2 x0 y0"
  define t3 where "t3 = (x3 - x1) * (y2 - y3) - (y3 - y1) * (x2 - x3)"
  define L3 where "L3 = edge_invLength exact_ops x3 y3 x2 y2"
  have cv': "(0 \<le> t0 \<and> 0 \<le> t1 \<and> 0 \<le> t2 \<and> 0 \<le> t3) \<or>
             (t0 \<le> 0 \<and> t1 \<le> 0 \<and> t2 \<le> 0 \<and> t3 \<le> 0)"
    using cv unfolding convex_quad_def corner_turns_def Let_def x y t0_def t1_def t2_def t3_def
    by (simp add: nextCCW_def nextCW_def minus_x4_def times_x4_def allTrue_def)
  have nd': "0 < (x1 - x0) * (x1 - x0) + (y1 - y0) * (y1 - y0)"
    "0 < (x3 - x1) * (x3 - x1) + (y3 - y1) * (y3 - y1)"
    "0 < (x0 - x2) * (x0 - x2) + (y0 - y2) * (y0 - y2)"
    "0 < (x2 - x3) * (x2 - x3) + (y2 - y3) * (y2 - y3)"
    using nd unfolding nondegenerate_quad_def Let_def x y
    by (simp_all add: nextCCW_def minus_x4_def times_x4_def plus_x4_def allTrue_def)
  have Lp0: "0 < L0" unfolding L0_def by (rule exact_lane_invLength [OF nd'(1)])
  have Lp1: "0 < L1" unfolding L1_def by (rule exact_lane_invLength [OF nd'(2)])
  have Lp2: "0 < L2" unfolding L2_def by (rule exact_lane_invLength [OF nd'(3)])
  have Lp3: "0 < L3" unfolding L3_def by (rule exact_lane_invLength [OF nd'(4)])
  have T0: "edge_test exact_ops x0 y0 x1 y1 x2 y2 = - t0 * L0"
    unfolding exact_lane_test L0_def [symmetric] by (simp add: t0_def algebra_simps)
  have T1: "edge_test exact_ops x1 y1 x3 y3 x0 y0 = - t1 * L1"
    unfolding exact_lane_test L1_def [symmetric] by (simp add: t1_def algebra_simps)
  have T2: "edge_test exact_ops x2 y2 x0 y0 x3 y3 = - t2 * L2"
    unfolding exact_lane_test L2_def [symmetric] by (simp add: t2_def algebra_simps)
  have T3: "edge_test exact_ops x3 y3 x2 y2 x1 y1 = - t3 * L3"
    unfolding exact_lane_test L3_def [symmetric] by (simp add: t3_def algebra_simps)
  have fl: "flip = (0 < t0 \<or> 0 < t1 \<or> 0 < t2 \<or> 0 < t3)"
    unfolding flip_def T0 T1 T2 T3 using Lp0 Lp1 Lp2 Lp3
    by (simp add: mult_less_0_iff zero_less_mult_iff)
  have st: "0 \<le> s * (- t0)" "0 \<le> s * (- t1)" "0 \<le> s * (- t2)" "0 \<le> s * (- t3)"
    using cv' unfolding s_def fl by auto
  have lx: "lane x 0 = x0" "lane x 1 = x1" "lane x 2 = x2" "lane x 3 = x3"
    and ly: "lane y 0 = y0" "lane y 1 = y1" "lane y 2 = y2" "lane y 3 = y3"
    by (simp_all add: x y lane_def)
  define a0 where "a0 = s * edge_ydiff exact_ops x0 y0 x1 y1"
  define c0 where "c0 = edge_c_final exact_ops (aaFlags = kAll) (s * edge_c0 exact_ops x0 y0 x1 y1)
      (lane0 (aa_mask aaFlags))"
  define k0 where "k0 = - (s * edge_xdiff exact_ops x0 y0 x1 y1)"
  have ed0: "edge_distance e 0 qx qy = a0 * qx + k0 * qy + c0" for qx qy
    by (simp add: edge_distance_def lanes lane_def a0_def k0_def c0_def)
  note v0 = exact_lane_value [OF a0_def k0_def c0_def, folded L0_def]
  have sq00: "0 \<le> s * ((y1 - y0) * (x0 - x0) - (x1 - x0) * (y0 - y0)) * L0" by simp
  have h00: "(if edge_aa_enabled aaFlags 0 then 1 / 2 else 3 / 2)
        \<le> edge_distance e 0 (lane x 0) (lane y 0)"
    unfolding mask_offset(1) [symmetric] ed0 lx ly v0 using sq00 by simp
  have sq01: "0 \<le> s * ((y1 - y0) * (x1 - x0) - (x1 - x0) * (y1 - y0)) * L0" by simp
  have h01: "(if edge_aa_enabled aaFlags 0 then 1 / 2 else 3 / 2)
        \<le> edge_distance e 0 (lane x 1) (lane y 1)"
    unfolding mask_offset(1) [symmetric] ed0 lx ly v0 using sq01 by simp
  have "(y1 - y0) * (x2 - x0) - (x1 - x0) * (y2 - y0) = - t0" by (simp add: t0_def algebra_simps)
  then have sq02: "0 \<le> s * ((y1 - y0) * (x2 - x0) - (x1 - x0) * (y2 - y0)) * L0"
    using mult_nonneg_nonneg [OF st(1) less_imp_le [OF Lp0]] by simp
  have h02: "(if edge_aa_enabled aaFlags 0 then 1 / 2 else 3 / 2)
        \<le> edge_distance e 0 (lane x 2) (lane y 2)"
    unfolding mask_offset(1) [symmetric] ed0 lx ly v0 using sq02 by simp
  have "(y1 - y0) * (x3 - x0) - (x1 - x0) * (y3 - y0) = - t1" by (simp add: t1_def algebra_simps)
  then have sq03: "0 \<le> s * ((y1 - y0) * (x3 - x0) - (x1 - x0) * (y3 - y0)) * L0"
    using mult_nonneg_nonneg [OF st(2) less_imp_le [OF Lp0]] by simp
  have h03: "(if edge_aa_enabled aaFlags 0 then 1 / 2 else 3 / 2)
        \<le> edge_distance e 0 (lane x 3) (lane y 3)"
    unfolding mask_offset(1) [symmetric] ed0 lx ly v0 using sq03 by simp
  define a1 where "a1 = s * edge_ydiff exact_ops x1 y1 x3 y3"
  define c1 where "c1 = edge_c_final exact_ops (aaFlags = kAll) (s * edge_c0 exact_ops x1 y1 x3 y3)
      (lane1 (aa_mask aaFlags))"
  define k1 where "k1 = - (s * edge_xdiff exact_ops x1 y1 x3 y3)"
  have ed1: "edge_distance e 1 qx qy = a1 * qx + k1 * qy + c1" for qx qy
    by (simp add: edge_distance_def lanes lane_def a1_def k1_def c1_def)
  note v1 = exact_lane_value [OF a1_def k1_def c1_def, folded L1_def]
  have "(y3 - y1) * (x0 - x1) - (x3 - x1) * (y0 - y1) = - t1" by (simp add: t1_def algebra_simps)
  then have sq10: "0 \<le> s * ((y3 - y1) * (x0 - x1) - (x3 - x1) * (y0 - y1)) * L1"
    using mult_nonneg_nonneg [OF st(2) less_imp_le [OF Lp1]] by simp
  have h10: "(if edge_aa_enabled aaFlags 1 then 1 / 2 else 3 / 2)
        \<le> edge_distance e 1 (lane x 0) (lane y 0)"
    unfolding mask_offset(2) [symmetric] ed1 lx ly v1 using sq10 by simp
  have sq11: "0 \<le> s * ((y3 - y1) * (x1 - x1) - (x3 - x1) * (y1 - y1)) * L1" by simp
  have h11: "(if edge_aa_enabled aaFlags 1 then 1 / 2 else 3 / 2)
        \<le> edge_distance e 1 (lane x 1) (lane y 1)"
    unfolding mask_offset(2) [symmetric] ed1 lx ly v1 using sq11 by simp
  have "(y3 - y1) * (x2 - x1) - (x3 - x1) * (y2 - y1) = - t3" by (simp add: t3_def algebra_simps)
  then have sq12: "0 \<le> s * ((y3 - y1) * (x2 - x1) - (x3 - x1) * (y2 - y1)) * L1"
    using mult_nonneg_nonneg [OF st(4) less_imp_le [OF Lp1]] by simp
  have h12: "(if edge_aa_enabled aaFlags 1 then 1 / 2 else 3 / 2)
        \<le> edge_distance e 1 (lane x 2) (lane y 2)"
    unfolding mask_offset(2) [symmetric] ed1 lx ly v1 using sq12 by simp
  have sq13: "0 \<le> s * ((y3 - y1) * (x3 - x1) - (x3 - x1) * (y3 - y1)) * L1" by simp
  have h13: "(if edge_aa_enabled aaFlags 1 then 1 / 2 else 3 / 2)
        \<le> edge_distance e 1 (lane x 3) (lane y 3)"
    unfolding mask_offset(2) [symmetric] ed1 lx ly v1 using sq13 by simp
  define a2 where "a2 = s * edge_ydiff exact_ops x2 y2 x0 y0"
  define c2 where "c2 = edge_c_final exact_ops (aaFlags = kAll) (s * edge_c0 exact_ops x2 y2 x0 y0)
      (lane2 (aa_mask aaFlags))"
  define k2 where "k2 = - (s * edge_xdiff exact_ops x2 y2 x0 y0)"
  have ed2: "edge_distance e 2 qx qy = a2 * qx + k2 * qy + c2" for qx qy
    by (simp add: edge_distance_def lanes lane_def a2_def k2_def c2_def)
  note v2 = exact_lane_value [OF a2_def k2_def c2_def, folded L2_def]
  have sq20: "0 \<le> s * ((y0 - y2) * (x0 - x2) - (x0 - x2) * (y0 - y2)) * L2" by simp
  have h20: "(if edge_aa_enabled aaFlags 2 then 1 / 2 else 3 / 2)
        \<le> edge_distance e 2 (lane x 0) (lane y 0)"
    unfolding mask_offset(3) [symmetric] ed2 lx ly v2 using sq20 by simp
  have "(y0 - y2) * (x1 - x2) - (x0 - x2) * (y1 - y2) = - t0" by (simp add: t0_def algebra_simps)
  then have sq21: "0 \<le> s * ((y0 - y2) * (x1 - x2) - (x0 - x2) * (y1 - y2)) * L2"
    using mult_nonneg_nonneg [OF st(1) less_imp_le [OF Lp2]] by simp
  have h21: "(if edge_aa_enabled aaFlags 2 then 1 / 2 else 3 / 2)
        \<le> edge_distance e 2 (lane x 1) (lane y 1)"
    unfolding mask_offset(3) [symmetric] ed2 lx ly v2 using sq21 by simp
  have sq22: "0 \<le> s * ((y0 - y2) * (x2 - x2) - (x0 - x2) * (y2 - y2)) * L2" by simp
  have h22: "(if edge_aa_enabled aaFlags 2 then 1 / 2 else 3 / 2)
        \<le> edge_distance e 2 (lane x 2) (lane y 2)"
    unfolding mask_offset(3) [symmetric] ed2 lx ly v2 using sq22 by simp
  have "(y0 - y2) * (x3 - x2) - (x0 - x2) * (y3 - y2) = - t2" by (simp add: t2_def algebra_simps)
  then have sq23: "0 \<le> s * ((y0 - y2) * (x3 - x2) - (x0 - x2) * (y3 - y2)) * L2"
    using mult_nonneg_nonneg [OF st(3) less_imp_le [OF Lp2]] by simp
  have h23: "(if edge_aa_enabled aaFlags 2 then 1 / 2 else 3 / 2)
        \<le> edge_distance e 2 (lane x 3) (lane y 3)"
    unfolding mask_offset(3) [symmetric] ed2 lx ly v2 using sq23 by simp
  define a3 where "a3 = s * edge_ydiff exact_ops x3 y3 x2 y2"
  define c3 where "c3 = edge_c_final exact_ops (aaFlags = kAll) (s * edge_c0 exact_ops x3 y3 x2 y2)
      (lane3 (aa_mask aaFlags))"
  define k3 where "k3 = - (s * edge_xdiff exact_ops x3 y3 x2 y2)"
  have ed3: "edge_distance e 3 qx qy = a3 * qx + k3 * qy + c3" for qx qy
    by (simp add: edge_distance_def lanes lane_def a3_def k3_def c3_def)
  note v3 = exact_lane_value [OF a3_def k3_def c3_def, folded L3_def]
  have "(y2 - y3) * (x0 - x3) - (x2 - x3) * (y0 - y3) = - t2" by (simp add: t2_def algebra_simps)
  then have sq30: "0 \<le> s * ((y2 - y3) * (x0 - x3) - (x2 - x3) * (y0 - y3)) * L3"
    using mult_nonneg_nonneg [OF st(3) less_imp_le [OF Lp3]] by simp
  have h30: "(if edge_aa_enabled aaFlags 3 then 1 / 2 else 3 / 2)
        \<le> edge_distance e 3 (lane x 0) (lane y 0)"
    unfolding mask_offset(4) [symmetric] ed3 lx ly v3 using sq30 by simp
  have "(y2 - y3) * (x1 - x3) - (x2 - x3) * (y1 - y3) = - t3" by (simp add: t3_def algebra_simps)
  then have sq31: "0 \<le> s * ((y2 - y3) * (x1 - x3) - (x2 - x3) * (y1 - y3)) * L3"
    using mult_nonneg_nonneg [OF st(4) less_imp_le [OF Lp3]] by simp
  have h31: "(if edge_aa_enabled aaFlags 3 then 1 / 2 else 3 / 2)
        \<le> edge_distance e 3 (lane x 1) (lane y 1)"
    unfolding mask_offset(4) [symmetric] ed3 lx ly v3 using sq31 by simp
  have sq32: "0 \<le> s * ((y2 - y3) * (x2 - x3) - (x2 - x3) * (y2 - y3)) * L3" by simp
  have h32: "(if edge_aa_enabled aaFlags 3 then 1 / 2 else 3 / 2)
        \<le> edge_distance e 3 (lane x 2) (lane y 2)"
    unfolding mask_offset(4) [symmetric] ed3 lx ly v3 using sq32 by simp
  have sq33: "0 \<le> s * ((y2 - y3) * (x3 - x3) - (x2 - x3) * (y3 - y3)) * L3" by simp
  have h33: "(if edge_aa_enabled aaFlags 3 then 1 / 2 else 3 / 2)
        \<le> edge_distance e 3 (lane x 3) (lane y 3)"
    unfolding mask_offset(4) [symmetric] ed3 lx ly v3 using sq33 by simp
  show ?thesis
    unfolding e_def [symmetric] all_less_4
    by (intro conjI h00 h01 h02 h03 h10 h11 h12 h13 h20 h21 h22 h23 h30 h31 h32 h33)
qed

section \<open>Tessellation without antialiasing or domain\<close>

lemma texRect_normalized: "texRect srcRect orig iw ih = spec_normalized_rect srcRect orig iw ih"
  by (simp add: texRect_def spec_normalized_rect_def Let_def)

lemma tessellate_quad_result:
  assumes "aaFlags = kNone \<or> aaFlags = kAll" and "w_is_one devQuad"
  shows "tessellate_quad_SkPoint_kNo_kNo devQuad aaFlags srcRect color orig filt vertices iw ih Domain_kNo
     = Inr (spec_passthrough_vertices devQuad (spec_normalized_rect srcRect orig iw ih) color)"
  using assms
  by (cases vertices)
     (auto simp add: tessellate_quad_SkPoint_kNo_kNo_def AssignPositionsAndTexCoords_kNo_SkPoint_def
      SkASSERT_def DomainAssigner_kNo_Assign_def SetRectTriStrip_TextureCoords_def Let_def
      spec_passthrough_vertices_def texRect_normalized quad_x_def quad_y_def lane_def)

text \<open>
  Claim C8. In the layout with two-dimensional positions, no domain and no coverage
  antialiasing, \<^verbatim>\<open>tessellate_quad\<close> writes four vertices whose positions are exactly the
  four destination corners of the quad and whose texture coordinates are exactly the four
  corners of the normalized source rectangle, whatever the vertex memory held before;
  tessellating the same quad again over the vertices just written leaves them as they
  are. The hypotheses are the assertions of the layout: the flags are none or all, and
  every \<open>w\<close> is 1.
\<close>

theorem tessellate_quad_passes_corners_through:
  assumes "aaFlags = kNone \<or> aaFlags = kAll" and "w_is_one devQuad"
  shows "tessellate_quad_SkPoint_kNo_kNo devQuad aaFlags srcRect color orig filt vertices iw ih
           Domain_kNo
         = Inr (spec_passthrough_vertices devQuad (spec_normalized_rect srcRect orig iw ih) color) \<and>
         tessellate_quad_SkPoint_kNo_kNo devQuad aaFlags srcRect color orig filt
           (spec_passthrough_vertices devQuad (spec_normalized_rect srcRect orig iw ih) color)
           iw ih Domain_kNo
         = Inr (spec_passthrough_vertices devQuad (spec_normalized_rect srcRect orig iw ih) color)"
  using tessellate_quad_result [OF assms] by simp

theorem tessellate_quad_passes_corners_through_witness:
  "(kNone = kNone \<or> kNone = kAll) \<and>
   w_is_one \<lparr>x4f = X4 0 0 8 8, y4f = X4 0 4 0 4, w4f = X4 1 1 1 1\<rparr> \<and>
   tessellate_quad_SkPoint_kNo_kNo \<lparr>x4f = X4 0 0 8 8, y4f = X4 0 4 0 4, w4f = X4 1 1 1 1\<rparr>
     kNone \<lparr>fLeft = 0, fTop = 0, fRight = 16, fBottom = 8\<rparr> 255 kTopLeft_GrSurfaceOrigin kNearest
     (splat \<lparr>fPosition = \<lparr>fX = 0, fY = 0\<rparr>, VertexCommon.fColor = 0,
             fTextureCoords = \<lparr>fX = 0, fY = 0\<rparr>\<rparr>)
     (1 / 32) (1 / 16) Domain_kNo
   = Inr (X4 \<lparr>fPosition = \<lparr>fX = 0, fY = 0\<rparr>, VertexCommon.fColor = 255,
              fTextureCoords = \<lparr>fX = 0, fY = 0\<rparr>\<rparr>
             \<lparr>fPosition = \<lparr>fX = 0, fY = 4\<rparr>, VertexCommon.fColor = 255,
              fTextureCoords = \<lparr>fX = 0, fY = 1 / 2\<rparr>\<rparr>
             \<lparr>fPosition = \<lparr>fX = 8, fY = 0\<rparr>, VertexCommon.fColor = 255,
              fTextureCoords = \<lparr>fX = 1 / 2, fY = 0\<rparr>\<rparr>
             \<lparr>fPosition = \<lparr>fX = 8, fY = 4\<rparr>, VertexCommon.fColor = 255,
              fTextureCoords = \<lparr>fX = 1 / 2, fY = 1 / 2\<rparr>\<rparr>)"
proof -
  have a: "kNone = kNone \<or> kNone = kAll" by simp
  have w: "w_is_one \<lparr>x4f = X4 0 0 8 8, y4f = X4 0 4 0 4, w4f = X4 1 1 1 1\<rparr>"
    by (simp add: w_is_one_def allTrue_def)
  show ?thesis
    using a w tessellate_quad_passes_corners_through [OF a w, of
        "\<lparr>fLeft = 0, fTop = 0, fRight = 16, fBottom = 8\<rparr>" 255 kTopLeft_GrSurfaceOrigin kNearest
        "splat \<lparr>fPosition = \<lparr>fX = 0, fY = 0\<rparr>, VertexCommon.fColor = 0,
             fTextureCoords = \<lparr>fX = 0, fY = 0\<rparr>\<rparr>" "1 / 32" "1 / 16"]
    by (simp add: spec_passthrough_vertices_def spec_normalized_rect_def)
qed

section \<open>The domain clamp\<close>

text \<open>
  Claim C6. When no domain is required the clamp rectangle is the fixed rectangle from
  \<open>-2\<close> to \<open>2\<close> on both axes. When one is required it is the rectangle the specification
  describes: inset by half a texel under bilinear filtering, an axis shorter than one
  texel snapped to its centre, scaled by the reciprocal texture dimensions, and flipped
  vertically for a bottom-up origin. \<^verbatim>\<open>DomainAssigner<V, Domain::kYes>::Assign\<close> stores
  that rectangle in all four vertices of the quad.
\<close>

theorem domain_clamp_rect:
  "domainRect Domain_kNo filt srcRect orig iw ih
     = \<lparr>fLeft = - 2, fTop = - 2, fRight = 2, fBottom = 2\<rparr> \<and>
   domainRect Domain_kYes filt srcRect orig iw ih = spec_domain_rect filt srcRect orig iw ih \<and>
   map_x4 fTextureDomain (DomainAssigner_kYes_Assign vertices domain filt srcRect orig iw ih)
     = splat (domainRect domain filt srcRect orig iw ih)"
  by (cases vertices)
     (simp add: domainRect_def spec_domain_rect_def kLargeRect_def Let_def Sk4f_Load_def
      Sk4f_store_def plus_x4_def minus_x4_def times_x4_def splat_def
      DomainAssigner_kYes_Assign_def abs_minus_commute algebra_simps)
section \<open>Assertions and the example inputs\<close>

lemma SkASSERT_Inr: "SkASSERT c k = Inr v \<longleftrightarrow> c \<and> k = Inr v"
  by (simp add: SkASSERT_def)

lemmas example_defs = identity_matrix_def proxy_A_def proxy_B_def rect_0_0_8_8_def
  rect_half_pixel_def entry_A_def entry_B_def no_counts_def quad_0_0_8_8_def quad_half_pixel_def

lemmas make_defs = Let_def SkASSERT_def GrPerspQuad_make_def contains_def isEmpty_def
  aa_has_effect_for_rect_stays_rect_def w_is_one_def allTrue_def quad_x_def quad_y_def lane_def
  SkScalarIsInt_def filter_has_effect_for_rect_stays_rect_def isSorted_def width_def height_def
  SkScalarFraction_def SkScalarTruncToScalar_def Quad_make_def Quad_domain_def setBounds_def
  bounds_def iw4f_def times_x4_def min4_def max4_def kAll_def kNone_def
  MakeLargestInverted_def SK_ScalarMax_def joinPossiblyEmptyRect_def

text \<open>The constructors make the example operations.\<close>

lemma op_plain_A_made:
  "TextureOp_make proxy_A kNearest 255 rect_0_0_8_8 rect_0_0_8_8 GrAAType_kCoverage kAll
     kFast_SrcRectConstraint identity_matrix None None = Inr op_plain_A"
  by (simp add: TextureOp_make_def op_plain_A_def example_defs make_defs)

lemma op_coverage_A_made:
  "TextureOp_make proxy_A kNearest 255 rect_0_0_8_8 rect_half_pixel GrAAType_kCoverage kAll
     kFast_SrcRectConstraint identity_matrix None None = Inr op_coverage_A"
  by (simp add: TextureOp_make_def op_coverage_A_def example_defs make_defs)

lemma op_batch_AB_made:
  "TextureOp_make_set [entry_A, entry_B] kNearest 255 GrAAType_kNone identity_matrix None None
     no_counts = Inr (op_batch_AB, SkRef proxy_B (SkRef proxy_A no_counts))"
  by (simp add: TextureOp_make_set_def op_batch_AB_def example_defs make_defs SkRef_def)

section \<open>The antialiasing state of a single draw\<close>

text \<open>
  Claim C10. The single-draw constructor returns an operation exactly when the request is not
  for mixed samples and none of its assertions fails, and the operation it returns holds one
  quad whose antialiasing state is normalized: a request for no antialiasing clears the
  per-edge flags; a request for MSAA sets all four; a request for coverage antialiasing with
  no edge flagged is stored as no antialiasing. So the operation never has the type coverage
  together with an empty set of edge flags.
\<close>

theorem single_draw_aa_state_normalized:
  "((\<exists>op. TextureOp_make proxy filt color srcRect dstRect aaType aaFlags constraint viewMatrix
            textureColorSpaceXform paintColorSpaceXform = Inr op) \<longleftrightarrow>
      aaType \<noteq> GrAAType_kMixedSamples \<and>
      (\<not> contains srcRect (getWorstCaseBoundsRect proxy) \<or>
       constraint = kFast_SrcRectConstraint) \<and>
      (if rectStaysRect viewMatrix \<and> aaType = GrAAType_kCoverage \<and> aaFlags \<noteq> kNone
       then w_is_one (GrPerspQuad_make dstRect viewMatrix) else True) \<and>
      (if rectStaysRect viewMatrix \<and> filt \<noteq> kNearest
       then w_is_one (GrPerspQuad_make dstRect viewMatrix) \<and> isSorted srcRect else True)) \<and>
   (\<forall>op. TextureOp_make proxy filt color srcRect dstRect aaType aaFlags constraint viewMatrix
            textureColorSpaceXform paintColorSpaceXform = Inr op \<longrightarrow>
      (\<exists>q. fQuads op = [q] \<and>
         (aaType = GrAAType_kNone \<longrightarrow> fAAType op = GrAAType_kNone \<and> fAAFlags q = kNone) \<and>
         (aaType = GrAAType_kMSAA \<longrightarrow> fAAType op = GrAAType_kMSAA \<and> fAAFlags q = kAll) \<and>
         (aaType = GrAAType_kCoverage \<and> aaFlags = kNone \<longrightarrow>
            fAAType op = GrAAType_kNone \<and> fAAFlags q = kNone) \<and>
         \<not> (fAAType op = GrAAType_kCoverage \<and> fAAFlags q = kNone)))"
proof (rule conjI)
  show "(\<exists>op. TextureOp_make proxy filt color srcRect dstRect aaType aaFlags constraint viewMatrix
            textureColorSpaceXform paintColorSpaceXform = Inr op) \<longleftrightarrow>
      aaType \<noteq> GrAAType_kMixedSamples \<and>
      (\<not> contains srcRect (getWorstCaseBoundsRect proxy) \<or>
       constraint = kFast_SrcRectConstraint) \<and>
      (if rectStaysRect viewMatrix \<and> aaType = GrAAType_kCoverage \<and> aaFlags \<noteq> kNone
       then w_is_one (GrPerspQuad_make dstRect viewMatrix) else True) \<and>
      (if rectStaysRect viewMatrix \<and> filt \<noteq> kNearest
       then w_is_one (GrPerspQuad_make dstRect viewMatrix) \<and> isSorted srcRect else True)"
    by (cases aaType)
       (auto simp add: TextureOp_make_def Let_def SkASSERT_def
          aa_has_effect_for_rect_stays_rect_def filter_has_effect_for_rect_stays_rect_def
          split: if_splits sum.splits)
  show "\<forall>op. TextureOp_make proxy filt color srcRect dstRect aaType aaFlags constraint viewMatrix
            textureColorSpaceXform paintColorSpaceXform = Inr op \<longrightarrow>
      (\<exists>q. fQuads op = [q] \<and>
         (aaType = GrAAType_kNone \<longrightarrow> fAAType op = GrAAType_kNone \<and> fAAFlags q = kNone) \<and>
         (aaType = GrAAType_kMSAA \<longrightarrow> fAAType op = GrAAType_kMSAA \<and> fAAFlags q = kAll) \<and>
         (aaType = GrAAType_kCoverage \<and> aaFlags = kNone \<longrightarrow>
            fAAType op = GrAAType_kNone \<and> fAAFlags q = kNone) \<and>
         \<not> (fAAType op = GrAAType_kCoverage \<and> fAAFlags q = kNone))"
    by (cases aaType)
       (auto simp add: TextureOp_make_def Let_def SkASSERT_Inr setBounds_def Quad_make_def
          split: if_splits sum.splits)
qed

text \<open>
  The three normalizations on requests that need them: the draw of the half-pixel rectangle,
  asked with no antialiasing and all four edges flagged, with MSAA and no edge flagged, and
  with coverage antialiasing and no edge flagged. Each request is accepted and the operation
  made has the rewritten state.
\<close>

lemma example_request_is_accepted:
  "\<not> contains rect_0_0_8_8 (getWorstCaseBoundsRect proxy_A) \<or>
     kStrict_SrcRectConstraint = kFast_SrcRectConstraint"
  "w_is_one (GrPerspQuad_make rect_half_pixel identity_matrix)"
  "isSorted rect_0_0_8_8"
  "rectStaysRect identity_matrix"
  "kAll \<noteq> kNone"
  by (simp_all add: example_defs make_defs)

theorem single_draw_aa_state_normalized_witness:
  "(\<exists>op. TextureOp_make proxy_A kBilerp 255 rect_0_0_8_8 rect_half_pixel GrAAType_kNone kAll
           kStrict_SrcRectConstraint identity_matrix None None = Inr op \<and>
         fAAType op = GrAAType_kNone \<and> map fAAFlags (fQuads op) = [kNone]) \<and>
   (\<exists>op. TextureOp_make proxy_A kBilerp 255 rect_0_0_8_8 rect_half_pixel GrAAType_kMSAA kNone
           kStrict_SrcRectConstraint identity_matrix None None = Inr op \<and>
         fAAType op = GrAAType_kMSAA \<and> map fAAFlags (fQuads op) = [kAll]) \<and>
   (\<exists>op. TextureOp_make proxy_A kBilerp 255 rect_0_0_8_8 rect_half_pixel GrAAType_kCoverage kNone
           kStrict_SrcRectConstraint identity_matrix None None = Inr op \<and>
         fAAType op = GrAAType_kNone \<and> map fAAFlags (fQuads op) = [kNone]) \<and>
   kAll \<noteq> kNone"
proof -
  note pre = example_request_is_accepted
  have a: "\<exists>op q. TextureOp_make proxy_A kBilerp 255 rect_0_0_8_8 rect_half_pixel GrAAType_kNone
             kAll kStrict_SrcRectConstraint identity_matrix None None = Inr op \<and>
           fQuads op = [q] \<and> fAAType op = GrAAType_kNone \<and> fAAFlags q = kNone"
    using single_draw_aa_state_normalized [of proxy_A kBilerp 255 rect_0_0_8_8 rect_half_pixel
        GrAAType_kNone kAll kStrict_SrcRectConstraint identity_matrix None None] pre
    by auto
  have b: "\<exists>op q. TextureOp_make proxy_A kBilerp 255 rect_0_0_8_8 rect_half_pixel GrAAType_kMSAA
             kNone kStrict_SrcRectConstraint identity_matrix None None = Inr op \<and>
           fQuads op = [q] \<and> fAAType op = GrAAType_kMSAA \<and> fAAFlags q = kAll"
    using single_draw_aa_state_normalized [of proxy_A kBilerp 255 rect_0_0_8_8 rect_half_pixel
        GrAAType_kMSAA kNone kStrict_SrcRectConstraint identity_matrix None None] pre
    by auto
  have c: "\<exists>op q. TextureOp_make proxy_A kBilerp 255 rect_0_0_8_8 rect_half_pixel
             GrAAType_kCoverage kNone kStrict_SrcRectConstraint identity_matrix None None = Inr op \<and>
           fQuads op = [q] \<and> fAAType op = GrAAType_kNone \<and> fAAFlags q = kNone"
    using single_draw_aa_state_normalized [of proxy_A kBilerp 255 rect_0_0_8_8 rect_half_pixel
        GrAAType_kCoverage kNone kStrict_SrcRectConstraint identity_matrix None None] pre
    by auto
  from a b c pre(5) show ?thesis by auto
qed


section \<open>Coverage antialiasing of a pixel-aligned rectangle\<close>

lemma aa_has_effect_integer_corners:
  assumes "SkScalarIsInt (quad_x quad 0)" "SkScalarIsInt (quad_y quad 0)"
    "SkScalarIsInt (quad_x quad 3)" "SkScalarIsInt (quad_y quad 3)"
    and "aa_has_effect_for_rect_stays_rect quad = Inr r"
  shows "\<not> r"
  using assms by (auto simp add: aa_has_effect_for_rect_stays_rect_def SkASSERT_Inr Let_def)

lemma make_integer_corners:
  assumes made: "TextureOp_make proxy filt color srcRect dstRect GrAAType_kCoverage aaFlags
             constraint viewMatrix textureColorSpaceXform paintColorSpaceXform = Inr op"
    and rsr: "rectStaysRect viewMatrix"
    and ints: "\<forall>i<4. SkScalarIsInt (quad_x (GrPerspQuad_make dstRect viewMatrix) i) \<and>
                      SkScalarIsInt (quad_y (GrPerspQuad_make dstRect viewMatrix) i)"
  shows "fAAType op = GrAAType_kNone" "\<exists>q. fQuads op = [q] \<and> fAAFlags q = kNone"
    "fProxies op = [\<lparr>fProxy = proxy, fQuadCnt = 1\<rparr>]"
proof -
  have i: "SkScalarIsInt (quad_x (GrPerspQuad_make dstRect viewMatrix) 0)"
    "SkScalarIsInt (quad_y (GrPerspQuad_make dstRect viewMatrix) 0)"
    "SkScalarIsInt (quad_x (GrPerspQuad_make dstRect viewMatrix) 3)"
    "SkScalarIsInt (quad_y (GrPerspQuad_make dstRect viewMatrix) 3)"
    using ints by simp_all
  note e = aa_has_effect_integer_corners [OF i]
  show "fAAType op = GrAAType_kNone"
    using made rsr e
    by (auto simp add: TextureOp_make_def Let_def SkASSERT_Inr setBounds_def Quad_make_def
        split: if_splits sum.splits)
  show "\<exists>q. fQuads op = [q] \<and> fAAFlags q = kNone"
    using made rsr e
    by (auto simp add: TextureOp_make_def Let_def SkASSERT_Inr setBounds_def Quad_make_def
        split: if_splits sum.splits)
  show "fProxies op = [\<lparr>fProxy = proxy, fQuadCnt = 1\<rparr>]"
    using made
    by (auto simp add: TextureOp_make_def Let_def SkASSERT_Inr setBounds_def Quad_make_def
        split: if_splits sum.splits)
qed

text \<open>The layout chosen for an operation with one proxy that is flushed on its own.\<close>

lemma layout_alone:
  assumes "fProxies op = [p]"
  shows "onPrepareDraws_layout instantiate op [] =
           (if instantiate (fProxy p)
            then Inr (Some
              \<lparr>fl_gp = TextureGeometryProcessor_Make (textureType (fProxy p)) (config (fProxy p))
                         (fFilter op) (fAAType op = GrAAType_kCoverage) (fPerspective op)
                         (if fDomain op then Domain_kYes else Domain_kNo),
               fl_tessFnIdx = (if fAAType op = GrAAType_kCoverage then 1 else 0) OR
                              (if fDomain op then 2 else 0) OR
                              (if fPerspective op then 4 else 0),
               fl_tessFn = kTessFns ! ((if fAAType op = GrAAType_kCoverage then 1 else 0) OR
                              (if fDomain op then 2 else 0) OR
                              (if fPerspective op then 4 else 0)),
               fl_numProxies = 1, fl_numTotalQuads = fQuadCnt p,
               fl_kHWAntialias_Flag = (fAAType op = GrAAType_kMSAA)\<rparr>)
            else Inr None)"
  using assms
  by (auto simp add: onPrepareDraws_layout_def Let_def SkASSERT_def fProxyCnt_def)

lemma op_coverage_B_made:
  "TextureOp_make proxy_B kNearest 255 rect_0_0_8_8 rect_half_pixel GrAAType_kCoverage kAll
     kFast_SrcRectConstraint identity_matrix None None = Inr op_coverage_B"
  by (simp add: TextureOp_make_def op_coverage_B_def op_coverage_A_def example_defs make_defs)

text \<open>
  Claim C7, as amended. When the view matrix maps rectangles to rectangles and all four
  corners of the mapped destination rectangle have integer coordinates, the single-draw
  constructor turns a request for coverage antialiasing into none: the type of the
  operation is none and the edge flags of its quad are cleared. Flushed on its own, such
  an operation gets the layout without coverage antialiasing: the geometry processor has
  no edge attributes and the tessellation function is one that computes no edge equations
  (and when the texture cannot be instantiated nothing is drawn at all).
\<close>

theorem coverage_aa_of_aligned_rect_resolves_to_none:
  assumes made: "TextureOp_make proxy filt color srcRect dstRect GrAAType_kCoverage aaFlags
             constraint viewMatrix textureColorSpaceXform paintColorSpaceXform = Inr op"
    and rsr: "rectStaysRect viewMatrix"
    and ints: "\<forall>i<4. SkScalarIsInt (quad_x (GrPerspQuad_make dstRect viewMatrix) i) \<and>
                      SkScalarIsInt (quad_y (GrPerspQuad_make dstRect viewMatrix) i)"
  shows "fAAType op = GrAAType_kNone \<and> (\<exists>q. fQuads op = [q] \<and> fAAFlags q = kNone) \<and>
         (\<forall>instantiate. instantiate proxy \<longrightarrow>
            (\<exists>layout. onPrepareDraws_layout instantiate op [] = Inr (Some layout) \<and>
                      \<not> usesCoverageEdgeAA (fl_gp layout) \<and>
                      snd (snd (fl_tessFn layout)) = GrAA_kNo)) \<and>
         (\<forall>instantiate. \<not> instantiate proxy \<longrightarrow>
            onPrepareDraws_layout instantiate op [] = Inr None)"
proof -
  note m = make_integer_corners [OF made rsr ints]
  note l = layout_alone [OF m(3)]
  have "\<exists>layout. onPrepareDraws_layout instantiate op [] = Inr (Some layout) \<and>
                      \<not> usesCoverageEdgeAA (fl_gp layout) \<and>
                      snd (snd (fl_tessFn layout)) = GrAA_kNo"
    if "instantiate proxy" for instantiate
    unfolding l using that m(1)
    by (simp add: usesCoverageEdgeAA_def TextureGeometryProcessor_Make_def kTessFns_def)
  moreover have "onPrepareDraws_layout instantiate op [] = Inr None"
    if "\<not> instantiate proxy" for instantiate
    unfolding l using that by simp
  ultimately show ?thesis using m(1,2) by blast
qed

lemma identity_keeps_integer_corners:
  "\<forall>i<4. SkScalarIsInt (quad_x (GrPerspQuad_make rect_0_0_8_8 identity_matrix) i) \<and>
          SkScalarIsInt (quad_y (GrPerspQuad_make rect_0_0_8_8 identity_matrix) i)"
  by (simp add: example_defs GrPerspQuad_make_def quad_x_def quad_y_def lane_def SkScalarIsInt_def)

theorem coverage_aa_of_aligned_rect_resolves_to_none_witness:
  "TextureOp_make proxy_A kNearest 255 rect_0_0_8_8 rect_0_0_8_8 GrAAType_kCoverage kAll
     kFast_SrcRectConstraint identity_matrix None None = Inr op_plain_A \<and>
   rectStaysRect identity_matrix \<and>
   SkScalarIsInt (quad_x (GrPerspQuad_make rect_0_0_8_8 identity_matrix) 3) \<and>
   fAAType op_plain_A = GrAAType_kNone \<and>
   map fAAFlags (fQuads op_plain_A) = [kNone] \<and>
   map_sum id (map_option (\<lambda>layout. usesCoverageEdgeAA (fl_gp layout)))
     (onPrepareDraws_layout (\<lambda>p. True) op_plain_A []) = Inr (Some False)"
proof -
  have r: "rectStaysRect identity_matrix" by (simp add: identity_matrix_def)
  note t = coverage_aa_of_aligned_rect_resolves_to_none
             [OF op_plain_A_made r identity_keeps_integer_corners]
  from t have a: "fAAType op_plain_A = GrAAType_kNone" by (rule conjunct1)
  from t obtain q where q: "fQuads op_plain_A = [q]" "fAAFlags q = kNone" by blast
  note u = t [THEN conjunct2, THEN conjunct2, THEN conjunct1, THEN spec, of "\<lambda>p. True"]
  from u obtain layout where
    "onPrepareDraws_layout (\<lambda>p. True) op_plain_A [] = Inr (Some layout)"
    "\<not> usesCoverageEdgeAA (fl_gp layout)"
    by blast
  then have l: "map_sum id (map_option (\<lambda>layout. usesCoverageEdgeAA (fl_gp layout)))
     (onPrepareDraws_layout (\<lambda>p. True) op_plain_A []) = Inr (Some False)"
    by simp
  have i: "SkScalarIsInt (quad_x (GrPerspQuad_make rect_0_0_8_8 identity_matrix) 3)"
    using identity_keeps_integer_corners by simp
  have f: "map fAAFlags (fQuads op_plain_A) = [kNone]" using q by simp
  show ?thesis
    by (intro conjI op_plain_A_made r i a f l)
qed

text \<open>
  The claim as it was stated says that the edge attributes are never emitted at flush.
  That fails when the operation is flushed in a chain with an operation that does use
  coverage antialiasing: \<open>op_plain_A\<close> is made from a pixel-aligned rectangle, it may be
  chained with \<open>op_coverage_B\<close>, and the layout of that chain has the edge attributes.
\<close>

theorem coverage_aa_of_aligned_rect_counterexample:
  "TextureOp_make proxy_A kNearest 255 rect_0_0_8_8 rect_0_0_8_8 GrAAType_kCoverage kAll
     kFast_SrcRectConstraint identity_matrix None None = Inr op_plain_A \<and>
   rectStaysRect identity_matrix \<and>
   onCombineIfPossible op_plain_A op_coverage_B caps_dynamic = Inr (kMayChain, op_plain_A) \<and>
   map_sum id (map_option (usesCoverageEdgeAA \<circ> fl_gp))
     (onPrepareDraws_layout always_instantiates op_plain_A [op_coverage_B]) = Inr (Some True)"
  using op_plain_A_made
  by (simp add: identity_matrix_def onCombineIfPossible_def Equals_def op_plain_A_def
      op_coverage_B_def op_coverage_A_def proxy_A_def proxy_B_def caps_dynamic_def fProxyCnt_def
      onPrepareDraws_layout_def Let_def SkASSERT_def usesCoverageEdgeAA_def
      TextureGeometryProcessor_Make_def always_instantiates_def)

section \<open>The batched constructor\<close>

text \<open>One round of the loop: the state the next round starts from.\<close>

lemma set_loop_unfold:
  assumes "set_loop filt color aaType viewMatrix first (entry # entries) st = Inr st'"
  shows "\<exists>aaFlags mustFilter.
           set_loop filt color aaType viewMatrix first entries
             \<lparr>ls_proxies = ls_proxies st @ [\<lparr>fProxy = TextureSetEntry.fProxy entry, fQuadCnt = 1\<rparr>],
              ls_quads = ls_quads st @
                [Quad_make (TextureSetEntry.fSrcRect entry)
                   (GrPerspQuad_make (fDstRect entry) viewMatrix) aaFlags
                   kFast_SrcRectConstraint color],
              ls_bounds = joinPossiblyEmptyRect (ls_bounds st)
                            (bounds (GrPerspQuad_make (fDstRect entry) viewMatrix)),
              ls_needAA = (ls_needAA st \<or> TextureSetEntry.fAAFlags entry \<noteq> kNone),
              ls_mustFilter = mustFilter,
              ls_canSkipAllocatorGather =
                (ls_canSkipAllocatorGather st \<and>
                 canSkipResourceAllocator (TextureSetEntry.fProxy entry)),
              ls_counts = SkRef (TextureSetEntry.fProxy entry) (ls_counts st)\<rparr> = Inr st'"
  using assms
  by (auto simp add: Let_def SkASSERT_Inr split: sum.splits)

lemma set_loop_step:
  assumes "set_loop filt color aaType viewMatrix first (entry # entries) st = Inr st'"
  shows "\<exists>st1. set_loop filt color aaType viewMatrix first entries st1 = Inr st' \<and>
           ls_proxies st1 =
             ls_proxies st @ [\<lparr>fProxy = TextureSetEntry.fProxy entry, fQuadCnt = 1\<rparr>] \<and>
           (\<exists>aaFlags. ls_quads st1 = ls_quads st @
                [Quad_make (TextureSetEntry.fSrcRect entry)
                   (GrPerspQuad_make (fDstRect entry) viewMatrix) aaFlags
                   kFast_SrcRectConstraint color]) \<and>
           ls_counts st1 = SkRef (TextureSetEntry.fProxy entry) (ls_counts st)"
proof -
  from set_loop_unfold [OF assms] obtain aaFlags mustFilter where
    s: "set_loop filt color aaType viewMatrix first entries
             \<lparr>ls_proxies = ls_proxies st @ [\<lparr>fProxy = TextureSetEntry.fProxy entry, fQuadCnt = 1\<rparr>],
              ls_quads = ls_quads st @
                [Quad_make (TextureSetEntry.fSrcRect entry)
                   (GrPerspQuad_make (fDstRect entry) viewMatrix) aaFlags
                   kFast_SrcRectConstraint color],
              ls_bounds = joinPossiblyEmptyRect (ls_bounds st)
                            (bounds (GrPerspQuad_make (fDstRect entry) viewMatrix)),
              ls_needAA = (ls_needAA st \<or> TextureSetEntry.fAAFlags entry \<noteq> kNone),
              ls_mustFilter = mustFilter,
              ls_canSkipAllocatorGather =
                (ls_canSkipAllocatorGather st \<and>
                 canSkipResourceAllocator (TextureSetEntry.fProxy entry)),
              ls_counts = SkRef (TextureSetEntry.fProxy entry) (ls_counts st)\<rparr> = Inr st'"
    by blast
  show ?thesis
    by (rule exI, rule conjI, rule s) auto
qed

lemma set_loop_proxies:
  "set_loop filt color aaType viewMatrix first entries st = Inr st' \<Longrightarrow>
   ls_proxies st' = ls_proxies st @
      map (\<lambda>entry. \<lparr>fProxy = TextureSetEntry.fProxy entry, fQuadCnt = 1\<rparr>) entries"
proof (induction entries arbitrary: st)
  case Nil
  then show ?case by simp
next
  case (Cons entry entries)
  from set_loop_step [OF Cons.prems] obtain st1 where
    "set_loop filt color aaType viewMatrix first entries st1 = Inr st'"
    "ls_proxies st1 = ls_proxies st @ [\<lparr>fProxy = TextureSetEntry.fProxy entry, fQuadCnt = 1\<rparr>]"
    by blast
  with Cons.IH show ?case by simp
qed

lemma set_loop_quads:
  "set_loop filt color aaType viewMatrix first entries st = Inr st' \<Longrightarrow>
   \<forall>q\<in>set (ls_quads st). \<not> fHasDomain q \<Longrightarrow>
   (\<forall>q\<in>set (ls_quads st'). \<not> fHasDomain q) \<and>
   length (ls_quads st') = length (ls_quads st) + length entries"
proof (induction entries arbitrary: st)
  case Nil
  then show ?case by simp
next
  case (Cons entry entries)
  from set_loop_step [OF Cons.prems(1)] obtain st1 aaFlags where s:
    "set_loop filt color aaType viewMatrix first entries st1 = Inr st'"
    "ls_quads st1 = ls_quads st @
                [Quad_make (TextureSetEntry.fSrcRect entry)
                   (GrPerspQuad_make (fDstRect entry) viewMatrix) aaFlags
                   kFast_SrcRectConstraint color]"
    by blast
  have "\<forall>q\<in>set (ls_quads st1). \<not> fHasDomain q"
    using Cons.prems(2) s(2) by (simp add: Quad_make_def)
  from Cons.IH [OF s(1) this] show ?case using s(2) by simp
qed

lemma set_loop_counts:
  "set_loop filt color aaType viewMatrix first entries st = Inr st' \<Longrightarrow>
   ls_counts st' = foldl (\<lambda>h entry. SkRef (TextureSetEntry.fProxy entry) h) (ls_counts st) entries"
proof (induction entries arbitrary: st)
  case Nil
  then show ?case by simp
next
  case (Cons entry entries)
  from set_loop_step [OF Cons.prems] obtain st1 where
    "set_loop filt color aaType viewMatrix first entries st1 = Inr st'"
    "ls_counts st1 = SkRef (TextureSetEntry.fProxy entry) (ls_counts st)"
    by blast
  with Cons.IH show ?case by simp
qed

lemma make_set_fields:
  assumes "TextureOp_make_set set_entries filt color aaType viewMatrix textureColorSpaceXform
             paintColorSpaceXform counts = Inr (op, counts')"
  shows "fProxies op = map (\<lambda>entry. \<lparr>fProxy = TextureSetEntry.fProxy entry, fQuadCnt = 1\<rparr>)
                         (take (length set_entries mod 2 ^ 24) set_entries)"
    and "\<not> fDomain op"
    and "\<forall>q\<in>set (fQuads op). \<not> fHasDomain q"
    and "length (fQuads op) = length (fProxies op)"
    and "counts' = foldl (\<lambda>h entry. SkRef (TextureSetEntry.fProxy entry) h) counts
                     (take (length set_entries mod 2 ^ 24) set_entries)"
    and "\<not> fFinalized op"
proof -
  define visited where "visited = take (length set_entries mod 2 ^ 24) set_entries"
  define st0 where "st0 = \<lparr>ls_proxies = [], ls_quads = [], ls_bounds = MakeLargestInverted,
                      ls_needAA = False, ls_mustFilter = False,
                      ls_canSkipAllocatorGather = True, ls_counts = counts\<rparr>"
  define first where "first = (case visited of [] \<Rightarrow> proxy_A | e # _ \<Rightarrow> TextureSetEntry.fProxy e)"
  have "\<exists>st. set_loop filt color aaType viewMatrix first visited st0 = Inr st \<and>
          fProxies op = ls_proxies st \<and> fQuads op = ls_quads st \<and> \<not> fDomain op \<and>
          counts' = ls_counts st \<and> \<not> fFinalized op"
    using assms unfolding TextureOp_make_set_def visited_def [symmetric] Let_def st0_def [symmetric]
    by (cases visited) (auto simp add: first_def setBounds_def split: sum.splits)
  then obtain st where st: "set_loop filt color aaType viewMatrix first visited st0 = Inr st"
    "fProxies op = ls_proxies st" "fQuads op = ls_quads st" "\<not> fDomain op"
    "counts' = ls_counts st" "\<not> fFinalized op"
    by blast
  have q0: "\<forall>q\<in>set (ls_quads st0). \<not> fHasDomain q" by (simp add: st0_def)
  show "fProxies op = map (\<lambda>entry. \<lparr>fProxy = TextureSetEntry.fProxy entry, fQuadCnt = 1\<rparr>)
                         (take (length set_entries mod 2 ^ 24) set_entries)"
    using set_loop_proxies [OF st(1)] st(2) by (simp add: st0_def visited_def)
  show "\<not> fDomain op" by (rule st(4))
  show "\<forall>q\<in>set (fQuads op). \<not> fHasDomain q"
    using set_loop_quads [OF st(1) q0] st(3) by simp
  show "length (fQuads op) = length (fProxies op)"
    using set_loop_quads [OF st(1) q0] set_loop_proxies [OF st(1)] st(2,3)
    by (simp add: st0_def)
  show "counts' = foldl (\<lambda>h entry. SkRef (TextureSetEntry.fProxy entry) h) counts
                     (take (length set_entries mod 2 ^ 24) set_entries)"
    using set_loop_counts [OF st(1)] st(5) by (simp add: st0_def visited_def)
  show "\<not> fFinalized op" by (rule st(6))
qed

lemma layout_alone_domain:
  assumes "onPrepareDraws_layout instantiate op [] = Inr (Some layout)"
  shows "fDomain_isInitialized (fl_gp layout) = fDomain op"
    and "fst (snd (fl_tessFn layout)) = (if fDomain op then Domain_kYes else Domain_kNo)"
  using assms
  by (auto simp add: onPrepareDraws_layout_def Let_def TextureGeometryProcessor_Make_def
      SkASSERT_Inr kTessFns_def
      split: list.splits sum.splits option.splits if_splits)

text \<open>
  Claim C2, as amended. The batched constructor does not coalesce: every entry it visits
  becomes a group of its own with a quad count of one, in the order of the entries. A
  batch of fewer than \<open>2 ^ 24\<close> entries yields as many groups as it has entries, whatever
  textures they reference: three for the textures A, B, A, and \<open>n\<close> for \<open>n\<close> entries against
  one texture.
\<close>

theorem batched_factory_one_group_per_entry:
  assumes made: "TextureOp_make_set set_entries filt color aaType viewMatrix
             textureColorSpaceXform paintColorSpaceXform counts = Inr (op, counts')"
    and small: "length set_entries < 2 ^ 24"
  shows "fProxyCnt op = length set_entries \<and>
         map fProxy (fProxies op) = map TextureSetEntry.fProxy set_entries \<and>
         (\<forall>group\<in>set (fProxies op). fQuadCnt group = 1) \<and>
         length (fQuads op) = length set_entries"
proof -
  have t: "take (length set_entries mod 2 ^ 24) set_entries = set_entries"
    using small by simp
  note f = make_set_fields [OF made, unfolded t]
  show ?thesis
    using f(1) f(4) by (auto simp add: fProxyCnt_def comp_def)
qed

lemma batch_ABA_made:
  "\<exists>op counts'.
     TextureOp_make_set [entry_A, entry_B, entry_A] kNearest 255 GrAAType_kNone identity_matrix
       None None no_counts = Inr (op, counts')"
  by (simp add: TextureOp_make_set_def example_defs make_defs SkRef_def)

theorem batched_factory_one_group_per_entry_witness:
  "length [entry_A, entry_B, entry_A] < 2 ^ 24 \<and>
   map_sum id (\<lambda>r. fProxyCnt (fst r))
     (TextureOp_make_set [entry_A, entry_B, entry_A] kNearest 255 GrAAType_kNone identity_matrix
        None None no_counts) = Inr 3 \<and>
   map_sum id (\<lambda>r. map fProxy (fProxies (fst r)))
     (TextureOp_make_set [entry_A, entry_B, entry_A] kNearest 255 GrAAType_kNone identity_matrix
        None None no_counts) = Inr [proxy_A, proxy_B, proxy_A]"
proof -
  from batch_ABA_made obtain op counts' where
    m: "TextureOp_make_set [entry_A, entry_B, entry_A] kNearest 255 GrAAType_kNone
          identity_matrix None None no_counts = Inr (op, counts')"
    by blast
  have s: "length [entry_A, entry_B, entry_A] < 2 ^ 24" by simp
  from batched_factory_one_group_per_entry [OF m s]
  have "fProxyCnt op = 3" "map fProxy (fProxies op) = [proxy_A, proxy_B, proxy_A]"
    by (simp_all add: entry_A_def entry_B_def)
  then show ?thesis using m s by simp
qed

text \<open>
  The claim as it was stated has consecutive entries against one texture coalesce into
  one group. Two consecutive entries against texture A yield two groups.
\<close>

theorem batched_factory_coalescing_counterexample:
  "TextureSetEntry.fProxy entry_A = proxy_A \<and>
   map_sum id (fProxyCnt \<circ> fst)
     (TextureOp_make_set [entry_A, entry_A] kNearest 255 GrAAType_kNone identity_matrix
        None None no_counts) = Inr 2"
  by (simp add: TextureOp_make_set_def example_defs make_defs SkRef_def fProxyCnt_def)

text \<open>
  Claim C9. An operation made by the batched constructor has its domain flag clear and
  none of its quads asks for a domain, whatever the entries are. Flushed on its own, it
  gets a layout without the domain attribute, so no clamp rectangle is written.
\<close>

theorem batched_factory_never_needs_domain:
  assumes made: "TextureOp_make_set set_entries filt color aaType viewMatrix
             textureColorSpaceXform paintColorSpaceXform counts = Inr (op, counts')"
  shows "\<not> fDomain op \<and> (\<forall>q\<in>set (fQuads op). Quad_domain q = Domain_kNo) \<and>
         (\<forall>instantiate layout.
            onPrepareDraws_layout instantiate op [] = Inr (Some layout) \<longrightarrow>
              \<not> fDomain_isInitialized (fl_gp layout) \<and>
              fst (snd (fl_tessFn layout)) = Domain_kNo)"
proof -
  note f = make_set_fields [OF made]
  have "\<not> fDomain_isInitialized (fl_gp layout) \<and> fst (snd (fl_tessFn layout)) = Domain_kNo"
    if "onPrepareDraws_layout instantiate op [] = Inr (Some layout)" for instantiate layout
    using layout_alone_domain [OF that] f(2) by simp
  then show ?thesis using f(2) f(3) by (simp add: Quad_domain_def)
qed

theorem batched_factory_never_needs_domain_witness:
  "TextureOp_make_set [entry_A, entry_B] kNearest 255 GrAAType_kNone identity_matrix None None
     no_counts = Inr (op_batch_AB, SkRef proxy_B (SkRef proxy_A no_counts)) \<and>
   \<not> fDomain op_batch_AB \<and>
   map_sum id (map_option (\<lambda>layout. fDomain_isInitialized (fl_gp layout)))
     (onPrepareDraws_layout (\<lambda>p. True) op_batch_AB []) = Inr (Some False)"
proof -
  note t = batched_factory_never_needs_domain [OF op_batch_AB_made]
  have "\<exists>layout. onPrepareDraws_layout (\<lambda>p. True) op_batch_AB [] = Inr (Some layout)"
    by (simp add: onPrepareDraws_layout_def op_batch_AB_def proxy_A_def proxy_B_def Let_def
        SkASSERT_def fProxyCnt_def)
  then obtain layout where
    l: "onPrepareDraws_layout (\<lambda>p. True) op_batch_AB [] = Inr (Some layout)"
    by blast
  from t have "\<forall>instantiate layout.
            onPrepareDraws_layout instantiate op_batch_AB [] = Inr (Some layout) \<longrightarrow>
              \<not> fDomain_isInitialized (fl_gp layout) \<and>
              fst (snd (fl_tessFn layout)) = Domain_kNo"
    by (rule conjunct2 [THEN conjunct2])
  from this [THEN spec, THEN spec, THEN mp, OF l]
  have "\<not> fDomain_isInitialized (fl_gp layout)" by (rule conjunct1)
  with l have "map_sum id (map_option (\<lambda>layout. fDomain_isInitialized (fl_gp layout)))
     (onPrepareDraws_layout (\<lambda>p. True) op_batch_AB []) = Inr (Some False)"
    by simp
  moreover from t have "\<not> fDomain op_batch_AB" by (rule conjunct1)
  ultimately show ?thesis using op_batch_AB_made by simp
qed

section \<open>Combining two operations\<close>

text \<open>
  Claim C3, as amended. When either operation holds more than one proxy group, or the
  other operation is linked into a chain, \<^verbatim>\<open>onCombineIfPossible\<close> never merges and leaves
  the receiver as it was. It answers that the two may be chained when the transforms,
  antialiasing types and filters are compatible, the first proxies of the two have the
  same pixel configuration and texture type, and the backend can bind textures per draw;
  otherwise it answers that they cannot be combined.
\<close>

theorem combine_never_merges_groups_or_chained:
  assumes shape: "1 < fProxyCnt this \<or> 1 < fProxyCnt that \<or> isChained that"
    and this_first: "fProxies this = p # ps"
    and that_first: "fProxies that = q # qs"
  shows "onCombineIfPossible this that caps =
           Inr (if Equals (fTextureColorSpaceXform this) (fTextureColorSpaceXform that) \<and>
                   Equals (fPaintColorSpaceXform this) (fPaintColorSpaceXform that) \<and>
                   (fAAType this = fAAType that \<or>
                    (fAAType this = GrAAType_kCoverage \<and> fAAType that = GrAAType_kNone) \<or>
                    (fAAType that = GrAAType_kCoverage \<and> fAAType this = GrAAType_kNone)) \<and>
                   fFilter this = fFilter that \<and>
                   config (fProxy p) = config (fProxy q) \<and>
                   textureType (fProxy p) = textureType (fProxy q) \<and>
                   dynamicStateArrayGeometryProcessorTextureSupport caps
                then kMayChain else kCannotCombine, this)"
  using assms by (auto simp add: onCombineIfPossible_def Let_def)

theorem combine_never_merges_groups_or_chained_witness:
  "1 < fProxyCnt op_batch_AB \<and>
   onCombineIfPossible op_batch_AB op_plain_A caps_static = Inr (kCannotCombine, op_batch_AB)"
proof -
  have s: "1 < fProxyCnt op_batch_AB \<or> 1 < fProxyCnt op_plain_A \<or> isChained op_plain_A"
    by (simp add: fProxyCnt_def op_batch_AB_def)
  have a: "fProxies op_batch_AB
             = \<lparr>fProxy = proxy_A, fQuadCnt = 1\<rparr> # [\<lparr>fProxy = proxy_B, fQuadCnt = 1\<rparr>]"
    by (simp add: op_batch_AB_def)
  have b: "fProxies op_plain_A = \<lparr>fProxy = proxy_A, fQuadCnt = 1\<rparr> # []"
    by (simp add: op_plain_A_def)
  have "1 < fProxyCnt op_batch_AB" by (simp add: fProxyCnt_def op_batch_AB_def)
  then show ?thesis
    using combine_never_merges_groups_or_chained [OF s a b, of caps_static]
    by (simp add: caps_static_def)
qed

text \<open>
  The claim as it was stated has combine refuse outright for these shapes. With two
  groups on the receiver, equal settings, one pixel configuration and a backend that
  binds textures per draw, it answers that the two may be chained.
\<close>

theorem combine_may_chain_counterexample:
  "1 < fProxyCnt op_batch_AB \<and>
   onCombineIfPossible op_batch_AB op_plain_A caps_dynamic = Inr (kMayChain, op_batch_AB)"
  by (simp add: onCombineIfPossible_def Let_def Equals_def fProxyCnt_def op_batch_AB_def
      op_plain_A_def proxy_A_def proxy_B_def caps_dynamic_def)

text \<open>
  Claim C4, as amended. Two operations with equal transforms and equal filters, each
  with the one proxy group of the same texture, one with no antialiasing and the other
  with coverage antialiasing, and the second not linked into a chain, are merged: the
  result has the type coverage, its quads are those of the receiver followed by those of
  the other, its bounds are the union of both, and its perspective and domain flags are
  the disjunction of both.
\<close>

theorem combine_merges_none_with_coverage:
  assumes xforms: "Equals (fTextureColorSpaceXform this) (fTextureColorSpaceXform that)"
      "Equals (fPaintColorSpaceXform this) (fPaintColorSpaceXform that)"
    and filters: "fFilter this = fFilter that"
    and aa: "(fAAType this = GrAAType_kNone \<and> fAAType that = GrAAType_kCoverage) \<or>
             (fAAType this = GrAAType_kCoverage \<and> fAAType that = GrAAType_kNone)"
    and single: "fProxies this = [p]" "fProxies that = [q]"
    and same: "uniqueID (fProxy p) = uniqueID (fProxy q)"
    and unchained: "\<not> isChained that"
  shows "\<exists>merged.
           onCombineIfPossible this that caps = Inr (kMerged, merged) \<and>
           fAAType merged = GrAAType_kCoverage \<and>
           fQuads merged = fQuads this @ fQuads that \<and>
           length (fQuads merged) = length (fQuads this) + length (fQuads that) \<and>
           fBounds merged = joinPossiblyEmptyRect (fBounds this) (fBounds that) \<and>
           fPerspective merged = (fPerspective this \<or> fPerspective that) \<and>
           fDomain merged = (fDomain this \<or> fDomain that) \<and>
           fProxies merged = [p\<lparr>fQuadCnt := fQuadCnt p + int (length (fQuads that))\<rparr>]"
  using assms
  by (auto simp add: onCombineIfPossible_def Let_def fProxyCnt_def joinBounds_def)

theorem combine_merges_none_with_coverage_witness:
  "fAAType op_plain_A = GrAAType_kNone \<and> fAAType op_coverage_A = GrAAType_kCoverage \<and>
   \<not> isChained op_coverage_A \<and>
   map_sum id fst (onCombineIfPossible op_plain_A op_coverage_A caps_static) = Inr kMerged \<and>
   map_sum id (\<lambda>r. fAAType (snd r)) (onCombineIfPossible op_plain_A op_coverage_A caps_static)
     = Inr GrAAType_kCoverage \<and>
   map_sum id (\<lambda>r. map fAAFlags (fQuads (snd r)))
     (onCombineIfPossible op_plain_A op_coverage_A caps_static) = Inr [kNone, kAll]"
proof -
  have x: "Equals (fTextureColorSpaceXform op_plain_A) (fTextureColorSpaceXform op_coverage_A)"
    "Equals (fPaintColorSpaceXform op_plain_A) (fPaintColorSpaceXform op_coverage_A)"
    by (simp_all add: Equals_def op_plain_A_def op_coverage_A_def)
  have f: "fFilter op_plain_A = fFilter op_coverage_A"
    by (simp add: op_plain_A_def op_coverage_A_def)
  have a: "fAAType op_plain_A = GrAAType_kNone" "fAAType op_coverage_A = GrAAType_kCoverage"
    by (simp_all add: op_plain_A_def op_coverage_A_def)
  have s: "fProxies op_plain_A = [\<lparr>fProxy = proxy_A, fQuadCnt = 1\<rparr>]"
    "fProxies op_coverage_A = [\<lparr>fProxy = proxy_A, fQuadCnt = 1\<rparr>]"
    by (simp_all add: op_plain_A_def op_coverage_A_def)
  have u: "\<not> isChained op_coverage_A" by (simp add: op_coverage_A_def)
  have i: "uniqueID (fProxy \<lparr>fProxy = proxy_A, fQuadCnt = 1\<rparr>)
             = uniqueID (fProxy \<lparr>fProxy = proxy_A, fQuadCnt = 1\<rparr>)"
    by simp
  from combine_merges_none_with_coverage [OF x f disjI1 [OF conjI [OF a]] s i u, of caps_static]
  obtain merged where
    m: "onCombineIfPossible op_plain_A op_coverage_A caps_static = Inr (kMerged, merged)"
      "fAAType merged = GrAAType_kCoverage"
      "fQuads merged = fQuads op_plain_A @ fQuads op_coverage_A"
    by blast
  have "map fAAFlags (fQuads merged) = [kNone, kAll]"
    unfolding m(3) by (simp add: op_plain_A_def op_coverage_A_def)
  then show ?thesis using m(1,2) a u by simp
qed

text \<open>
  The claim as it was stated does not ask that the other operation be unchained. With
  the same two operations and the second linked into a chain, combine does not merge:
  it answers that they may be chained, or that they cannot be combined when the backend
  cannot bind textures per draw.
\<close>

theorem combine_with_chained_counterexample:
  "Equals (fTextureColorSpaceXform op_plain_A)
     (fTextureColorSpaceXform (op_coverage_A\<lparr>isChained := True\<rparr>)) \<and>
   Equals (fPaintColorSpaceXform op_plain_A)
     (fPaintColorSpaceXform (op_coverage_A\<lparr>isChained := True\<rparr>)) \<and>
   fFilter op_plain_A = fFilter (op_coverage_A\<lparr>isChained := True\<rparr>) \<and>
   fAAType op_plain_A = GrAAType_kNone \<and>
   fAAType (op_coverage_A\<lparr>isChained := True\<rparr>) = GrAAType_kCoverage \<and>
   map (uniqueID \<circ> fProxy) (fProxies op_plain_A) = [1] \<and>
   map (uniqueID \<circ> fProxy) (fProxies (op_coverage_A\<lparr>isChained := True\<rparr>)) = [1] \<and>
   onCombineIfPossible op_plain_A (op_coverage_A\<lparr>isChained := True\<rparr>) caps_dynamic
     = Inr (kMayChain, op_plain_A) \<and>
   onCombineIfPossible op_plain_A (op_coverage_A\<lparr>isChained := True\<rparr>) caps_static
     = Inr (kCannotCombine, op_plain_A)"
  by (simp add: onCombineIfPossible_def Let_def Equals_def fProxyCnt_def op_coverage_A_def
      op_plain_A_def proxy_A_def caps_dynamic_def caps_static_def)

section \<open>References on the texture proxies\<close>

lemma finalize_fold:
  "foldl (\<lambda>h p. unref (fProxy p) (addPendingRead (fProxy p) h)) counts ps ident =
     (counts ident)\<lparr>fRefCnt := fRefCnt (counts ident)
                        - int (length (filter (\<lambda>p. uniqueID (fProxy p) = ident) ps)),
                    fPendingReads := fPendingReads (counts ident)
                        + int (length (filter (\<lambda>p. uniqueID (fProxy p) = ident) ps))\<rparr>"
  by (induction ps arbitrary: counts) (simp_all add: unref_def addPendingRead_def)

lemma completedRead_fold:
  "foldl (\<lambda>h p. completedRead (fProxy p) h) counts ps ident =
     (counts ident)\<lparr>fPendingReads := fPendingReads (counts ident)
                        - int (length (filter (\<lambda>p. uniqueID (fProxy p) = ident) ps))\<rparr>"
  by (induction ps arbitrary: counts) (simp_all add: completedRead_def)

lemma unref_fold:
  "foldl (\<lambda>h p. unref (fProxy p) h) counts ps ident =
     (counts ident)\<lparr>fRefCnt := fRefCnt (counts ident)
                        - int (length (filter (\<lambda>p. uniqueID (fProxy p) = ident) ps))\<rparr>"
  by (induction ps arbitrary: counts) (simp_all add: unref_def)

text \<open>
  Claim C5. For an operation that is not finalized and for every proxy: \<^verbatim>\<open>finalize\<close>
  succeeds, sets the flag, and for each reference the operation holds on the proxy it
  registers one pending read and drops one plain reference; the destructor of the
  finalized operation then only completes those pending reads, one for each, and leaves
  the plain references alone; the destructor of an operation that was never finalized
  only drops the plain references, one for each, and leaves the pending reads alone.
  Either way every reference held is released exactly once and nothing stays registered.
  A second \<^verbatim>\<open>finalize\<close> fails its assertion.
\<close>

theorem one_release_path_per_reference:
  assumes "\<not> fFinalized op"
  shows "(\<exists>op' counts'.
            finalize op counts = Inr (op', counts') \<and> fFinalized op' \<and>
            fProxies op' = fProxies op \<and>
            (\<forall>ident. fRefCnt (counts' ident) = fRefCnt (counts ident) - held_references op ident \<and>
                     fPendingReads (counts' ident)
                       = fPendingReads (counts ident) + held_references op ident) \<and>
            (\<forall>ident. fRefCnt (destroy op' counts' ident) = fRefCnt (counts' ident) \<and>
                     fPendingReads (destroy op' counts' ident)
                       = fPendingReads (counts' ident) - held_references op ident) \<and>
            finalize op' counts' = Inl AssertFailed) \<and>
         (\<forall>ident. fRefCnt (destroy op counts ident)
                    = fRefCnt (counts ident) - held_references op ident \<and>
                  fPendingReads (destroy op counts ident) = fPendingReads (counts ident))"
  using assms
  by (simp add: finalize_def destroy_def SkASSERT_def held_references_def finalize_fold
      completedRead_fold unref_fold)

theorem one_release_path_per_reference_witness:
  "\<not> fFinalized op_batch_AB \<and> held_references op_batch_AB 1 = 1 \<and>
   fRefCnt (destroy op_batch_AB one_reference_each 1) = 0 \<and>
   fPendingReads (destroy op_batch_AB one_reference_each 1) = 0"
proof -
  have n: "\<not> fFinalized op_batch_AB" by (simp add: op_batch_AB_def)
  have h: "held_references op_batch_AB 1 = 1"
    by (simp add: held_references_def op_batch_AB_def proxy_A_def proxy_B_def)
  from one_release_path_per_reference [OF n, of one_reference_each]
  have "\<forall>ident. fRefCnt (destroy op_batch_AB one_reference_each ident)
                    = fRefCnt (one_reference_each ident) - held_references op_batch_AB ident \<and>
                  fPendingReads (destroy op_batch_AB one_reference_each ident)
                    = fPendingReads (one_reference_each ident)"
    by (rule conjunct2)
  from this [THEN spec, of 1] show ?thesis
    using n h by (simp add: one_reference_each_def)
qed

section \<open>Further facts about the batched constructor\<close>

text \<open>
  The batched constructor decides \<^verbatim>\<open>needAA\<close> from the flags of the entry as given, not
  from the flags it stores in the quad. For a pixel-aligned rectangle under the identity
  it clears the flags of the quad and yet keeps the type coverage.
\<close>

lemma batched_constructor_keeps_coverage_type:
  "map_sum id (fAAType \<circ> fst)
     (TextureOp_make_set [entry_A_all_edges] kNearest 255 GrAAType_kCoverage identity_matrix
        None None no_counts) = Inr GrAAType_kCoverage \<and>
   map_sum id (map fAAFlags \<circ> fQuads \<circ> fst)
     (TextureOp_make_set [entry_A_all_edges] kNearest 255 GrAAType_kCoverage identity_matrix
        None None no_counts) = Inr [kNone]"
  by (simp add: TextureOp_make_set_def entry_A_all_edges_def example_defs make_defs SkRef_def)

text \<open>
  Over the whole life of an operation made by the batched constructor, finalized or
  not, every counter of every proxy returns to the value it had before the construction.
\<close>

lemma SkRef_fold:
  "foldl (\<lambda>h entry. SkRef (TextureSetEntry.fProxy entry) h) counts entries ident =
     (counts ident)\<lparr>fRefCnt := fRefCnt (counts ident)
        + int (length (filter (\<lambda>entry. uniqueID (TextureSetEntry.fProxy entry) = ident) entries))\<rparr>"
  by (induction entries arbitrary: counts) (simp_all add: SkRef_def)

lemma batched_lifetime_restores_counts:
  assumes made: "TextureOp_make_set set_entries filt color aaType viewMatrix
             textureColorSpaceXform paintColorSpaceXform counts = Inr (op, counts')"
  shows "destroy op counts' ident = counts ident"
    and "finalize op counts' = Inr (op', counts'') \<Longrightarrow> destroy op' counts'' ident = counts ident"
proof -
  note f = make_set_fields [OF made]
  have h: "length (filter (\<lambda>p. uniqueID (fProxy p) = ident) (fProxies op)) =
           length (filter (\<lambda>entry. uniqueID (TextureSetEntry.fProxy entry) = ident)
                     (take (length set_entries mod 2 ^ 24) set_entries))"
    unfolding f(1) by (simp add: filter_map comp_def)
  show "destroy op counts' ident = counts ident"
    using f(6) by (simp add: destroy_def unref_fold f(5) SkRef_fold h)
  show "destroy op' counts'' ident = counts ident"
    if "finalize op counts' = Inr (op', counts'')"
    using that f(6)
    by (auto simp add: finalize_def SkASSERT_Inr destroy_def completedRead_fold finalize_fold
        f(5) SkRef_fold h)
qed

end
